(* ===== verification/Prelude.thy ===== *)
theory Prelude
  imports Main
begin

text \<open>
  Shared vocabulary of the development: the C++ string operations the driver relies on
  (\<open>std::string::substr\<close>, \<open>std::to_string\<close> for \<open>int\<close> and for \<open>float\<close>,
  i.e.\ \<open>printf("%f")\<close>), the decimal parsers that invert them, and the generic list
  lemmas the component theories share. The named collection \<open>wire_simps\<close> gathers the
  equations that evaluate wire strings; component proofs use it with \<open>simp add:\<close>.
\<close>

named_theorems wire_simps "equations that evaluate wire strings"

type_synonym wire = string

subsection \<open>Definitions\<close>

text \<open>
  \<open>s.substr(pos, n)\<close> throws \<open>std::out_of_range\<close> when \<open>pos > s.size()\<close>;
  otherwise it returns at most \<open>n\<close> characters from \<open>pos\<close>. \<open>None\<close> is the
  exception.
\<close>

definition cxx_substr :: "string \<Rightarrow> nat \<Rightarrow> nat \<Rightarrow> string option" where
  "cxx_substr s pos n = (if length s < pos then None else Some (take n (drop pos s)))"

text \<open>\<open>s.erase(std::remove(s.begin(), s.end(), c), s.end())\<close> removes every \<open>c\<close>.\<close>

definition erase_char :: "char \<Rightarrow> string \<Rightarrow> string" where
  "erase_char c s = filter (\<lambda>x. x \<noteq> c) s"

definition digit_char :: "nat \<Rightarrow> char" where
  "digit_char d = char_of (48 + d)"

definition char_digit :: "char \<Rightarrow> nat option" where
  "char_digit c = (let k = (of_char c :: nat) in if 48 \<le> k \<and> k \<le> 57 then Some (k - 48) else None)"

fun nat_digits :: "nat \<Rightarrow> string" where
  "nat_digits n = (if n < 10 then [digit_char n] else nat_digits (n div 10) @ [digit_char (n mod 10)])"

declare nat_digits.simps [simp del]

definition int_to_string :: "int \<Rightarrow> string" where
  "int_to_string i = (if i < 0 then CHR ''-'' # nat_digits (nat (- i)) else nat_digits (nat i))"

text \<open>
  \<open>std::to_string(float)\<close> prints like \<open>printf("%f")\<close>: sign, integer part, point,
  six fractional digits. The model takes the value in millionths (\<open>m\<close> stands for the
  decimal number \<open>m / 10^6\<close> that \<open>%f\<close> prints); the rounding of a binary float to
  that decimal is not modelled.
\<close>

definition pad6 :: "nat \<Rightarrow> string" where
  "pad6 k = replicate (6 - length (nat_digits k)) CHR ''0'' @ nat_digits k"

definition fixed6_to_string :: "int \<Rightarrow> string" where
  "fixed6_to_string m =
     (if m < 0 then ''-'' else []) @ nat_digits (nat \<bar>m\<bar> div 10 ^ 6) @ ''.'' @ pad6 (nat \<bar>m\<bar> mod 10 ^ 6)"

text \<open>\<open>static_cast<int>\<close> of a float truncates toward zero.\<close>

definition trunc_micro :: "int \<Rightarrow> int" where
  "trunc_micro m = sgn m * (\<bar>m\<bar> div 10 ^ 6)"

fun parse_digits_acc :: "nat \<Rightarrow> string \<Rightarrow> nat option" where
  "parse_digits_acc acc [] = Some acc"
| "parse_digits_acc acc (c # cs) =
     (case char_digit c of None \<Rightarrow> None | Some d \<Rightarrow> parse_digits_acc (10 * acc + d) cs)"

definition parse_nat :: "string \<Rightarrow> nat option" where
  "parse_nat s = (if s = [] then None else parse_digits_acc 0 s)"

definition parse_int :: "string \<Rightarrow> int option" where
  "parse_int s =
     (case s of CHR ''-'' # r \<Rightarrow> map_option (\<lambda>n. - int n) (parse_nat r)
      | _ \<Rightarrow> map_option int (parse_nat s))"

definition parse_fixed6 :: "string \<Rightarrow> int option" where
  "parse_fixed6 s =
     (let neg = (s \<noteq> [] \<and> hd s = CHR ''-''); r = (if neg then tl s else s);
          ip = takeWhile (\<lambda>c. c \<noteq> CHR ''.'') r; fp = drop 1 (dropWhile (\<lambda>c. c \<noteq> CHR ''.'') r)
      in if CHR ''.'' \<notin> set r \<or> length fp \<noteq> 6 then None
         else (case (parse_nat ip, parse_nat fp) of
                 (Some a, Some b) \<Rightarrow> Some ((if neg then -1 else 1) * int (a * 10 ^ 6 + b))
               | _ \<Rightarrow> None))"

text \<open>The C character classes \<open>isspace\<close> and \<open>isdigit\<close> (classic locale).\<close>

definition is_space :: "char \<Rightarrow> bool" where
  "is_space c \<longleftrightarrow> c = CHR '' '' \<or> (9 \<le> (of_char c :: nat) \<and> (of_char c :: nat) \<le> 13)"

definition is_digit :: "char \<Rightarrow> bool" where
  "is_digit c \<longleftrightarrow> char_digit c \<noteq> None"

text \<open>Qt's \<open>QString::toInt(&ok)\<close> and \<open>QString::toFloat(&ok)\<close> on decimal text (C locale,
  surrounding white space ignored); \<open>None\<close> is a failed conversion, for which Qt returns 0.
  \<open>toFloat\<close> gives millionths, further digits truncated; its exponent, infinity and NaN forms
  and the rounding to \<open>float\<close> are not modelled.\<close>

definition trim_space :: "string \<Rightarrow> string" where
  "trim_space s = rev (dropWhile is_space (rev (dropWhile is_space s)))"

definition qt_toInt :: "string \<Rightarrow> int option" where
  "qt_toInt s =
     (let t = trim_space s;
          v = (if t \<noteq> [] \<and> hd t = CHR ''-'' then map_option (\<lambda>n. - int n) (parse_nat (tl t))
               else if t \<noteq> [] \<and> hd t = CHR ''+'' then map_option int (parse_nat (tl t))
               else map_option int (parse_nat t))
      in case v of Some i \<Rightarrow> if - (2 ^ 31) \<le> i \<and> i \<le> 2 ^ 31 - 1 then Some i else None | None \<Rightarrow> None)"

definition qt_toFloat :: "string \<Rightarrow> int option" where
  "qt_toFloat s =
     (let t = trim_space s;
          neg = (t \<noteq> [] \<and> hd t = CHR ''-'');
          r = (if t \<noteq> [] \<and> (hd t = CHR ''-'' \<or> hd t = CHR ''+'') then tl t else t);
          ip = takeWhile is_digit r;
          rest = dropWhile is_digit r;
          fp = (if rest \<noteq> [] \<and> hd rest = CHR ''.'' then tl rest else [])
      in if (rest \<noteq> [] \<and> hd rest \<noteq> CHR ''.'') \<or> \<not> list_all is_digit fp \<or> (ip = [] \<and> fp = []) then None
         else (case (parse_digits_acc 0 ip, parse_digits_acc 0 (take 6 (fp @ replicate 6 CHR ''0''))) of
                 (Some a, Some b) \<Rightarrow> Some ((if neg then -1 else 1) * (int a * 10 ^ 6 + int b))
               | _ \<Rightarrow> None))"

text \<open>The value a Qt conversion leaves in the variable: 0 when it fails.\<close>

definition qt_value :: "int option \<Rightarrow> int" where
  "qt_value r = (case r of Some v \<Rightarrow> v | None \<Rightarrow> 0)"

subsection \<open>Lemmas\<close>

lemma cxx_substr_None [simp]: "cxx_substr s pos n = None \<longleftrightarrow> length s < pos"
  by (simp add: cxx_substr_def)

lemma cxx_substr_Some: "pos \<le> length s \<Longrightarrow> cxx_substr s pos n = Some (take n (drop pos s))"
  by (simp add: cxx_substr_def)

lemma cxx_substr_length: "cxx_substr s pos n = Some r \<Longrightarrow> length r = min n (length s - pos)"
  by (auto simp: cxx_substr_def split: if_splits)

lemma erase_char_append [simp]: "erase_char c (xs @ ys) = erase_char c xs @ erase_char c ys"
  by (simp add: erase_char_def)

lemma char_digit_digit_char [simp]: "d < 10 \<Longrightarrow> char_digit (digit_char d) = Some d"
  by (simp add: char_digit_def digit_char_def of_char_of)

lemma char_digit_dot [simp]: "char_digit (CHR ''.'') = None"
  and char_digit_minus [simp]: "char_digit (CHR ''-'') = None"
  by (simp_all add: char_digit_def)

lemma char_digit_other [simp]:
  "char_digit (CHR ''?'') = None" "char_digit (CHR ''\<newline>'') = None"
  "char_digit (CHR 0x0D) = None" "char_digit (CHR '' '') = None"
  by (simp_all add: char_digit_def)

lemma digit_char_neq: "d < 10 \<Longrightarrow> char_digit c = None \<Longrightarrow> digit_char d \<noteq> c"
  by auto

lemma split_at_char [simp]:
  "c \<notin> set xs \<Longrightarrow> takeWhile (\<lambda>x. x \<noteq> c) (xs @ c # ys) = xs"
  "c \<notin> set xs \<Longrightarrow> dropWhile (\<lambda>x. x \<noteq> c) (xs @ c # ys) = c # ys"
  by (induction xs) auto

lemma nat_digits_not_Nil [simp]: "nat_digits n \<noteq> []"
  by (subst nat_digits.simps) simp

lemma nat_digits_digits: "c \<in> set (nat_digits n) \<Longrightarrow> \<exists>d<10. c = digit_char d"
proof (induction n rule: nat_digits.induct)
  case (1 n)
  show ?case
  proof (cases "n < 10")
    case True
    with "1.prems" show ?thesis by (auto simp: nat_digits.simps [of n])
  next
    case False
    with "1.prems" have "c \<in> set (nat_digits (n div 10)) \<or> c = digit_char (n mod 10)"
      by (auto simp: nat_digits.simps [of n])
    then show ?thesis
    proof
      assume "c \<in> set (nat_digits (n div 10))"
      with "1.IH" False show ?thesis by blast
    next
      assume "c = digit_char (n mod 10)"
      then show ?thesis by (intro exI [of _ "n mod 10"]) simp
    qed
  qed
qed

lemma nat_digits_no_char:
  assumes "char_digit x = None"
  shows "x \<notin> set (nat_digits n)"
  using assms nat_digits_digits by fastforce

lemma nat_digits_hd_not_minus [simp]: "hd (nat_digits n) \<noteq> CHR ''-''"
  using nat_digits_no_char [OF char_digit_minus, of n] hd_in_set [OF nat_digits_not_Nil] by metis

lemma length_nat_digits_le: "n < 10 ^ k \<Longrightarrow> 0 < k \<Longrightarrow> length (nat_digits n) \<le> k"
proof (induction n arbitrary: k rule: nat_digits.induct)
  case (1 n)
  show ?case
  proof (cases "n < 10")
    case True
    with "1.prems" show ?thesis by (simp add: nat_digits.simps [of n])
  next
    case False
    then obtain k' where k: "k = Suc k'" and "0 < k'"
      using "1.prems" by (cases k; cases "k - 1") (auto simp: not_less)
    with "1.prems" have "n div 10 < 10 ^ k'"
      by (simp add: less_mult_imp_div_less mult.commute)
    with "1.IH" False \<open>0 < k'\<close> have "length (nat_digits (n div 10)) \<le> k'" by simp
    with False k show ?thesis by (simp add: nat_digits.simps [of n])
  qed
qed

lemma parse_digits_acc_snoc:
  "parse_digits_acc acc (xs @ [c]) =
     (case parse_digits_acc acc xs of None \<Rightarrow> None
      | Some v \<Rightarrow> map_option (\<lambda>d. 10 * v + d) (char_digit c))"
  by (induction xs arbitrary: acc) (auto split: option.splits)

lemma parse_digits_acc_replicate_zero:
  "parse_digits_acc a (replicate k CHR ''0'') = Some (a * 10 ^ k)"
  by (induction k arbitrary: a) (simp_all add: char_digit_def)

lemma parse_digits_acc_zeros [simp]:
  "parse_digits_acc 0 (replicate k CHR ''0'' @ xs) = parse_digits_acc 0 xs"
  by (induction k) (simp_all add: char_digit_def)

lemma parse_digits_acc_nat_digits: "parse_digits_acc 0 (nat_digits n) = Some n"
proof (induction n rule: nat_digits.induct)
  case (1 n)
  then show ?case
    by (cases "n < 10") (simp_all add: nat_digits.simps [of n] parse_digits_acc_snoc)
qed

lemma parse_nat_digits [wire_simps]: "parse_nat (nat_digits n) = Some n"
  by (simp add: parse_nat_def parse_digits_acc_nat_digits)

lemma parse_int_to_string [wire_simps]: "parse_int (int_to_string i) = Some i"
proof (cases "i < 0")
  case True
  then show ?thesis by (simp add: parse_int_def int_to_string_def parse_nat_digits)
next
  case False
  then have "parse_int (nat_digits (nat i)) = map_option int (parse_nat (nat_digits (nat i)))"
    by (cases "nat_digits (nat i)") (auto simp: parse_int_def split: char.splits bool.splits
        dest: arg_cong [where f = hd])
  with False show ?thesis by (simp add: int_to_string_def parse_nat_digits)
qed

lemma length_pad6: "k < 10 ^ 6 \<Longrightarrow> length (pad6 k) = 6"
  using length_nat_digits_le [of k 6] by (simp add: pad6_def)

lemma parse_nat_pad6: "parse_nat (pad6 k) = Some k"
  by (simp add: pad6_def parse_nat_def parse_digits_acc_nat_digits)

lemma no_dot_nat_digits [simp]: "CHR ''.'' \<notin> set (nat_digits n)"
  by (rule nat_digits_no_char) simp

lemma parse_fixed6_to_string [wire_simps]: "parse_fixed6 (fixed6_to_string m) = Some m"
proof -
  let ?a = "nat \<bar>m\<bar> div 10 ^ 6" and ?b = "nat \<bar>m\<bar> mod 10 ^ 6"
  let ?r = "nat_digits ?a @ ''.'' @ pad6 ?b"
  have tw: "takeWhile (\<lambda>c. c \<noteq> CHR ''.'') ?r = nat_digits ?a"
    by simp
  have dw: "drop 1 (dropWhile (\<lambda>c. c \<noteq> CHR ''.'') ?r) = pad6 ?b"
    by simp
  have len: "length (pad6 ?b) = 6" by (simp add: length_pad6)
  have val: "int (?a * 10 ^ 6 + ?b) = \<bar>m\<bar>" by simp
  have hd_r: "hd ?r \<noteq> CHR ''-''" by (simp add: hd_append)
  show ?thesis
  proof (cases "m < 0")
    case True
    then show ?thesis
      using tw dw len val
      by (simp add: parse_fixed6_def fixed6_to_string_def Let_def parse_nat_digits parse_nat_pad6)
  next
    case False
    then show ?thesis
      using tw dw len val hd_r
      by (simp add: parse_fixed6_def fixed6_to_string_def Let_def parse_nat_digits parse_nat_pad6)
  qed
qed

lemma nat_digits_not_query [simp]: "nat_digits n \<noteq> ''?''"
  using nat_digits_no_char [of "CHR ''?''" n] by auto

lemma int_to_string_not_query [simp]: "int_to_string i \<noteq> ''?''"
  by (simp add: int_to_string_def)

lemma fixed6_not_query [simp]: "fixed6_to_string m \<noteq> ''?''"
  by (auto simp: fixed6_to_string_def dest: arg_cong [where f = length])

subsection \<open>Lists of repeated events\<close>

lemma replicate_snoc_append: "replicate (Suc k) x @ rest = replicate k x @ x # rest"
  by (induction k) auto

lemma count_list_replicate: "count_list (replicate k x) y = (if x = y then k else 0)"
  by (induction k) auto

lemma sum_list_upt_delta:
  "(\<Sum>j\<leftarrow>[a..<b]. if j = L then f else 0) = (if a \<le> L \<and> L < b then f else (0::nat))"
  by (simp add: sum_set_upt_conv_sum_list_nat [symmetric])

lemma one_minus_mod2: "Suc 0 - L mod 2 = Suc L mod (2::nat)"
  by (cases "L mod 2 = 0") (simp_all add: mod_Suc)

subsection \<open>Lists, multiplicities and partial maps\<close>

lemma remdups_append_filter:
  "remdups (xs @ ys) = remdups (filter (\<lambda>x. x \<notin> set ys) xs) @ remdups ys"
  by (induction xs) auto

lemma those_length: "those xs = Some ys \<Longrightarrow> length ys = length xs"
  by (induction xs arbitrary: ys) (auto split: option.splits)

lemma those_map_Some: "(\<And>x. x \<in> set xs \<Longrightarrow> f x = Some (g x)) \<Longrightarrow> those (map f xs) = Some (map g xs)"
  by (induction xs) auto

lemma sum_count_list: "finite A \<Longrightarrow> set xs \<subseteq> A \<Longrightarrow> (\<Sum>k\<in>A. count_list xs k) = length xs"
proof (induction xs)
  case Nil
  then show ?case by simp
next
  case (Cons a xs)
  have "(\<Sum>k\<in>A. count_list (a # xs) k) = (\<Sum>k\<in>A. count_list xs k + (if a = k then 1 else 0))"
    by (rule sum.cong) auto
  also have "\<dots> = length (a # xs)"
    using Cons by (simp add: sum.distrib)
  finally show ?case .
qed

lemma int_sum_list_map: "sum_list (map (\<lambda>x. int (f x)) xs) = int (sum_list (map f xs))"
  by (induction xs) auto

lemma count_list_pos: "x \<in> set xs \<Longrightarrow> 0 < count_list xs x"
  by (induction xs) auto

lemma remdups_replicate_pos: "0 < n \<Longrightarrow> remdups (replicate n x) = [x]"
  by (induction n) auto


lemma all_less_Suc_shift: "(\<forall>i<length (x # xs). P i) \<longleftrightarrow> P 0 \<and> (\<forall>i<length xs. P (Suc i))"
  by (auto simp: less_Suc_eq_0_disj)

lemma take_diff_Cons: "j < n \<Longrightarrow> take (n - j) (x # xs) = x # take (n - Suc j) xs"
  by (metis Suc_diff_Suc take_Suc_Cons)

lemma append_split_at:
  assumes "xs @ ys = pre @ c # extra"
  shows "(\<exists>e. xs = pre @ c # e) \<or> (\<exists>p. pre = xs @ p \<and> ys = p @ c # extra)"
proof -
  obtain us where "xs = pre @ us \<and> us @ ys = c # extra \<or> xs @ us = pre \<and> ys = us @ c # extra"
    using assms by (auto simp: append_eq_append_conv2)
  then show ?thesis by (cases us) auto
qed

subsection \<open>Digits and character classes\<close>

lemma of_char_digit_char: "d < 10 \<Longrightarrow> (of_char (digit_char d) :: nat) = 48 + d"
  by (simp add: digit_char_def of_char_of)

lemma digit_char_below: "d < 10 \<Longrightarrow> (of_char c :: nat) < 48 \<Longrightarrow> digit_char d \<noteq> c"
  using of_char_digit_char by fastforce

lemma digit_char_props:
  assumes "d < 10"
  shows "\<not> is_space (digit_char d)" "is_digit (digit_char d)"
    "digit_char d \<noteq> CHR ''-''" "digit_char d \<noteq> CHR ''+''" "digit_char d \<noteq> CHR ''\<newline>''"
  using assms digit_char_below [OF assms] of_char_digit_char [OF assms]
  by (simp_all add: is_space_def is_digit_def)

lemma nat_digits_props:
  assumes "c \<in> set (nat_digits n)"
  shows "\<not> is_space c" "is_digit c" "c \<noteq> CHR ''-''" "c \<noteq> CHR ''+''" "c \<noteq> CHR ''\<newline>''"
  using nat_digits_digits [OF assms] digit_char_props by auto

lemma nat_digits_Cons: "\<exists>c cs. nat_digits n = c # cs \<and> c \<in> set (nat_digits n)"
  by (cases "nat_digits n") auto

lemma extract_nat_digits:
  assumes "takeWhile is_digit rest = []"
  shows "takeWhile is_digit (nat_digits n @ rest) = nat_digits n"
    "dropWhile is_digit (nat_digits n @ rest) = rest"
    "dropWhile is_space (nat_digits n @ rest) = nat_digits n @ rest"
  using assms nat_digits_props(2) [of _ n] nat_digits_Cons [of n] nat_digits_props(1) [of _ n]
  by (auto simp: takeWhile_append2 dropWhile_append2 takeWhile_eq_Nil_iff dropWhile_eq_self_iff
      simp del: dropWhile_eq_Nil_conv)

subsection \<open>Qt conversions\<close>

lemma parse_digits_acc_dot: "CHR ''.'' \<in> set s \<Longrightarrow> parse_digits_acc a s = None"
  by (induction s arbitrary: a) (auto split: option.split)

lemma dropWhile_keeps: "c \<in> set s \<Longrightarrow> \<not> P c \<Longrightarrow> c \<in> set (dropWhile P s)"
  by (induction s) auto

lemma trim_space_keeps: "c \<in> set s \<Longrightarrow> \<not> is_space c \<Longrightarrow> c \<in> set (trim_space s)"
  by (simp add: trim_space_def dropWhile_keeps)

lemma qt_toInt_dot: "CHR ''.'' \<in> set s \<Longrightarrow> qt_toInt s = None"
proof -
  assume "CHR ''.'' \<in> set s"
  then have d: "CHR ''.'' \<in> set (trim_space s)" by (rule trim_space_keeps) (simp add: is_space_def)
  show ?thesis
  proof (cases "trim_space s")
    case Nil
    with d show ?thesis by simp
  next
    case (Cons c r)
    with d have "CHR ''.'' \<in> set r \<or> c = CHR ''.''" by auto
    with Cons d show ?thesis
      by (auto simp: qt_toInt_def Let_def parse_nat_def parse_digits_acc_dot simp del: parse_digits_acc.simps)
  qed
qed

end
