(* ===== verification/Command_Codec.thy ===== *)
theory Command_Codec
  imports Prelude
begin

text \<open>
  The SMC100 command codec of \<open>src/src/SMC100C.cpp\<close> and
  \<open>src/dependencies/include/SMC100C.h\<close>: the enumerations of the header, the static
  \<open>CommandLibrary\<close> and \<open>StatusLibrary\<close> tables, \<open>SetCommand\<close> (selection of the
  table row by the enum's ordinal), the byte sequence \<open>SendCurrentCommand\<close> writes,
  the decoding of a status reply (\<open>GetCurrentStatus\<close>) and of an error character
  (\<open>ConvertToErrorString\<close>). The command parameter, a C++ \<open>float\<close>, is the decimal
  value in millionths that \<open>std::to_string\<close> prints (see \<open>Prelude\<close>).
\<close>

subsection \<open>Enumerations and the command table\<close>

datatype CommandType =
    NoneCmd | Acceleration | BacklashComp | HysterisisComp | DriverVoltage
  | KdLowPassFilterCutOff | FollowingErrorLim | FrictionComp | HomeSearchType
  | StageIdentifier | LeaveJoggingState | KeypadEnable | JerkTime | DerivativeGain
  | IntegralGain | ProportionalGain | VelocityFeedForward | Enable | HomeSearchVelocity
  | HomeSearch | HomeSearchTimeout | MoveAbs | MoveRel | MoveEstimate | Configure | Analog
  | TTLInputVal | Reset | RS485Adress | TTLOutputVal | ControlLoopState
  | NegativeSoftwareLim | PositiveSoftwareLim | StopMotion | EncoderIncrementVal
  | CommandErrorString | LastCommandErr | PositionAsSet | PositionReal | ErrorStatus
  | Velocity | BaseVelocity | ControllerRevisionInfo | AllConfigParam | ESPStageConfig

datatype CommandParameterType = ParamNone | ParamInt | ParamFloat

datatype CommandGetSetType = GS_None | GS_Get | GS_Set | GS_GetSet | GS_GetAlways

record CommandStruct =
  Command :: CommandType
  CommandChar :: string
  SendType :: CommandParameterType
  GetSetType :: CommandGetSetType

record CommandEntry =
  EntryCommand :: CommandStruct
  GetOrSet :: CommandGetSetType
  Parameter :: int

abbreviation cmd_row :: "CommandType \<Rightarrow> string \<Rightarrow> CommandParameterType \<Rightarrow> CommandGetSetType \<Rightarrow> CommandStruct" where
  "cmd_row t c p g \<equiv> \<lparr>Command = t, CommandChar = c, SendType = p, GetSetType = g\<rparr>"

definition CommandLibrary :: "CommandStruct list" where
  "CommandLibrary = [
    cmd_row NoneCmd ''  '' ParamNone GS_None,
    cmd_row Acceleration ''AC'' ParamFloat GS_GetSet,
    cmd_row BacklashComp ''BA'' ParamFloat GS_GetSet,
    cmd_row HysterisisComp ''BH'' ParamFloat GS_GetSet,
    cmd_row DriverVoltage ''DV'' ParamFloat GS_GetSet,
    cmd_row KdLowPassFilterCutOff ''FD'' ParamFloat GS_GetSet,
    cmd_row FollowingErrorLim ''FE'' ParamFloat GS_GetSet,
    cmd_row FrictionComp ''FF'' ParamFloat GS_GetSet,
    cmd_row HomeSearchType ''HT'' ParamInt GS_GetSet,
    cmd_row StageIdentifier ''ID'' ParamFloat GS_GetSet,
    cmd_row LeaveJoggingState ''JD'' ParamNone GS_None,
    cmd_row KeypadEnable ''JM'' ParamInt GS_GetSet,
    cmd_row JerkTime ''JR'' ParamFloat GS_GetSet,
    cmd_row DerivativeGain ''KD'' ParamFloat GS_GetSet,
    cmd_row IntegralGain ''KI'' ParamFloat GS_GetSet,
    cmd_row ProportionalGain ''KP'' ParamFloat GS_GetSet,
    cmd_row VelocityFeedForward ''KV'' ParamFloat GS_GetSet,
    cmd_row Enable ''MM'' ParamInt GS_None,
    cmd_row HomeSearchVelocity ''OH'' ParamFloat GS_GetSet,
    cmd_row HomeSearch ''OR'' ParamNone GS_None,
    cmd_row HomeSearchTimeout ''OT'' ParamFloat GS_GetSet,
    cmd_row MoveAbs ''PA'' ParamFloat GS_GetSet,
    cmd_row MoveRel ''PR'' ParamFloat GS_GetSet,
    cmd_row MoveEstimate ''PT'' ParamFloat GS_GetAlways,
    cmd_row Configure ''PW'' ParamInt GS_GetSet,
    cmd_row Analog ''RA'' ParamNone GS_GetAlways,
    cmd_row TTLInputVal ''RB'' ParamNone GS_GetAlways,
    cmd_row Reset ''RS'' ParamNone GS_None,
    cmd_row RS485Adress ''SA'' ParamInt GS_GetSet,
    cmd_row TTLOutputVal ''SB'' ParamInt GS_GetSet,
    cmd_row ControlLoopState ''SC'' ParamInt GS_GetSet,
    cmd_row NegativeSoftwareLim ''SL'' ParamFloat GS_GetSet,
    cmd_row PositiveSoftwareLim ''SR'' ParamFloat GS_GetSet,
    cmd_row StopMotion ''ST'' ParamNone GS_None,
    cmd_row EncoderIncrementVal ''SU'' ParamFloat GS_GetSet,
    cmd_row CommandErrorString ''TB'' ParamNone GS_GetAlways,
    cmd_row LastCommandErr ''TE'' ParamNone GS_GetAlways,
    cmd_row PositionAsSet ''TH'' ParamNone GS_GetAlways,
    cmd_row PositionReal ''TP'' ParamNone GS_GetAlways,
    cmd_row ErrorStatus ''TS'' ParamNone GS_GetAlways,
    cmd_row Velocity ''VA'' ParamFloat GS_GetSet,
    cmd_row BaseVelocity ''Vb'' ParamFloat GS_GetSet,
    cmd_row ControllerRevisionInfo ''VE'' ParamNone GS_GetAlways,
    cmd_row AllConfigParam ''ZT'' ParamNone GS_GetAlways,
    cmd_row ESPStageConfig ''ZX'' ParamNone GS_GetSet]"

text \<open>\<open>static_cast<int>(Type)\<close>: the declaration order of the enum.\<close>

fun command_ordinal :: "CommandType \<Rightarrow> nat" where
  "command_ordinal NoneCmd = 0" | "command_ordinal Acceleration = 1"
| "command_ordinal BacklashComp = 2" | "command_ordinal HysterisisComp = 3"
| "command_ordinal DriverVoltage = 4" | "command_ordinal KdLowPassFilterCutOff = 5"
| "command_ordinal FollowingErrorLim = 6" | "command_ordinal FrictionComp = 7"
| "command_ordinal HomeSearchType = 8" | "command_ordinal StageIdentifier = 9"
| "command_ordinal LeaveJoggingState = 10" | "command_ordinal KeypadEnable = 11"
| "command_ordinal JerkTime = 12" | "command_ordinal DerivativeGain = 13"
| "command_ordinal IntegralGain = 14" | "command_ordinal ProportionalGain = 15"
| "command_ordinal VelocityFeedForward = 16" | "command_ordinal Enable = 17"
| "command_ordinal HomeSearchVelocity = 18" | "command_ordinal HomeSearch = 19"
| "command_ordinal HomeSearchTimeout = 20" | "command_ordinal MoveAbs = 21"
| "command_ordinal MoveRel = 22" | "command_ordinal MoveEstimate = 23"
| "command_ordinal Configure = 24" | "command_ordinal Analog = 25"
| "command_ordinal TTLInputVal = 26" | "command_ordinal Reset = 27"
| "command_ordinal RS485Adress = 28" | "command_ordinal TTLOutputVal = 29"
| "command_ordinal ControlLoopState = 30" | "command_ordinal NegativeSoftwareLim = 31"
| "command_ordinal PositiveSoftwareLim = 32" | "command_ordinal StopMotion = 33"
| "command_ordinal EncoderIncrementVal = 34" | "command_ordinal CommandErrorString = 35"
| "command_ordinal LastCommandErr = 36" | "command_ordinal PositionAsSet = 37"
| "command_ordinal PositionReal = 38" | "command_ordinal ErrorStatus = 39"
| "command_ordinal Velocity = 40" | "command_ordinal BaseVelocity = 41"
| "command_ordinal ControllerRevisionInfo = 42" | "command_ordinal AllConfigParam = 43"
| "command_ordinal ESPStageConfig = 44"

text \<open>\<open>SetCommand\<close>: \<open>CommandToPrint.Command = &CommandLibrary[static_cast<int>(Type)]\<close>.\<close>

definition SetCommand :: "CommandType \<Rightarrow> int \<Rightarrow> CommandGetSetType \<Rightarrow> CommandEntry" where
  "SetCommand t p g = \<lparr>EntryCommand = CommandLibrary ! command_ordinal t, GetOrSet = g, Parameter = p\<rparr>"

subsection \<open>The bytes \<open>SendCurrentCommand\<close> writes\<close>

definition ControllerAdress :: string where
  "ControllerAdress = ''1''"

definition CRLF :: string where
  "CRLF = [CHR 0x0D, CHR 0x0A]"

text \<open>
  After the address and the two-character code, a \<open>Get\<close> request writes \<open>?\<close>; every
  other request writes the parameter as its \<open>SendType\<close> says (\<open>Int\<close>: the
  truncated integer, \<open>Float\<close>: \<open>%f\<close>, \<open>None\<close>: nothing), whatever its intent.
\<close>

definition encode_suffix :: "CommandEntry \<Rightarrow> string" where
  "encode_suffix e =
     (if GetOrSet e = GS_Get then ''?''
      else (case SendType (EntryCommand e) of
              ParamInt \<Rightarrow> int_to_string (trunc_micro (Parameter e))
            | ParamFloat \<Rightarrow> fixed6_to_string (Parameter e)
            | ParamNone \<Rightarrow> []))"

text \<open>The four \<open>my_serial.write\<close> calls of \<open>SendCurrentCommand\<close>, in order.\<close>

definition command_chunks :: "CommandEntry \<Rightarrow> string list" where
  "command_chunks e = [ControllerAdress, CommandChar (EntryCommand e), encode_suffix e, CRLF]"

text \<open>
  A serial write may be short: \<open>written\<close> lists the byte counts the port accepted per
  call (a missing entry is a full write). Only the first write's count is checked.
\<close>

fun emit :: "string list \<Rightarrow> nat list \<Rightarrow> string" where
  "emit [] ns = []"
| "emit (c # cs) [] = c @ emit cs []"
| "emit (c # cs) (n # ns) = take n c @ emit cs ns"

definition SendCurrentCommand :: "CommandEntry \<Rightarrow> nat list \<Rightarrow> bool \<times> string" where
  "SendCurrentCommand e written =
     (case written of
        n # ns \<Rightarrow> if n \<noteq> length ControllerAdress then (False, take n ControllerAdress)
                  else (True, ControllerAdress @ emit (tl (command_chunks e)) ns)
      | [] \<Rightarrow> (True, emit (command_chunks e) []))"

text \<open>The line on the wire when every write is complete.\<close>

definition wire_line :: "CommandEntry \<Rightarrow> string" where
  "wire_line e = concat (command_chunks e)"

text \<open>A character of the SMC100's ASCII command set: printable, so neither CR nor LF.\<close>

definition wire_char :: "char \<Rightarrow> bool" where
  "wire_char c \<longleftrightarrow> 32 \<le> (of_char c :: nat) \<and> (of_char c :: nat) < 127"

subsection \<open>Status and error decoding\<close>

datatype StatusType = Unknown | Error | Config | NoReference | Homing | Moving | Ready
  | Disabled | Jogging

definition StatusLibrary :: "(string \<times> StatusType) list" where
  "StatusLibrary = [
    (''0A'', NoReference), (''0B'', NoReference), (''0C'', NoReference),
    (''0D'', NoReference), (''0E'', NoReference), (''0F'', NoReference),
    (''10'', NoReference), (''11'', NoReference), (''14'', Config),
    (''1E'', Homing), (''1F'', Homing), (''28'', Moving),
    (''32'', Ready), (''33'', Ready), (''34'', Ready), (''35'', Ready),
    (''3C'', Disabled), (''3D'', Disabled), (''3E'', Disabled),
    (''46'', Jogging), (''47'', Jogging)]"

fun status_text :: "StatusType \<Rightarrow> string" where
  "status_text Config = ''Configuration''"
| "status_text NoReference = ''No Reference''"
| "status_text Homing = ''Homing''"
| "status_text Moving = ''Moving''"
| "status_text Ready = ''Ready''"
| "status_text Disabled = ''Disabled''"
| "status_text Jogging = ''Jogging''"
| "status_text Error = ''Error''"
| "status_text Unknown = ''Unknown''"

text \<open>
  The decoding half of \<open>GetCurrentStatus\<close>: \<open>response.substr(7, 2)\<close> (which
  throws \<open>std::out_of_range\<close>, here \<open>None\<close>, on a reply shorter than 7 characters),
  then the first matching row of \<open>StatusLibrary\<close>, else
  \<open>"Unknown Status Code: " + statusCode\<close>.
\<close>

definition decode_status :: "string \<Rightarrow> string option" where
  "decode_status response =
     (case cxx_substr response 7 2 of
        None \<Rightarrow> None
      | Some code \<Rightarrow> Some (case map_of StatusLibrary code of
                             Some ty \<Rightarrow> status_text ty
                           | None \<Rightarrow> ''Unknown Status Code: '' @ code))"

definition ErrorCharTable :: "(char \<times> string) list" where
  "ErrorCharTable = [
    (CHR ''@'', ''No Error Encountered''), (CHR ''A'', ''Unknown message''),
    (CHR ''B'', ''Incorrect address''), (CHR ''C'', ''Parameter missing''),
    (CHR ''D'', ''Command not allowed''), (CHR ''E'', ''Already homing''),
    (CHR ''F'', ''ESP stage unknown''), (CHR ''G'', ''Displacement out of limits''),
    (CHR ''H'', ''Not allowed in NOT REFERENCED''), (CHR ''I'', ''Not allowed in CONFIGURATION''),
    (CHR ''J'', ''Not allowed in DISABLED''), (CHR ''K'', ''Not allowed in READY''),
    (CHR ''L'', ''Not allowed in HOMING''), (CHR ''M'', ''Not allowed in MOVING''),
    (CHR ''N'', ''Out of soft limits''), (CHR ''S'', ''Communication time out''),
    (CHR ''U'', ''EEPROM error''), (CHR ''V'', ''Error during command execution''),
    (CHR ''W'', ''Command not allowed for PP''), (CHR ''X'', ''Command not allowed for CC'')]"

text \<open>The \<open>switch\<close> of \<open>ConvertToErrorString\<close>; the \<open>default\<close> branch returns \<open>"0"\<close>.\<close>

definition ConvertToErrorString :: "char \<Rightarrow> string" where
  "ConvertToErrorString c = (case map_of ErrorCharTable c of Some s \<Rightarrow> s | None \<Rightarrow> ''0'')"

subsection \<open>Abstract specification: the controller's reading of a command line\<close>

text \<open>
  What the SMC100 reads from a line \<open><address><code>[?|value]\r\n\<close>: the command the
  code names, and whether it is a query, a value (in millionths) or neither. This is the
  specification the encoder is checked against; it is not code of the repository.
\<close>

datatype RequestMarker = Query | Value int | NoValue

definition lookup_code :: "string \<Rightarrow> CommandStruct option" where
  "lookup_code c = find (\<lambda>r. CommandChar r = c) CommandLibrary"

definition strip_crlf :: "string \<Rightarrow> string option" where
  "strip_crlf s = (if 2 \<le> length s \<and> drop (length s - 2) s = CRLF then Some (take (length s - 2) s) else None)"

definition decode_line :: "string \<Rightarrow> (CommandType \<times> RequestMarker) option" where
  "decode_line line =
     (case line of
        [] \<Rightarrow> None
      | a # r \<Rightarrow>
          if [a] \<noteq> ControllerAdress then None
          else (case strip_crlf r of
                  None \<Rightarrow> None
                | Some body \<Rightarrow>
                    (case lookup_code (take 2 body) of
                       None \<Rightarrow> None
                     | Some row \<Rightarrow>
                         let rest = drop 2 body in
                         if rest = ''?'' then Some (Command row, Query)
                         else (case SendType row of
                                 ParamNone \<Rightarrow> if rest = [] then Some (Command row, NoValue) else None
                               | ParamInt \<Rightarrow> map_option (\<lambda>i. (Command row, Value (10 ^ 6 * i))) (parse_int rest)
                               | ParamFloat \<Rightarrow> map_option (\<lambda>m. (Command row, Value m)) (parse_fixed6 rest)))))"

text \<open>The marker a request should carry: \<open>?\<close> for \<open>Get\<close>, else the value its row's parameter type sends.\<close>

definition expected_marker :: "CommandEntry \<Rightarrow> RequestMarker" where
  "expected_marker e =
     (if GetOrSet e = GS_Get then Query
      else (case SendType (EntryCommand e) of
              ParamNone \<Rightarrow> NoValue
            | ParamInt \<Rightarrow> Value (10 ^ 6 * trunc_micro (Parameter e))
            | ParamFloat \<Rightarrow> Value (Parameter e)))"

subsection \<open>The command table\<close>

lemma command_ordinal_bound: "command_ordinal t < length CommandLibrary"
  by (cases t) (simp_all add: CommandLibrary_def)

lemma length_code_row: "length (CommandChar (CommandLibrary ! command_ordinal t)) = 2"
  by (cases t) (simp_all add: CommandLibrary_def)

lemma lookup_code_row:
  "lookup_code (CommandChar (CommandLibrary ! command_ordinal t)) = Some (CommandLibrary ! command_ordinal t)"
  by (cases t) (simp_all add: lookup_code_def CommandLibrary_def)

lemma CommandLibrary_codes_distinct: "distinct (map CommandChar CommandLibrary)"
  by (simp add: CommandLibrary_def)

text \<open>
  C1: \<open>SetCommand\<close> indexes \<open>CommandLibrary\<close> by the enum's ordinal, so the table must
  list the commands in declaration order: the row it selects is the row of the requested
  command, for every command.
\<close>

theorem SetCommand_selects_row: "Command (EntryCommand (SetCommand t p g)) = t"
  by (cases t) (simp_all add: SetCommand_def CommandLibrary_def)

subsection \<open>Encoding and decoding\<close>

lemma strip_crlf_append [simp]: "strip_crlf (xs @ CRLF) = Some xs"
  by (simp add: strip_crlf_def CRLF_def)

lemma decode_line_entry:
  assumes len: "length (CommandChar (EntryCommand e)) = 2"
    and lk: "lookup_code (CommandChar (EntryCommand e)) = Some (EntryCommand e)"
  shows "decode_line (wire_line e) = Some (Command (EntryCommand e), expected_marker e)"
proof -
  define body where "body = CommandChar (EntryCommand e) @ encode_suffix e"
  have w: "wire_line e = CHR ''1'' # body @ CRLF"
    by (simp add: body_def wire_line_def command_chunks_def ControllerAdress_def)
  have tk: "take 2 body = CommandChar (EntryCommand e)" and dr: "drop 2 body = encode_suffix e"
    using len by (simp_all add: body_def)
  have "decode_line (wire_line e) =
          (let rest = encode_suffix e in
           if rest = ''?'' then Some (Command (EntryCommand e), Query)
           else (case SendType (EntryCommand e) of
                   ParamNone \<Rightarrow> if rest = [] then Some (Command (EntryCommand e), NoValue) else None
                 | ParamInt \<Rightarrow> map_option (\<lambda>i. (Command (EntryCommand e), Value (10 ^ 6 * i))) (parse_int rest)
                 | ParamFloat \<Rightarrow> map_option (\<lambda>m. (Command (EntryCommand e), Value m)) (parse_fixed6 rest)))"
    by (simp add: w decode_line_def ControllerAdress_def tk dr lk del: Let_def)
  then show ?thesis
    by (simp add: expected_marker_def encode_suffix_def wire_simps split: CommandParameterType.splits)
qed

text \<open>
  C2: for every command, parameter and intent, the line \<open>SendCurrentCommand\<close> writes for
  \<open>SetCommand\<close>'s entry is read back as the same command with the intent's marker:
  \<open>?\<close> for a query, the printed value for a set (truncated for an \<open>Int\<close> parameter).
\<close>

theorem codec_roundtrip:
  "decode_line (wire_line (SetCommand t p g)) = Some (t, expected_marker (SetCommand t p g))"
proof -
  have "decode_line (wire_line (SetCommand t p g)) =
          Some (Command (EntryCommand (SetCommand t p g)), expected_marker (SetCommand t p g))"
    by (rule decode_line_entry) (simp_all add: SetCommand_def lookup_code_row length_code_row)
  then show ?thesis
    by (simp add: SetCommand_def) (cases t; simp add: CommandLibrary_def)
qed

subsection \<open>Status decoding\<close>

lemma status_text_Ready_iff [simp]: "status_text ty = ''Ready'' \<longleftrightarrow> ty = Ready"
  by (cases ty) simp_all

lemma map_of_StatusLibrary_Ready:
  "map_of StatusLibrary c = Some Ready \<longleftrightarrow> c \<in> {''32'', ''33'', ''34'', ''35''}"
  by (auto simp: StatusLibrary_def)

text \<open>
  C3: \<open>GetCurrentStatus\<close> reports \<open>"Ready"\<close> exactly for replies whose two characters
  at offset 7 are one of the four documented READY codes 32--35; a reply shorter than
  7 characters makes \<open>substr\<close> throw.
\<close>

theorem decode_status_Ready:
  "decode_status r = Some ''Ready'' \<longleftrightarrow> 7 \<le> length r \<and> take 2 (drop 7 r) \<in> {''32'', ''33'', ''34'', ''35''}"
proof -
  have unk: "''Unknown Status Code: '' @ c \<noteq> ''Ready''" for c
    by (auto dest: arg_cong [where f = length])
  have "(case map_of StatusLibrary c of Some ty \<Rightarrow> status_text ty
          | None \<Rightarrow> ''Unknown Status Code: '' @ c) = ''Ready'' \<longleftrightarrow> map_of StatusLibrary c = Some Ready" for c
    using unk by (auto split: option.splits)
  then show ?thesis
    by (simp add: decode_status_def cxx_substr_def map_of_StatusLibrary_Ready not_less split: option.splits)
qed

theorem decode_status_Ready_witness:
  "decode_status (''1TS000033'' @ CRLF) = Some ''Ready'' \<and> decode_status ''1TS000028'' \<noteq> Some ''Ready''"
  using decode_status_Ready [of "''1TS000033'' @ CRLF"] decode_status_Ready [of "''1TS000028''"]
  by (simp add: CRLF_def)

subsection \<open>Line format\<close>

lemma wire_char_digit_char: "d < 10 \<Longrightarrow> wire_char (digit_char d)"
  by (simp add: wire_char_def digit_char_def)

lemma wire_chars_nat_digits: "list_all wire_char (nat_digits n)"
  by (auto simp: list_all_iff wire_char_digit_char dest: nat_digits_digits)

lemma wire_chars_int_to_string: "list_all wire_char (int_to_string i)"
  by (simp add: int_to_string_def wire_chars_nat_digits) (simp add: wire_char_def)

lemma wire_chars_fixed6_to_string: "list_all wire_char (fixed6_to_string m)"
  using wire_chars_nat_digits [of "nat \<bar>m\<bar> div 10 ^ 6"] wire_chars_nat_digits [of "nat \<bar>m\<bar> mod 10 ^ 6"]
  by (simp add: fixed6_to_string_def pad6_def list_all_iff) (auto simp: wire_char_def)

lemma wire_chars_code_row: "list_all wire_char (CommandChar (CommandLibrary ! command_ordinal t))"
  by (cases t) (simp_all add: CommandLibrary_def wire_char_def)

lemma wire_chars_encode_suffix: "list_all wire_char (encode_suffix e)"
  by (simp add: encode_suffix_def wire_chars_int_to_string wire_chars_fixed6_to_string wire_char_def
      split: CommandParameterType.split)

text \<open>
  C40: every line \<open>SendCurrentCommand\<close> writes for \<open>SetCommand\<close>'s entry is one
  command of the controller's line protocol: the address \<open>1\<close>, then at least a
  two-character code, all printable ASCII (no CR or LF inside the command), terminated by
  exactly one \<open>\r\n\<close>, for every command, parameter and intent.
\<close>

theorem wire_line_well_formed:
  "\<exists>b. wire_line (SetCommand t p g) = b @ [CHR 0x0D, CHR 0x0A] \<and> list_all wire_char b
       \<and> take 1 b = ControllerAdress \<and> 3 \<le> length b"
proof -
  let ?e = "SetCommand t p g"
  let ?b = "ControllerAdress @ CommandChar (EntryCommand ?e) @ encode_suffix ?e"
  have "wire_line ?e = ?b @ [CHR 0x0D, CHR 0x0A]"
    by (simp add: wire_line_def command_chunks_def CRLF_def)
  moreover have "list_all wire_char ?b"
    using wire_chars_code_row [of t] wire_chars_encode_suffix [of ?e]
    by (simp add: SetCommand_def ControllerAdress_def wire_char_def)
  moreover have "take 1 ?b = ControllerAdress" "3 \<le> length ?b"
    using length_code_row [of t] by (simp_all add: SetCommand_def ControllerAdress_def)
  ultimately show ?thesis by blast
qed
end
