(* ===== verification/Stage_Link.thy ===== *)
theory Stage_Link
  imports Command_Codec
begin

text \<open>
  The serial side of \<open>SMC100C\<close> (\<open>src/src/SMC100C.cpp\<close>, \<open>SMC100C.h\<close>): \<open>readString\<close>,
  \<open>SerialRead\<close>, the command operations (\<open>Home\<close>, \<open>RelativeMove\<close>, ...: \<open>SetCommand\<close>
  then \<open>SendCurrentCommand\<close>), the queries (\<open>GetPosition\<close>, ...: flush the input, send,
  \<open>SerialRead\<close>), \<open>GetCurrentStatus\<close> and \<open>GetError\<close>. The receive side of the port is a
  buffer \<open>rx\<close>; one iteration of \<open>readString\<close>'s loop observes the milliseconds elapsed
  since the call and the bytes that arrived since the previous iteration (\<open>rx_obs\<close>).
\<close>

datatype read_status = ReadOk nat | ReadTimeout | ReadFull

record rx_obs =
  elapsed_ms :: nat
  arrived :: string

text \<open>One \<open>my_serial.read\<close> of \<open>readString\<close>: the bytes up to and including
  \<open>finalChar\<close> are stored; the rest of the bytes of that read are consumed but dropped.\<close>

definition take_chunk :: "char \<Rightarrow> string \<Rightarrow> string \<times> bool" where
  "take_chunk fc chunk =
     (if fc \<in> set chunk then (takeWhile (\<lambda>c. c \<noteq> fc) chunk @ [fc], True) else (chunk, False))"

text \<open>\<open>while (nbBytes < maxNbBytes)\<close>: the timeout check, then a read of at most
  \<open>maxNbBytes - nbBytes\<close> available bytes. The result is the return value, the received
  bytes and what is left in the port's buffer; \<open>None\<close> when the observations end first.\<close>

fun readString_loop ::
  "char \<Rightarrow> nat \<Rightarrow> nat \<Rightarrow> string \<Rightarrow> string \<Rightarrow> rx_obs list \<Rightarrow> (read_status \<times> string \<times> string) option" where
  "readString_loop fc maxNb tmo rx recv [] =
     (if length recv < maxNb then None else Some (ReadFull, recv, rx))"
| "readString_loop fc maxNb tmo rx recv (ob # os) =
     (if \<not> length recv < maxNb then Some (ReadFull, recv, rx)
      else if tmo < elapsed_ms ob then Some (ReadTimeout, recv, rx @ arrived ob)
      else let buf = rx @ arrived ob in
        if buf = [] then readString_loop fc maxNb tmo [] recv os
        else let k = min (length buf) (maxNb - length recv) in
          case take_chunk fc (take k buf) of
            (stored, found) \<Rightarrow>
              if found then Some (ReadOk (length (recv @ stored)), recv @ stored, drop k buf)
              else readString_loop fc maxNb tmo (drop k buf) (recv @ stored) os)"

definition readString :: "char \<Rightarrow> nat \<Rightarrow> nat \<Rightarrow> string \<Rightarrow> rx_obs list \<Rightarrow> (read_status \<times> string \<times> string) option" where
  "readString fc maxNb tmo rx os = readString_loop fc maxNb tmo rx [] os"

text \<open>\<open>SerialRead\<close>: a static \<open>char[64]\<close> buffer, \<open>finalChar = '\n'\<close>, 63 bytes, 20 ms; the
  caller turns the \<open>char*\<close> into a \<open>std::string\<close>, which ends at the first NUL byte.\<close>

definition SerialRead :: "string \<Rightarrow> rx_obs list \<Rightarrow> (string \<times> string) option" where
  "SerialRead rx os =
     (case readString CHR ''\<newline>'' 63 20 rx os of
        None \<Rightarrow> None
      | Some (ReadOk _, recv, rx') \<Rightarrow> Some (takeWhile (\<lambda>c. c \<noteq> CHR 0x00) recv, rx')
      | Some (ReadTimeout, _, rx') \<Rightarrow> Some (''Timeout'', rx')
      | Some (ReadFull, _, rx') \<Rightarrow> Some (''Error'', rx'))"

subsection \<open>Commands and queries\<close>

text \<open>The command operations of \<open>SMC100C\<close>: \<open>SetCommand\<close> with the arguments each one
  passes, then \<open>SendCurrentCommand\<close>.\<close>

datatype controller_op =
    Home | SetVelocity int | SetAcceleration int | RelativeMove int | StopMotionOp
  | AbsoluteMove int | SetPositiveLimit int | SetNegativeLimit int | SetJerkTime int

fun op_entry :: "controller_op \<Rightarrow> CommandEntry" where
  "op_entry Home = SetCommand HomeSearch 0 GS_None"
| "op_entry (SetVelocity v) = SetCommand Velocity v GS_Set"
| "op_entry (SetAcceleration a) = SetCommand Acceleration a GS_Set"
| "op_entry (RelativeMove d) = SetCommand MoveRel d GS_Set"
| "op_entry StopMotionOp = SetCommand StopMotion 0 GS_None"
| "op_entry (AbsoluteMove d) = SetCommand MoveAbs d GS_Set"
| "op_entry (SetPositiveLimit l) = SetCommand PositiveSoftwareLim l GS_Set"
| "op_entry (SetNegativeLimit l) = SetCommand NegativeSoftwareLim l GS_Set"
| "op_entry (SetJerkTime j) = SetCommand JerkTime j GS_Set"

datatype query_op = GetPosition | GetVelocity | GetAcceleration | GetPositiveLimit | GetNegativeLimit

fun query_entry :: "query_op \<Rightarrow> CommandEntry" where
  "query_entry GetPosition = SetCommand PositionReal 0 GS_Get"
| "query_entry GetVelocity = SetCommand Velocity 0 GS_Get"
| "query_entry GetAcceleration = SetCommand Acceleration 0 GS_Get"
| "query_entry GetPositiveLimit = SetCommand PositiveSoftwareLim 0 GS_Get"
| "query_entry GetNegativeLimit = SetCommand NegativeSoftwareLim 0 GS_Get"

text \<open>The port: the bytes waiting in its receive buffer and the bytes written so far.\<close>

record link_state =
  rx_buf :: string
  tx_log :: string

definition send_entry :: "CommandEntry \<Rightarrow> link_state \<Rightarrow> link_state" where
  "send_entry e st = st\<lparr>tx_log := tx_log st @ snd (SendCurrentCommand e [])\<rparr>"

definition run_op :: "controller_op \<Rightarrow> link_state \<Rightarrow> link_state" where
  "run_op op st = send_entry (op_entry op) st"

text \<open>A query: \<open>flushInput\<close>, send, \<open>SerialRead\<close>.\<close>

definition query_reply :: "CommandEntry \<Rightarrow> rx_obs list \<Rightarrow> link_state \<Rightarrow> (string \<times> link_state) option" where
  "query_reply e os st =
     (let st1 = send_entry e (st\<lparr>rx_buf := []\<rparr>) in
      case SerialRead (rx_buf st1) os of
        None \<Rightarrow> None
      | Some (reply, rx') \<Rightarrow> Some (reply, st1\<lparr>rx_buf := rx'\<rparr>))"

definition run_query :: "query_op \<Rightarrow> rx_obs list \<Rightarrow> link_state \<Rightarrow> (string \<times> link_state) option" where
  "run_query q os st = query_reply (query_entry q) os st"

text \<open>\<open>GetCurrentStatus\<close>: the \<open>TS\<close> query, then \<^const>\<open>decode_status\<close>; the inner
  \<open>None\<close> is the \<open>std::out_of_range\<close> that \<open>substr\<close> throws.\<close>

definition GetCurrentStatus :: "rx_obs list \<Rightarrow> link_state \<Rightarrow> (string option \<times> link_state) option" where
  "GetCurrentStatus os st =
     (case query_reply (SetCommand ErrorStatus 0 GS_Get) os st of
        None \<Rightarrow> None
      | Some (reply, st') \<Rightarrow> Some (decode_status reply, st'))"

text \<open>\<open>GetError\<close>: \<open>TE\<close> query, then a \<open>std::string\<close> of 64 NUL characters into which
  \<open>serial::Serial::read(std::string&, size_t)\<close> appends the bytes it reads (\<open>avail\<close>,
  at most 64), \<open>resize(bytesRead)\<close>, and \<open>buffer[3]\<close>. Reading \<open>buffer[3]\<close> of a string
  shorter than 3 is undefined (\<open>None\<close>); of a string of length 3 it is the NUL terminator.\<close>

definition GetError :: "string \<Rightarrow> link_state \<Rightarrow> (string \<times> link_state) option" where
  "GetError avail st =
     (let st1 = send_entry (SetCommand LastCommandErr 0 GS_Get) (st\<lparr>rx_buf := []\<rparr>);
          buffer0 = replicate 64 CHR 0x00;
          n = min 64 (length avail);
          buffer = (if avail \<noteq> [] then take n (buffer0 @ take n avail) else buffer0)
      in if length buffer < 3 then None
         else Some (ConvertToErrorString (if 3 < length buffer then buffer ! 3 else CHR 0x00),
                    st1\<lparr>rx_buf := drop n avail\<rparr>))"

text \<open>What \<open>readString\<close> guarantees of its result, as a predicate on the bytes it
  stored after the prefix \<open>recv\<close>.\<close>

definition read_result_ok :: "char \<Rightarrow> nat \<Rightarrow> string \<Rightarrow> read_status \<Rightarrow> string \<Rightarrow> bool" where
  "read_result_ok fc maxNb recv st r \<longleftrightarrow>
     (\<exists>s. r = recv @ s \<and> length r \<le> maxNb \<and>
        (case st of
           ReadOk n \<Rightarrow> n = length r \<and> s \<noteq> [] \<and> last s = fc \<and> fc \<notin> set (butlast s)
         | ReadTimeout \<Rightarrow> fc \<notin> set s
         | ReadFull \<Rightarrow> length r = maxNb \<and> fc \<notin> set s))"

definition status_reply_obs :: "rx_obs list" where
  "status_reply_obs = [\<lparr>elapsed_ms = 0, arrived = ''1TS0''\<rparr>, \<lparr>elapsed_ms = 10, arrived = ''00033\<newline>X''\<rparr>]"

lemma take_chunk_found:
  "take_chunk fc c = (s, True) \<Longrightarrow> s \<noteq> [] \<and> last s = fc \<and> fc \<notin> set (butlast s) \<and> length s \<le> length c"
proof -
  assume a: "take_chunk fc c = (s, True)"
  then have fc: "fc \<in> set c" and s: "s = takeWhile (\<lambda>x. x \<noteq> fc) c @ [fc]"
    by (auto simp: take_chunk_def split: if_splits)
  have d: "0 < length (dropWhile (\<lambda>x. x \<noteq> fc) c)" using fc by (auto simp: dropWhile_eq_Nil_conv)
  have "length (takeWhile (\<lambda>x. x \<noteq> fc) c) + length (dropWhile (\<lambda>x. x \<noteq> fc) c) = length c"
    by (simp only: length_append [symmetric] takeWhile_dropWhile_id)
  with d have "length (takeWhile (\<lambda>x. x \<noteq> fc) c) < length c" by linarith
  moreover have "fc \<notin> set (takeWhile (\<lambda>x. x \<noteq> fc) c)"
    by (metis (mono_tags, lifting) set_takeWhileD)
  ultimately show ?thesis using s by simp
qed

lemma take_chunk_not_found: "take_chunk fc c = (s, False) \<Longrightarrow> s = c \<and> fc \<notin> set c"
  by (auto simp: take_chunk_def split: if_splits)

lemma read_result_ok_shift:
  assumes "read_result_ok fc maxNb (recv @ c) st r" "fc \<notin> set c"
  shows "read_result_ok fc maxNb recv st r"
proof -
  obtain s where s: "r = (recv @ c) @ s" "length r \<le> maxNb"
    "case st of ReadOk n \<Rightarrow> n = length r \<and> s \<noteq> [] \<and> last s = fc \<and> fc \<notin> set (butlast s)
       | ReadTimeout \<Rightarrow> fc \<notin> set s | ReadFull \<Rightarrow> length r = maxNb \<and> fc \<notin> set s"
    using assms(1) unfolding read_result_ok_def by blast
  show ?thesis
    unfolding read_result_ok_def using s assms(2)
    by (intro exI [of _ "c @ s"]) (auto simp: butlast_append split: read_status.splits)
qed

lemma readString_loop_step:
  assumes "length recv < maxNb" "\<not> tmo < elapsed_ms ob" "rx @ arrived ob = buf" "buf \<noteq> []"
    "min (length buf) (maxNb - length recv) = k" "take_chunk fc (take k buf) = (stored, found)"
  shows "readString_loop fc maxNb tmo rx recv (ob # os) =
    (if found then Some (ReadOk (length (recv @ stored)), recv @ stored, drop k buf)
     else readString_loop fc maxNb tmo (drop k buf) (recv @ stored) os)"
  using assms by (simp add: Let_def)

lemma readString_loop_ok:
  "readString_loop fc maxNb tmo rx recv os = Some (st, r, rx') \<Longrightarrow> length recv \<le> maxNb \<Longrightarrow>
   read_result_ok fc maxNb recv st r"
proof (induction fc maxNb tmo rx recv os rule: readString_loop.induct)
  case (1 fc maxNb tmo rx recv)
  then show ?case by (auto simp: read_result_ok_def split: if_splits)
next
  case (2 fc maxNb tmo rx recv ob os)
  show ?case
  proof (cases "\<not> length recv < maxNb \<or> tmo < elapsed_ms ob \<or> rx @ arrived ob = []")
    case True
    then show ?thesis
    proof (elim disjE)
      assume "\<not> length recv < maxNb"
      with "2.prems" show ?thesis by (auto simp: read_result_ok_def)
    next
      assume a: "tmo < elapsed_ms ob"
      with "2.prems" show ?thesis by (auto simp: read_result_ok_def split: if_splits)
    next
      assume a: "rx @ arrived ob = []"
      show ?thesis
      proof (cases "length recv < maxNb \<and> \<not> tmo < elapsed_ms ob")
        case True
        with a "2.prems" "2.IH"(1) show ?thesis by (simp add: Let_def)
      next
        case False
        with "2.prems" show ?thesis by (auto simp: read_result_ok_def split: if_splits)
      qed
    qed
  next
    case False
    obtain buf k stored found where b: "rx @ arrived ob = buf" "buf \<noteq> []"
      "min (length buf) (maxNb - length recv) = k" "take_chunk fc (take k buf) = (stored, found)"
      using False by (metis surj_pair)
    have lt: "length recv < maxNb" "\<not> tmo < elapsed_ms ob" using False by simp_all
    note step = readString_loop_step [OF lt b, of os]
    have kb: "length (take k buf) \<le> maxNb - length recv" using b(3) by auto
    show ?thesis
    proof (cases found)
      case True
      with step "2.prems"(1) have r: "st = ReadOk (length r)" "r = recv @ stored"
        by auto
      have tcT: "take_chunk fc (take k buf) = (stored, True)" using b(4) True by simp
      from take_chunk_found [OF tcT] kb lt
      show ?thesis using r by (auto simp: read_result_ok_def)
    next
      case found: False
      have st: "stored = take k buf" "fc \<notin> set (take k buf)"
        using take_chunk_not_found [of fc "take k buf" stored] b(4) found by simp_all
      have rec: "readString_loop fc maxNb tmo (drop k buf) (recv @ stored) os = Some (st, r, rx')"
        using "2.prems"(1) step found by simp
      have "read_result_ok fc maxNb (recv @ stored) st r"
        using "2.IH"(2) [OF _ lt(2) b(1) [symmetric] b(2) b(3) [symmetric] b(4) [symmetric] found rec] lt kb st(1)
        by simp
      then show ?thesis using read_result_ok_shift st by simp
    qed
  qed
qed

lemma readString_loop_returns:
  assumes "\<forall>i<length os. t0 + 5 * i \<le> elapsed_ms (os ! i)" "tmo < t0 + 5 * (length os - 1)" "os \<noteq> []"
  shows "readString_loop fc maxNb tmo rx recv os \<noteq> None"
  using assms
proof (induction fc maxNb tmo rx recv os arbitrary: t0 rule: readString_loop.induct)
  case (1 fc maxNb tmo rx recv)
  then show ?case by simp
next
  case (2 fc maxNb tmo rx recv ob os)
  show ?case
  proof (cases "\<not> length recv < maxNb \<or> tmo < elapsed_ms ob")
    case True
    then show ?thesis by auto
  next
    case False
    have t: "t0 \<le> elapsed_ms ob" using "2.prems"(1) by (metis length_Cons nth_Cons_0 zero_less_Suc add_0_right mult_0_right)
    have ne: "os \<noteq> []" using False "2.prems"(2) t by (cases os) auto
    have sh: "\<forall>i<length os. (t0 + 5) + 5 * i \<le> elapsed_ms (os ! i)"
    proof (intro allI impI)
      fix i assume "i < length os"
      then show "(t0 + 5) + 5 * i \<le> elapsed_ms (os ! i)"
        using "2.prems"(1) [rule_format, of "Suc i"] by simp
    qed
    have tm: "tmo < (t0 + 5) + 5 * (length os - 1)" using "2.prems"(2) ne by (cases os) auto
    show ?thesis
    proof (cases "rx @ arrived ob = []")
      case True
      with False "2.IH"(1) [OF _ _ _ _ sh tm ne] show ?thesis by simp
    next
      case nb: False
      obtain k stored found where b: "min (length (rx @ arrived ob)) (maxNb - length recv) = k"
        "take_chunk fc (take k (rx @ arrived ob)) = (stored, found)"
        by (metis surj_pair)
      have lt: "length recv < maxNb" "\<not> tmo < elapsed_ms ob" using False by simp_all
      note step = readString_loop_step [OF lt refl nb b, of os]
      show ?thesis
        using step "2.IH"(2) [OF _ lt(2) refl nb b(1) [symmetric] b(2) [symmetric] _ sh tm ne] lt(1)
        by (cases found) auto
    qed
  qed
qed

lemma readString_loop_line:
  assumes "rx @ concat (map arrived os) = pre @ fc # extra" "fc \<notin> set pre"
    "length recv + length pre < maxNb" "\<forall>ob\<in>set os. elapsed_ms ob \<le> tmo" "os \<noteq> []"
  shows "\<exists>rest. readString_loop fc maxNb tmo rx recv os = Some (ReadOk (Suc (length recv + length pre)), recv @ pre @ [fc], rest)"
  using assms
proof (induction fc maxNb tmo rx recv os arbitrary: pre rule: readString_loop.induct)
  case (1 fc maxNb tmo rx recv)
  then show ?case by simp
next
  case (2 fc maxNb tmo rx recv ob os)
  have lt: "length recv < maxNb" "\<not> tmo < elapsed_ms ob" using "2.prems"(3,4) by auto
  show ?case
  proof (cases "rx @ arrived ob = []")
    case True
    have ne: "os \<noteq> []" using True "2.prems"(1) by auto
    have c: "[] @ concat (map arrived os) = pre @ fc # extra" using True "2.prems"(1) by simp
    have all: "\<forall>ob\<in>set os. elapsed_ms ob \<le> tmo" using "2.prems"(4) by simp
    from "2.IH"(1) [OF _ lt(2) refl True c "2.prems"(2,3) all ne] True lt show ?thesis by simp
  next
    case nb: False
    obtain k stored found where b: "min (length (rx @ arrived ob)) (maxNb - length recv) = k"
      "take_chunk fc (take k (rx @ arrived ob)) = (stored, found)"
      by (metis surj_pair)
    note step = readString_loop_step [OF lt refl nb b, of os]
    have all: "(rx @ arrived ob) @ concat (map arrived os) = pre @ fc # extra" using "2.prems"(1) by simp
    consider (here) e where "rx @ arrived ob = pre @ fc # e"
      | (later) p where "pre = (rx @ arrived ob) @ p" "concat (map arrived os) = p @ fc # extra"
      using append_split_at [OF all] by blast
    then show ?thesis
    proof cases
      case here
      have "length pre < k" using b(1) here lt(1) "2.prems"(3) by auto
      then have "take k (rx @ arrived ob) = pre @ fc # take (k - Suc (length pre)) e"
        by (simp add: here take_append take_Cons')
      then have "take_chunk fc (take k (rx @ arrived ob)) = (pre @ [fc], True)"
        using "2.prems"(2) by (simp add: take_chunk_def)
      then show ?thesis using b(2) step by auto
    next
      case later
      have k: "k = length (rx @ arrived ob)" using b(1) later "2.prems"(3) by auto
      have nf: "fc \<notin> set (rx @ arrived ob)" using later(1) "2.prems"(2) by auto
      have sf: "stored = rx @ arrived ob" "\<not> found"
        using b(2) nf by (simp_all add: k take_chunk_def)
      have ne: "os \<noteq> []" using later(2) by auto
      have IH: "\<exists>rest. readString_loop fc maxNb tmo (drop k (rx @ arrived ob)) (recv @ stored) os
          = Some (ReadOk (Suc (length (recv @ stored) + length p)), (recv @ stored) @ p @ [fc], rest)"
        using "2.IH"(2) [OF _ lt(2) refl nb b(1) [symmetric] b(2) [symmetric] sf(2), of p] later "2.prems"(2,3,4) ne lt(1) sf(1) k
        by simp
      have r1: "readString_loop fc maxNb tmo rx recv (ob # os)
          = readString_loop fc maxNb tmo (drop k (rx @ arrived ob)) (recv @ stored) os"
        unfolding step using sf(2) by (simp only: if_False)
      show ?thesis unfolding r1 using IH sf(1) later(1) by (simp add: add.assoc)
    qed
  qed
qed

lemma send_entry_rx [simp]: "rx_buf (send_entry e st) = rx_buf st"
  by (simp add: send_entry_def)

lemma query_reply_read:
  "SerialRead [] os = Some (reply, rx') \<Longrightarrow>
   query_reply e os st = Some (reply, (send_entry e (st\<lparr>rx_buf := []\<rparr>))\<lparr>rx_buf := rx'\<rparr>)"
  by (simp add: query_reply_def)

text \<open>
  C14: whatever arrives and whenever, \<open>readString\<close> never stores more than \<open>maxNbBytes\<close>
  bytes; a positive return value is the number of bytes stored, which end with the first
  \<open>finalChar\<close>; a timeout or a full buffer means no \<open>finalChar\<close> was stored, and a full
  buffer holds exactly \<open>maxNbBytes\<close> bytes.
\<close>
theorem readString_bounds:
  assumes "readString fc maxNb tmo rx os = Some (st, r, rx')"
  shows "length r \<le> maxNb
    \<and> (\<forall>n. st = ReadOk n \<longrightarrow> n = length r \<and> r \<noteq> [] \<and> last r = fc \<and> fc \<notin> set (butlast r))
    \<and> (st = ReadTimeout \<longrightarrow> fc \<notin> set r) \<and> (st = ReadFull \<longrightarrow> length r = maxNb \<and> fc \<notin> set r)"
  using readString_loop_ok [of fc maxNb tmo rx "[]" os st r rx'] assms
  by (auto simp: readString_def read_result_ok_def split: read_status.splits)

text \<open>
  C15: \<open>SerialRead\<close> returns: since each iteration of \<open>readString\<close> sleeps 5 ms, the
  sixth check of the clock is past the 20 ms timeout, so six iterations always suffice.
\<close>
theorem SerialRead_returns:
  assumes "\<forall>i<length os. 5 * i \<le> elapsed_ms (os ! i)" "6 \<le> length os"
  shows "SerialRead rx os \<noteq> None"
proof -
  have "\<forall>i<length os. 0 + 5 * i \<le> elapsed_ms (os ! i)" "20 < 0 + 5 * (length os - 1)" "os \<noteq> []"
    using assms by auto
  then have "readString_loop CHR ''\<newline>'' 63 20 rx [] os \<noteq> None"
    by (rule readString_loop_returns)
  then show ?thesis by (auto simp: SerialRead_def readString_def split: option.splits read_status.splits)
qed

text \<open>
  C16: a reply line of fewer than 63 bytes without NUL, arriving within the timeout in any
  fragmentation over the polls, is returned by \<open>SerialRead\<close> exactly, with its newline.
\<close>
theorem SerialRead_line:
  assumes "concat (map arrived os) = line @ CHR ''\<newline>'' # extra" "CHR ''\<newline>'' \<notin> set line"
    "CHR 0x00 \<notin> set line" "length line < 63" "\<forall>ob\<in>set os. elapsed_ms ob \<le> 20" "os \<noteq> []"
  shows "\<exists>rx'. SerialRead [] os = Some (line @ ''\<newline>'', rx')"
proof -
  obtain rest where "readString_loop CHR ''\<newline>'' 63 20 [] [] os
      = Some (ReadOk (Suc (length line)), line @ [CHR ''\<newline>''], rest)"
    using readString_loop_line [of "[]" os line "CHR ''\<newline>''" extra "[]" 63 20] assms by auto
  moreover have "takeWhile (\<lambda>c. c \<noteq> CHR 0x00) (line @ [CHR ''\<newline>'']) = line @ [CHR ''\<newline>'']"
  proof -
    have "\<forall>x\<in>set line. x \<noteq> CHR 0x00" using assms(3) by blast
    then show ?thesis by (simp add: takeWhile_append2)
  qed
  ultimately show ?thesis by (simp add: SerialRead_def readString_def)
qed

text \<open>
  C17: when no newline arrives within 20 ms, \<open>SerialRead\<close> returns \<open>"Timeout"\<close> and
  \<open>GetCurrentStatus\<close> reports \<open>"Unknown Status Code: "\<close> with an empty code, instead of
  surfacing a timeout.
\<close>
theorem GetCurrentStatus_timeout:
  assumes "readString CHR ''\<newline>'' 63 20 [] os = Some (ReadTimeout, r, rx')"
  shows "\<exists>st'. GetCurrentStatus os st = Some (Some ''Unknown Status Code: '', st')"
proof -
  have "SerialRead [] os = Some (''Timeout'', rx')" using assms by (simp add: SerialRead_def)
  from query_reply_read [OF this] show ?thesis
    by (simp add: GetCurrentStatus_def decode_status_def cxx_substr_def StatusLibrary_def)
qed

text \<open>
  C18: when 63 bytes arrive without a newline, \<open>SerialRead\<close> returns \<open>"Error"\<close> and
  \<open>GetCurrentStatus\<close> throws \<open>std::out_of_range\<close> from \<open>substr(7, 2)\<close>.
\<close>
theorem GetCurrentStatus_full:
  assumes "readString CHR ''\<newline>'' 63 20 [] os = Some (ReadFull, r, rx')"
  shows "\<exists>st'. GetCurrentStatus os st = Some (None, st')"
proof -
  have "SerialRead [] os = Some (''Error'', rx')" using assms by (simp add: SerialRead_def)
  from query_reply_read [OF this] show ?thesis
    by (simp add: GetCurrentStatus_def decode_status_def cxx_substr_def)
qed

text \<open>
  C19: \<open>GetError\<close> never reports the controller's error: whatever the device answers, the
  character it reads is a NUL of its own buffer, so the result is always \<open>"0"\<close> (or undefined
  when one or two bytes arrive).
\<close>
theorem GetError_reports_nothing:
  assumes "GetError avail st = Some (msg, st')"
  shows "msg = ''0''"
proof -
  have z: "take n (replicate 64 CHR 0x00 @ xs) ! 3 = CHR 0x00" if "3 < n" "n \<le> 64" for n xs
    using that by (simp add: nth_append)
  show ?thesis
    using assms z [of "min 64 (length avail)" "take (min 64 (length avail)) avail"]
    by (auto simp: GetError_def Let_def ConvertToErrorString_def ErrorCharTable_def split: if_splits)
qed

theorem readString_bounds_witness:
  "readString CHR ''\<newline>'' 63 20 [] status_reply_obs = Some (ReadOk 10, ''1TS000033\<newline>'', [])
   \<and> last ''1TS000033\<newline>'' = CHR ''\<newline>''"
proof -
  have r: "readString CHR ''\<newline>'' 63 20 [] status_reply_obs = Some (ReadOk 10, ''1TS000033\<newline>'', [])"
    by (simp add: readString_def status_reply_obs_def take_chunk_def)
  show ?thesis using readString_bounds [OF r] r by simp
qed

theorem SerialRead_returns_witness:
  "SerialRead [] (map (\<lambda>i. \<lparr>elapsed_ms = 5 * i, arrived = []\<rparr>) [0..<6]) \<noteq> None"
  using SerialRead_returns [of "map (\<lambda>i. \<lparr>elapsed_ms = 5 * i, arrived = []\<rparr>) [0..<6]" "[]"]
  by (simp add: nth_Cons')

theorem SerialRead_line_witness:
  "\<exists>rx'. SerialRead [] status_reply_obs = Some (''1TS000033\<newline>'', rx')"
  using SerialRead_line [of status_reply_obs "''1TS000033''" "''X''"]
  by (simp add: status_reply_obs_def)

theorem GetCurrentStatus_timeout_witness:
  "\<exists>st'. GetCurrentStatus [\<lparr>elapsed_ms = 25, arrived = []\<rparr>] \<lparr>rx_buf = [], tx_log = []\<rparr>
     = Some (Some ''Unknown Status Code: '', st')"
  using GetCurrentStatus_timeout [of "[\<lparr>elapsed_ms = 25, arrived = []\<rparr>]" "[]" "[]" "\<lparr>rx_buf = [], tx_log = []\<rparr>"]
  by (simp add: readString_def)

theorem GetCurrentStatus_full_witness:
  "\<exists>st'. GetCurrentStatus [\<lparr>elapsed_ms = 0, arrived = replicate 63 CHR ''A''\<rparr>] \<lparr>rx_buf = [], tx_log = []\<rparr>
     = Some (None, st')"
  using GetCurrentStatus_full [of "[\<lparr>elapsed_ms = 0, arrived = replicate 63 CHR ''A''\<rparr>]" "replicate 63 CHR ''A''" "[]"
      "\<lparr>rx_buf = [], tx_log = []\<rparr>"]
  by (simp add: readString_def take_chunk_def)

theorem GetError_reports_nothing_witness:
  "fst (the (GetError ''1TEA\<newline>'' \<lparr>rx_buf = [], tx_log = []\<rparr>)) = ''0''
   \<and> ConvertToErrorString (CHR ''A'') = ''Unknown message''"
proof -
  obtain msg st' where g: "GetError ''1TEA\<newline>'' \<lparr>rx_buf = [], tx_log = []\<rparr> = Some (msg, st')"
    by (simp add: GetError_def Let_def)
  show ?thesis
    using GetError_reports_nothing [OF g] g by (simp add: ConvertToErrorString_def ErrorCharTable_def)
qed

end
