(* ===== verification/Motion.thy ===== *)
theory Motion
  imports Stage_Link "HOL-Library.Monad_Syntax"
begin

text \<open>
  The stage motions of \<open>src/src/individualCommands.cpp\<close> built on the \<open>SMC100C\<close>
  operations of \<^theory_text>\<open>Stage_Link\<close>: \<open>moveStage\<close> with its lambda \<open>moveAndCheckReady\<close>,
  \<open>checkTimeout\<close>, \<open>waitForPosition\<close> and \<open>waitForVelocity\<close>, and the C library
  conversion \<open>std::stof\<close> they use.
\<close>

subsection \<open>moveStage\<close>

text \<open>The environment of a motion: the observations of the \<open>SerialRead\<close> of the \<open>j\<close>-th
  \<open>GetCurrentStatus\<close> call, counted over the whole motion.\<close>

type_synonym poll_env = "nat \<Rightarrow> rx_obs list"

text \<open>The inner \<open>while (true)\<close> of \<open>moveAndCheckReady\<close>: poll until \<open>"Ready"\<close>. The
  result \<open>False\<close> is the \<open>std::out_of_range\<close> of \<open>GetCurrentStatus\<close>, which leaves the
  inner loop for the \<open>catch\<close> of the outer one; \<open>None\<close> is a loop that does not return.\<close>

partial_function (option) poll_ready :: "poll_env \<Rightarrow> nat \<Rightarrow> link_state \<Rightarrow> (bool \<times> nat \<times> link_state) option" where
  "poll_ready env k st =
     (case GetCurrentStatus (env k) st of
        None \<Rightarrow> None
      | Some (None, st') \<Rightarrow> Some (False, Suc k, st')
      | Some (Some s, st') \<Rightarrow>
          if s = ''Ready'' then Some (True, Suc k, st') else poll_ready env (Suc k) st')"

text \<open>\<open>moveAndCheckReady\<close>: \<open>RelativeMove(moveStep)\<close>, then poll; after an exception the
  outer \<open>while (true)\<close> issues the move again.\<close>

partial_function (option) moveAndCheckReady ::
  "poll_env \<Rightarrow> int \<Rightarrow> nat \<Rightarrow> link_state \<Rightarrow> (nat \<times> link_state) option" where
  "moveAndCheckReady env moveStep k st =
     (case poll_ready env k (run_op (RelativeMove moveStep) st) of
        None \<Rightarrow> None
      | Some (ready, k', st') \<Rightarrow>
          if ready then Some (k', st') else moveAndCheckReady env moveStep k' st')"

text \<open>\<open>moveStage\<close>: up by the pumping distance unless \<open>isClip\<close>, the layer step, and down
  again unless \<open>isClip\<close>. Distances are in millionths of a millimetre.\<close>

definition moveStage :: "poll_env \<Rightarrow> int \<Rightarrow> bool \<Rightarrow> int \<Rightarrow> link_state \<Rightarrow> (nat \<times> link_state) option" where
  "moveStage env stepSize isClip dlpPumpingAction st = do {
     (k1, st1) \<leftarrow> (if \<not> isClip then moveAndCheckReady env (- dlpPumpingAction) 0 st else Some (0, st));
     (k2, st2) \<leftarrow> moveAndCheckReady env stepSize k1 st1;
     (if \<not> isClip then moveAndCheckReady env dlpPumpingAction k2 st2 else Some (k2, st2))
   }"

subsection \<open>std::stof\<close>

text \<open>\<open>std::stof\<close> on the decimal forms: leading white space, a sign, digits, an optional
  fraction; the value in millionths, further digits truncated; \<open>None\<close> is the
  \<open>std::invalid_argument\<close> thrown when no digit is found. The exponent, hexadecimal,
  infinity and NaN forms of \<open>strtof\<close> and the rounding to \<open>float\<close> are not modelled.\<close>

definition stof :: "string \<Rightarrow> int option" where
  "stof s =
     (let r = dropWhile is_space s;
          neg = (r \<noteq> [] \<and> hd r = CHR ''-'');
          r1 = (if r \<noteq> [] \<and> (hd r = CHR ''-'' \<or> hd r = CHR ''+'') then tl r else r);
          ip = takeWhile is_digit r1;
          rest = dropWhile is_digit r1;
          fp = (if rest \<noteq> [] \<and> hd rest = CHR ''.'' then takeWhile is_digit (tl rest) else [])
      in if ip = [] \<and> fp = [] then None
         else (case (parse_digits_acc 0 ip, parse_digits_acc 0 (take 6 (fp @ replicate 6 CHR ''0''))) of
                 (Some a, Some b) \<Rightarrow> Some ((if neg then -1 else 1) * (int a * 10 ^ 6 + int b))
               | _ \<Rightarrow> None))"

subsection \<open>checkTimeout, waitForPosition, waitForVelocity\<close>

text \<open>\<open>checkTimeout\<close>: \<open>duration_cast<seconds>\<close> truncates the elapsed milliseconds.\<close>

definition checkTimeout :: "nat \<Rightarrow> nat \<Rightarrow> bool" where
  "checkTimeout elapsed timeout \<longleftrightarrow> timeout \<le> elapsed div 1000"

text \<open>One iteration of the wait loops observes the reply of the query and the clock at
  \<open>checkTimeout\<close>, in milliseconds since \<open>startTime\<close>.\<close>

record wait_obs =
  reply_obs :: "rx_obs list"
  clock_ms :: nat

text \<open>The \<open>try\<close> block of \<open>waitForPosition\<close> after \<open>GetPosition\<close>: \<open>Some True\<close> sets
  \<open>positionMatched\<close>, \<open>None\<close> is an exception caught by the handler.\<close>

definition position_check :: "int \<Rightarrow> int \<Rightarrow> string \<Rightarrow> bool option" where
  "position_check target tolerance pos0 =
     (let pos = erase_char CHR 0x0D (erase_char CHR ''\<newline>'' pos0) in
      if 9 \<le> length pos then
        (case cxx_substr pos 3 6 of
           None \<Rightarrow> None
         | Some d \<Rightarrow> (case stof d of None \<Rightarrow> None | Some cur \<Rightarrow> Some (\<bar>cur - target\<bar> < tolerance)))
      else Some False)"

definition velocity_check :: "int \<Rightarrow> int \<Rightarrow> string \<Rightarrow> bool option" where
  "velocity_check target tolerance vel0 =
     (let vel = erase_char CHR 0x0D (erase_char CHR ''\<newline>'' vel0) in
      if 2 \<le> length vel then
        (case cxx_substr vel 3 2 of
           None \<Rightarrow> None
         | Some d \<Rightarrow> (case stof d of None \<Rightarrow> None | Some cur \<Rightarrow> Some (\<bar>cur - target\<bar> < tolerance)))
      else Some False)"

text \<open>The loop both functions share: query, check, the corrective command (sent on every
  iteration), \<open>checkTimeout\<close>. The result is the final \<open>matched\<close> flag; \<open>None\<close> when the
  observations end first.\<close>

fun wait_loop ::
  "query_op \<Rightarrow> (string \<Rightarrow> bool option) \<Rightarrow> controller_op \<Rightarrow> nat \<Rightarrow> wait_obs list \<Rightarrow> link_state
   \<Rightarrow> (bool \<times> link_state) option" where
  "wait_loop q check cmd timeout [] st = None"
| "wait_loop q check cmd timeout (ob # os) st =
     (case run_query q (reply_obs ob) st of
        None \<Rightarrow> None
      | Some (reply, st1) \<Rightarrow>
          let matched = (check reply = Some True);
              st2 = run_op cmd st1
          in if checkTimeout (clock_ms ob) timeout then Some (matched, st2)
             else if matched then Some (True, st2)
             else wait_loop q check cmd timeout os st2)"

definition waitForPosition :: "int \<Rightarrow> int \<Rightarrow> nat \<Rightarrow> wait_obs list \<Rightarrow> link_state \<Rightarrow> (bool \<times> link_state) option" where
  "waitForPosition targetPosition tolerance timeout os st =
     wait_loop GetPosition (position_check targetPosition tolerance) (AbsoluteMove targetPosition) timeout os st"

definition waitForVelocity :: "int \<Rightarrow> int \<Rightarrow> nat \<Rightarrow> wait_obs list \<Rightarrow> link_state \<Rightarrow> (bool \<times> link_state) option" where
  "waitForVelocity targetVelocity tolerance timeout os st =
     wait_loop GetVelocity (velocity_check targetVelocity tolerance) (SetVelocity targetVelocity) timeout os st"

subsection \<open>Observations of a motion\<close>

text \<open>The lines written for a status poll and for a relative move, and what the \<open>j\<close>-th poll
  reads: the decoded status, or the inner \<open>None\<close> of \<open>std::out_of_range\<close>.\<close>

definition ts_line :: string where
  "ts_line = wire_line (SetCommand ErrorStatus 0 GS_Get)"

definition move_line :: "int \<Rightarrow> string" where
  "move_line d = wire_line (op_entry (RelativeMove d))"

definition poll_status :: "poll_env \<Rightarrow> nat \<Rightarrow> string option option" where
  "poll_status env j = map_option (decode_status \<circ> fst) (SerialRead [] (env j))"

text \<open>Concrete controller behaviour used by the examples below.\<close>

definition env_retry :: poll_env where
  "env_retry j = (if j = 0 then [\<lparr>elapsed_ms = 0, arrived = ''1TS\<newline>''\<rparr>]
                  else [\<lparr>elapsed_ms = 0, arrived = ''1TS000033\<newline>''\<rparr>])"

definition env_disabled :: poll_env where
  "env_disabled j = [\<lparr>elapsed_ms = 0, arrived = ''1TS00003C\<newline>''\<rparr>]"

definition env_ready :: poll_env where
  "env_ready j = [\<lparr>elapsed_ms = 0, arrived = ''1TS000033\<newline>''\<rparr>]"

definition pos_obs :: "nat \<Rightarrow> wait_obs" where
  "pos_obs i = \<lparr>reply_obs = [\<lparr>elapsed_ms = 0, arrived = ''1TP0.00000\<newline>''\<rparr>], clock_ms = 110 * Suc i\<rparr>"
lemma emit_Nil: "emit cs [] = concat cs"
  by (induction cs) simp_all

lemma send_entry_wire: "send_entry e st = st\<lparr>tx_log := tx_log st @ wire_line e\<rparr>"
  by (simp add: send_entry_def SendCurrentCommand_def emit_Nil wire_line_def)

lemma GetCurrentStatus_poll:
  "GetCurrentStatus os st =
     map_option (\<lambda>(r, rx'). (decode_status r, \<lparr>rx_buf = rx', tx_log = tx_log st @ ts_line\<rparr>)) (SerialRead [] os)"
  by (simp add: GetCurrentStatus_def query_reply_def send_entry_wire ts_line_def split: option.split)

lemma poll_ready_busy:
  assumes "poll_status env k = Some (Some s)" "s \<noteq> ''Ready''"
  shows "\<exists>rx. poll_ready env k st = poll_ready env (Suc k) \<lparr>rx_buf = rx, tx_log = tx_log st @ ts_line\<rparr>"
  using assms by (subst poll_ready.simps) (auto simp: poll_status_def GetCurrentStatus_poll)

lemma poll_ready_last:
  assumes "poll_status env k = Some r" "r = None \<or> r = Some ''Ready''"
  shows "\<exists>rx. poll_ready env k st = Some (r = Some ''Ready'', Suc k, \<lparr>rx_buf = rx, tx_log = tx_log st @ ts_line\<rparr>)"
  using assms by (subst poll_ready.simps) (auto simp: poll_status_def GetCurrentStatus_poll)

lemma poll_ready_runs:
  assumes "\<forall>j<d. \<exists>s. poll_status env (k + j) = Some (Some s) \<and> s \<noteq> ''Ready''"
    "poll_status env (k + d) = Some r" "r = None \<or> r = Some ''Ready''"
  shows "\<exists>rx. poll_ready env k st =
           Some (r = Some ''Ready'', k + Suc d, \<lparr>rx_buf = rx, tx_log = tx_log st @ concat (replicate (Suc d) ts_line)\<rparr>)"
  using assms
proof (induction d arbitrary: k st)
  case 0
  then show ?case using poll_ready_last [of env k r st] by simp
next
  case (Suc d)
  obtain s where s: "poll_status env k = Some (Some s)" "s \<noteq> ''Ready''"
    using Suc.prems(1) by (metis add_0_right zero_less_Suc)
  obtain rx where rx: "poll_ready env k st = poll_ready env (Suc k) \<lparr>rx_buf = rx, tx_log = tx_log st @ ts_line\<rparr>"
    using poll_ready_busy [OF s] by blast
  have "\<forall>j<d. \<exists>s. poll_status env (Suc k + j) = Some (Some s) \<and> s \<noteq> ''Ready''"
    using Suc.prems(1) by (metis Suc_less_eq add_Suc_shift add_Suc_right)
  moreover have "poll_status env (Suc k + d) = Some r" using Suc.prems(2) by simp
  ultimately obtain rx' where
    "poll_ready env (Suc k) \<lparr>rx_buf = rx, tx_log = tx_log st @ ts_line\<rparr> =
       Some (r = Some ''Ready'', Suc k + Suc d,
             \<lparr>rx_buf = rx', tx_log = (tx_log st @ ts_line) @ concat (replicate (Suc d) ts_line)\<rparr>)"
    using Suc.IH [of "Suc k" "\<lparr>rx_buf = rx, tx_log = tx_log st @ ts_line\<rparr>"] Suc.prems(3) by auto
  then show ?case by (simp add: rx replicate_append_same [symmetric])
qed

lemma poll_ready_diverges:
  assumes "\<forall>j\<ge>k. \<exists>s. poll_status env j = Some (Some s) \<and> s \<noteq> ''Ready''"
  shows "poll_ready env k st = None"
proof (rule ccontr)
  assume "poll_ready env k st \<noteq> None"
  then obtain x where "poll_ready env k st = Some x" by blast
  then have "\<not> (\<forall>j\<ge>k. \<exists>s. poll_status env j = Some (Some s) \<and> s \<noteq> ''Ready'')"
  proof (induction rule: poll_ready.raw_induct [rotated, consumes 1])
    case (1 f env k st x)
    show ?case
    proof
      assume all: "\<forall>j\<ge>k. \<exists>s. poll_status env j = Some (Some s) \<and> s \<noteq> ''Ready''"
      then obtain s where s: "poll_status env k = Some (Some s)" "s \<noteq> ''Ready''" by blast
      then obtain r rx where r: "SerialRead [] (env k) = Some (r, rx)" "decode_status r = Some s"
        by (auto simp: poll_status_def)
      let ?st' = "\<lparr>rx_buf = rx, tx_log = tx_log st @ ts_line\<rparr>"
      have "f env (Suc k) ?st' = Some x" using 1(2) r s(2) by (simp add: GetCurrentStatus_poll)
      then have "\<not> (\<forall>j\<ge>Suc k. \<exists>s. poll_status env j = Some (Some s) \<and> s \<noteq> ''Ready'')"
        by (rule 1(1))
      with all show False by auto
    qed
  qed
  with assms show False by blast
qed

lemma run_op_move: "run_op (RelativeMove m) st = st\<lparr>tx_log := tx_log st @ move_line m\<rparr>"
  by (simp add: run_op_def send_entry_wire move_line_def)

lemma moveAndCheckReady_poll:
  "moveAndCheckReady env m k st =
     (case poll_ready env k (st\<lparr>tx_log := tx_log st @ move_line m\<rparr>) of
        None \<Rightarrow> None
      | Some (ready, k', st') \<Rightarrow> if ready then Some (k', st') else moveAndCheckReady env m k' st')"
  by (subst moveAndCheckReady.simps) (simp add: run_op_move)

lemma moveAndCheckReady_ready:
  assumes "\<forall>j<d. \<exists>s. poll_status env (k + j) = Some (Some s) \<and> s \<noteq> ''Ready''"
    "poll_status env (k + d) = Some (Some ''Ready'')"
  shows "\<exists>rx. moveAndCheckReady env m k st =
           Some (k + Suc d, \<lparr>rx_buf = rx, tx_log = tx_log st @ move_line m @ concat (replicate (Suc d) ts_line)\<rparr>)"
  using poll_ready_runs [OF assms, of "st\<lparr>tx_log := tx_log st @ move_line m\<rparr>"]
  by (auto simp: moveAndCheckReady_poll)

lemma moveAndCheckReady_exception:
  assumes "poll_status env k = Some None"
  shows "\<exists>rx. moveAndCheckReady env m k st =
           moveAndCheckReady env m (Suc k) \<lparr>rx_buf = rx, tx_log = tx_log st @ move_line m @ ts_line\<rparr>"
  using poll_ready_runs [of 0 env k, OF _ _ , of None "st\<lparr>tx_log := tx_log st @ move_line m\<rparr>"] assms
  by (auto simp: moveAndCheckReady_poll)

lemma moveAndCheckReady_diverges:
  assumes "\<forall>j\<ge>k. \<exists>s. poll_status env j = Some (Some s) \<and> s \<noteq> ''Ready''"
  shows "moveAndCheckReady env m k st = None"
  by (simp add: moveAndCheckReady_poll poll_ready_diverges [OF assms])

text \<open>C24: when the controller answers every status poll with \<open>Ready\<close>, \<open>moveStage\<close>
  returns after one poll per move, and what it writes to the port is the relative move by
  \<open>-dlpPumpingAction\<close>, by \<open>stepSize\<close> and by \<open>dlpPumpingAction\<close> (only \<open>stepSize\<close> when
  \<open>isClip\<close>), each followed by one \<open>TS\<close> poll: the plate ends \<open>stepSize\<close> further.\<close>

theorem moveStage_cooperative:
  assumes "\<forall>j<(if isClip then 1 else 3). poll_status env j = Some (Some ''Ready'')"
  shows "\<exists>rx. moveStage env stepSize isClip pump st =
           Some (if isClip then 1 else 3,
                 \<lparr>rx_buf = rx, tx_log = tx_log st @ concat (map (\<lambda>d. move_line d @ ts_line)
                     (if isClip then [stepSize] else [- pump, stepSize, pump]))\<rparr>)"
proof -
  have r: "\<exists>rx. moveAndCheckReady env m k st' = Some (Suc k, \<lparr>rx_buf = rx, tx_log = tx_log st' @ move_line m @ ts_line\<rparr>)"
    if "poll_status env k = Some (Some ''Ready'')" for m k st'
    using moveAndCheckReady_ready [of 0 env k, OF _ , of m st'] that by simp
  show ?thesis
  proof (cases isClip)
    case True
    then show ?thesis using r [of 0 stepSize st] assms by (auto simp: moveStage_def)
  next
    case False
    then have p: "poll_status env 0 = Some (Some ''Ready'')" "poll_status env (Suc 0) = Some (Some ''Ready'')"
      "poll_status env (Suc (Suc 0)) = Some (Some ''Ready'')" using assms by (auto simp: numeral_3_eq_3)
    obtain rx1 where 1: "moveAndCheckReady env (- pump) 0 st =
        Some (Suc 0, \<lparr>rx_buf = rx1, tx_log = tx_log st @ move_line (- pump) @ ts_line\<rparr>)"
      using r [OF p(1)] by auto
    obtain rx2 where 2: "moveAndCheckReady env stepSize (Suc 0) \<lparr>rx_buf = rx1, tx_log = tx_log st @ move_line (- pump) @ ts_line\<rparr> =
        Some (Suc (Suc 0), \<lparr>rx_buf = rx2, tx_log = tx_log st @ move_line (- pump) @ ts_line @ move_line stepSize @ ts_line\<rparr>)"
      using r [OF p(2), where m = stepSize and st' = "\<lparr>rx_buf = rx1, tx_log = tx_log st @ move_line (- pump) @ ts_line\<rparr>"]
      by auto
    obtain rx3 where 3: "moveAndCheckReady env pump (Suc (Suc 0)) \<lparr>rx_buf = rx2, tx_log = tx_log st @ move_line (- pump) @ ts_line @ move_line stepSize @ ts_line\<rparr> =
        Some (Suc (Suc (Suc 0)), \<lparr>rx_buf = rx3, tx_log = tx_log st @ move_line (- pump) @ ts_line @ move_line stepSize @ ts_line @ move_line pump @ ts_line\<rparr>)"
      using r [OF p(3), where m = pump and st' = "\<lparr>rx_buf = rx2, tx_log = tx_log st @ move_line (- pump) @ ts_line @ move_line stepSize @ ts_line\<rparr>"]
      by auto
    show ?thesis using False by (simp add: moveStage_def 1 2 3 numeral_3_eq_3)
  qed
qed

text \<open>C25: a status reply too short for \<open>substr(7, 2)\<close> throws inside the poll loop;
  the \<open>catch\<close> of \<open>moveAndCheckReady\<close> then issues the relative move a second time, so the
  stage moves twice the distance.\<close>

theorem moveAndCheckReady_repeats_move:
  assumes "poll_status env k = Some None" "poll_status env (Suc k) = Some (Some ''Ready'')"
  shows "\<exists>rx. moveAndCheckReady env m k st =
           Some (Suc (Suc k), \<lparr>rx_buf = rx, tx_log = tx_log st @ move_line m @ ts_line @ move_line m @ ts_line\<rparr>)"
proof -
  obtain rx where "moveAndCheckReady env m k st =
      moveAndCheckReady env m (Suc k) \<lparr>rx_buf = rx, tx_log = tx_log st @ move_line m @ ts_line\<rparr>"
    using moveAndCheckReady_exception [OF assms(1)] by blast
  with moveAndCheckReady_ready [of 0 env "Suc k", OF _ , of m "\<lparr>rx_buf = rx, tx_log = tx_log st @ move_line m @ ts_line\<rparr>"] assms(2)
  show ?thesis by auto
qed

text \<open>C26: \<open>moveStage\<close> has no timeout: when the controller keeps answering with a status
  other than \<open>Ready\<close> (for example \<open>Disabled\<close>), it never returns.\<close>

theorem moveStage_never_returns:
  assumes "\<forall>j. \<exists>s. poll_status env j = Some (Some s) \<and> s \<noteq> ''Ready''"
  shows "moveStage env stepSize isClip pump st = None"
  using assms by (simp add: moveStage_def moveAndCheckReady_diverges)

lemma ps_retry: "poll_status env_retry 0 = Some None" "poll_status env_retry (Suc k) = Some (Some ''Ready'')"
  by (simp_all add: poll_status_def env_retry_def SerialRead_def readString_def take_chunk_def
      decode_status_def cxx_substr_def StatusLibrary_def)

lemma ps_disabled: "poll_status env_disabled j = Some (Some ''Disabled'')"
  by (simp add: poll_status_def env_disabled_def SerialRead_def readString_def take_chunk_def
      decode_status_def cxx_substr_def StatusLibrary_def)

lemma ps_ready: "poll_status env_ready j = Some (Some ''Ready'')"
  by (simp add: poll_status_def env_ready_def SerialRead_def readString_def take_chunk_def
      decode_status_def cxx_substr_def StatusLibrary_def)

theorem moveStage_cooperative_witness:
  "\<exists>rx. moveStage env_ready 5 False 1 \<lparr>rx_buf = [], tx_log = []\<rparr> =
     Some (3, \<lparr>rx_buf = rx, tx_log = move_line (- 1) @ ts_line @ move_line 5 @ ts_line @ move_line 1 @ ts_line\<rparr>)"
  using moveStage_cooperative [of False env_ready 5 1 "\<lparr>rx_buf = [], tx_log = []\<rparr>"] ps_ready
  by simp

theorem moveAndCheckReady_repeats_move_witness:
  "\<exists>rx. moveAndCheckReady env_retry 5 0 \<lparr>rx_buf = [], tx_log = []\<rparr> =
     Some (2, \<lparr>rx_buf = rx, tx_log = move_line 5 @ ts_line @ move_line 5 @ ts_line\<rparr>)"
  using moveAndCheckReady_repeats_move [of env_retry 0 5 "\<lparr>rx_buf = [], tx_log = []\<rparr>"] ps_retry
  by (simp add: numeral_2_eq_2)

theorem moveStage_never_returns_witness:
  "moveStage env_disabled 5 False 1 \<lparr>rx_buf = [], tx_log = []\<rparr> = None"
  using moveStage_never_returns [of env_disabled 5 False 1] ps_disabled by simp

lemma checkTimeout_reached: "1000 * timeout \<le> elapsed \<Longrightarrow> checkTimeout elapsed timeout"
  by (simp add: checkTimeout_def less_eq_div_iff_mult_less_eq)

lemma run_query_read:
  "SerialRead [] os = Some (reply, rx') \<Longrightarrow> \<exists>st1. run_query q os st = Some (reply, st1)"
  by (simp add: run_query_def query_reply_read)

lemma wait_loop_bound:
  assumes "\<forall>i<length os. 100 * (Suc i + j) \<le> clock_ms (os ! i)"
    "\<forall>i<length os. SerialRead [] (reply_obs (os ! i)) \<noteq> None"
    "j < max 1 (10 * timeout)" "max 1 (10 * timeout) \<le> length os + j"
  shows "wait_loop q check cmd timeout os st \<noteq> None \<and>
         wait_loop q check cmd timeout os st = wait_loop q check cmd timeout (take (max 1 (10 * timeout) - j) os) st"
  using assms
proof (induction os arbitrary: j st)
  case Nil
  then show ?case by (auto simp: less_max_iff_disj)
next
  case (Cons ob os)
  let ?N = "max 1 (10 * timeout)"
  obtain reply rx' where "SerialRead [] (reply_obs ob) = Some (reply, rx')"
    using Cons.prems(2) by fastforce
  then obtain st1 where q: "run_query q (reply_obs ob) st = Some (reply, st1)"
    using run_query_read by blast
  have tk: "take (?N - j) (ob # os) = ob # take (?N - Suc j) os"
    by (rule take_diff_Cons [OF Cons.prems(3)])
  show ?case
  proof (cases "checkTimeout (clock_ms ob) timeout \<or> check reply = Some True")
    case True
    then show ?thesis unfolding tk by (auto simp: q Let_def)
  next
    case False
    have lt: "Suc j < ?N"
    proof (rule ccontr)
      assume "\<not> Suc j < ?N"
      then have "1000 * timeout \<le> 100 * Suc j" by (simp add: not_less)
      moreover have "100 * Suc j \<le> clock_ms ob" using Cons.prems(1) [rule_format, of 0] by simp
      ultimately have "1000 * timeout \<le> clock_ms ob" by (rule order_trans)
      then show False using False checkTimeout_reached by blast
    qed
    have c: "\<forall>i<length os. 100 * (Suc i + Suc j) \<le> clock_ms (os ! i)"
      using Cons.prems(1) [unfolded all_less_Suc_shift] by simp
    have s: "\<forall>i<length os. SerialRead [] (reply_obs (os ! i)) \<noteq> None"
      using Cons.prems(2) [unfolded all_less_Suc_shift] by simp
    have le: "?N \<le> length os + Suc j" using Cons.prems(4) by simp
    have step: "wait_loop q check cmd timeout (ob # xs) st = wait_loop q check cmd timeout xs (run_op cmd st1)" for xs
      using q False by (simp add: Let_def)
    show ?thesis unfolding tk step by (rule Cons.IH [OF c s lt le])
  qed
qed

text \<open>C27: \<open>waitForPosition\<close> terminates within its timeout: if every query is
  answered and the clock has advanced by at least 100 ms per iteration (the loop itself
  sleeps 110 ms), the loop returns after at most \<open>max 1 (10 * timeout)\<close> iterations,
  whatever the replies are.\<close>

theorem waitForPosition_terminates:
  assumes "\<forall>i<length os. 100 * Suc i \<le> clock_ms (os ! i)"
    "\<forall>i<length os. SerialRead [] (reply_obs (os ! i)) \<noteq> None"
    "max 1 (10 * timeout) \<le> length os"
  shows "waitForPosition targetPosition tolerance timeout os st \<noteq> None \<and>
         waitForPosition targetPosition tolerance timeout os st =
         waitForPosition targetPosition tolerance timeout (take (max 1 (10 * timeout)) os) st"
  unfolding waitForPosition_def
  apply (rule wait_loop_bound [where j = 0, simplified add_0_right diff_zero])
  using assms by (simp_all add: less_max_iff_disj)

lemma stof_digit_dot: "a < 10 \<Longrightarrow> stof [digit_char a, CHR ''.''] = Some (int a * 10 ^ 6)"
  using digit_char_props [of a] parse_digits_acc_zeros [of 6 "[]"]
  by (simp add: stof_def Let_def is_space_def is_digit_def)

text \<open>C28: \<open>waitForVelocity\<close> reads the velocity from the two characters after the
  \<open>1VA\<close> prefix: a reply \<open>1VAa.f\<close> is read as \<open>a\<close> mm/s whatever the fraction \<open>f\<close>.\<close>

theorem velocity_check_two_chars:
  assumes "a < 10"
  shows "velocity_check targetVelocity tolerance (''1VA'' @ digit_char a # CHR ''.'' # frac) =
         Some (\<bar>int a * 10 ^ 6 - targetVelocity\<bar> < tolerance)"
proof -
  have "digit_char a \<noteq> CHR 0x0D" using digit_char_below [OF assms, of "CHR 0x0D"] by simp
  then show ?thesis using assms digit_char_props [OF assms]
    by (simp add: velocity_check_def erase_char_def cxx_substr_def stof_digit_dot)
qed

theorem waitForPosition_terminates_witness:
  "waitForPosition 5000000 10000 1 (map pos_obs [0..<12]) \<lparr>rx_buf = [], tx_log = []\<rparr> \<noteq> None \<and>
   waitForPosition 5000000 10000 1 (map pos_obs [0..<12]) \<lparr>rx_buf = [], tx_log = []\<rparr> =
   waitForPosition 5000000 10000 1 (map pos_obs [0..<10]) \<lparr>rx_buf = [], tx_log = []\<rparr>"
  using waitForPosition_terminates [of "map pos_obs [0..<12]" 1 5000000 10000 "\<lparr>rx_buf = [], tx_log = []\<rparr>"]
  by (simp add: pos_obs_def SerialRead_def readString_def take_chunk_def take_map) metis

theorem velocity_check_two_chars_witness:
  "velocity_check 2500000 100000 (''1VA2.5'' @ [CHR 0x0D, CHR ''\<newline>'']) = Some False"
proof -
  have "digit_char 2 = CHR ''2''" by code_simp
  then show ?thesis using velocity_check_two_chars [of 2 2500000 100000 "''5'' @ [CHR 0x0D, CHR ''\<newline>'']"]
    by simp
qed

end
