(* ===== verification/Bring_Up.thy ===== *)
theory Bring_Up
  imports Motion "HOL-Library.Word"
begin

text \<open>
  System bring-up and tear-down in \<open>src/src/individualCommands.cpp\<close>: the light-engine
  warm-up \<open>TurnLightEngineOn\<close> and \<open>TurnLightEngineOff\<close>, \<open>initializeController\<close>, and
  \<open>InitializeSystem\<close> / \<open>DeinitializeSystem\<close>, which park the stage through the wait loops
  of \<^theory_text>\<open>Motion\<close> and set the LED current. The USB light-engine driver is an
  external library: its calls appear as a trace of \<open>le_call\<close> values, with \<open>unsigned char\<close>
  arguments as 8-bit words, and what it answers is an observation.
\<close>

subsection \<open>Light engine\<close>

datatype le_call =
    EnumUsbDevice | SetUsbDeviceIndex "8 word" | CheckUSBOnline | PowerOnOff "8 word"
  | GetSysStatus | SetCurrent "8 word" "8 word" | GetCurrent "8 word"
  | GetLedDefaultStatus | SetLedDefaultStatus "8 word" | GetStatus | GetTemperature

text \<open>One iteration of the warm-up loop observes the value \<open>GetSysStatus()\<close> returns and the
  clock at \<open>timeouttime\<close>, in milliseconds since \<open>inittime\<close>.\<close>

record le_obs =
  sys_status :: "8 word"
  le_clock_ms :: nat

text \<open>\<open>while (stat != 1)\<close> with \<open>stat = 4\<close> initially, so the body runs at least once:
  \<open>GetSysStatus\<close>, then the timeout test \<open>total > maxDuration\<close> on whole seconds, which
  powers the engine off and calls \<open>exit(1)\<close> (result \<open>False\<close>), then the loop test.\<close>

fun warmup_loop :: "le_obs list \<Rightarrow> le_call list \<Rightarrow> (le_call list \<times> bool) option" where
  "warmup_loop [] tr = None"
| "warmup_loop (ob # os) tr =
     (let tr1 = tr @ [GetSysStatus] in
      if 600 < le_clock_ms ob div 1000 then Some (tr1 @ [PowerOnOff 0], False)
      else if sys_status ob = 1 then Some (tr1, True)
      else warmup_loop os tr1)"

definition TurnLightEngineOn :: "le_obs list \<Rightarrow> (le_call list \<times> bool) option" where
  "TurnLightEngineOn os =
     warmup_loop os [EnumUsbDevice, SetUsbDeviceIndex 0, CheckUSBOnline, PowerOnOff 1]"

definition TurnLightEngineOff :: "le_call list" where
  "TurnLightEngineOff = [PowerOnOff 0]"

subsection \<open>Stage bring-up and tear-down\<close>

text \<open>\<open>initializeController\<close>: \<open>SMC100CInit\<close> on the selected port; the observation is
  whether the port reports open. On failure both callers \<open>exit(0)\<close>.\<close>

definition initializeController :: "bool \<Rightarrow> bool" where
  "initializeController port_open = port_open"

datatype init_result = InitExit | InitDone "le_call list"

text \<open>\<open>static_cast<U8>\<close> of the \<open>int\<close> current: the value modulo 256.\<close>

definition led_current :: "int \<Rightarrow> le_call list" where
  "led_current inputCurrent = [SetCurrent 0 (word_of_int inputCurrent), GetCurrent 0]"

text \<open>\<open>InitializeSystem\<close>: open the port, home, then four set-and-wait steps with a 60 s
  timeout (velocity tolerance 0.5, position tolerance 0.01), each with its own observations;
  positions in millionths of a millimetre.\<close>

definition InitializeSystem ::
  "int \<Rightarrow> int \<Rightarrow> int \<Rightarrow> int \<Rightarrow> bool \<Rightarrow> wait_obs list \<Rightarrow> wait_obs list \<Rightarrow> wait_obs list \<Rightarrow> wait_obs list
   \<Rightarrow> link_state \<Rightarrow> (init_result \<times> link_state) option" where
  "InitializeSystem inputCurrent initialPosition velocity initialVelocity port_open o1 o2 o3 o4 st =
     (if \<not> initializeController port_open then Some (InitExit, st)
      else do {
        let intermediatePosition = initialPosition - 10000000;
        (_, st1) \<leftarrow> waitForVelocity initialVelocity 500000 60 o1 (run_op (SetVelocity initialVelocity) (run_op Home st));
        (_, st2) \<leftarrow> waitForPosition intermediatePosition 10000 60 o2 (run_op (AbsoluteMove intermediatePosition) st1);
        (_, st3) \<leftarrow> waitForVelocity velocity 500000 60 o3 (run_op (SetVelocity velocity) st2);
        (_, st4) \<leftarrow> waitForPosition initialPosition 10000 60 o4 (run_op (AbsoluteMove initialPosition) st3);
        Some (InitDone (led_current inputCurrent), st4)
      })"

text \<open>The position \<open>DeinitializeSystem\<close> reads: \<open>stof(pos.substr(3, 6))\<close> after erasing
  line ends, with no length check; either exception leaves \<open>position = 0\<close>.\<close>

definition parked_position :: "string \<Rightarrow> int" where
  "parked_position pos0 =
     (let pos = erase_char CHR 0x0D (erase_char CHR ''\<newline>'' pos0) in
      case cxx_substr pos 3 6 of
        None \<Rightarrow> 0
      | Some d \<Rightarrow> (case stof d of None \<Rightarrow> 0 | Some p \<Rightarrow> p))"

definition DeinitializeSystem ::
  "int \<Rightarrow> int \<Rightarrow> bool \<Rightarrow> rx_obs list \<Rightarrow> wait_obs list \<Rightarrow> wait_obs list \<Rightarrow> wait_obs list
   \<Rightarrow> link_state \<Rightarrow> (init_result \<times> link_state) option" where
  "DeinitializeSystem inputCurrent initialVelocity port_open o0 o1 o2 o3 st =
     (if \<not> initializeController port_open then Some (InitExit, st)
      else do {
        (pos, st0) \<leftarrow> run_query GetPosition o0 (run_op Home st);
        let intermediatePosition = parked_position pos - 10000000;
        (_, st1) \<leftarrow> waitForPosition intermediatePosition 10000 60 o1 (run_op (AbsoluteMove intermediatePosition) st0);
        (_, st2) \<leftarrow> waitForVelocity initialVelocity 500000 60 o2 (run_op (SetVelocity initialVelocity) st1);
        (_, st3) \<leftarrow> waitForPosition 0 10000 60 o3 (run_op (AbsoluteMove 0) st2);
        Some (InitDone (led_current inputCurrent), st3)
      })"

text \<open>The environment of one wait loop in which it returns within its timeout: every query is
  answered and the clock advances by at least 100 ms per iteration.\<close>

definition wait_env_ok :: "nat \<Rightarrow> wait_obs list \<Rightarrow> bool" where
  "wait_env_ok timeout os \<longleftrightarrow>
     (\<forall>i<length os. 100 * Suc i \<le> clock_ms (os ! i)) \<and>
     (\<forall>i<length os. SerialRead [] (reply_obs (os ! i)) \<noteq> None) \<and> max 1 (10 * timeout) \<le> length os"

text \<open>Observations used by the examples below.\<close>

definition reply_at :: "string \<Rightarrow> nat \<Rightarrow> wait_obs" where
  "reply_at r t = \<lparr>reply_obs = [\<lparr>elapsed_ms = 0, arrived = r\<rparr>], clock_ms = t\<rparr>"

definition wait_demo :: "nat \<Rightarrow> wait_obs list" where
  "wait_demo n = map (\<lambda>i. reply_at ''1TP0.000\<newline>'' (100 * Suc i)) [0..<n]"

definition warm_obs :: "nat \<Rightarrow> le_obs list" where
  "warm_obs n = map (\<lambda>i. \<lparr>sys_status = 4, le_clock_ms = 100 * Suc i\<rparr>) [0..<n]"

lemma warmup_loop_bound:
  assumes "\<forall>i<length os. 100 * (Suc i + j) \<le> le_clock_ms (os ! i)" "j < 6010" "6010 \<le> length os + j"
  shows "warmup_loop os tr \<noteq> None \<and> warmup_loop os tr = warmup_loop (take (6010 - j) os) tr"
  using assms
proof (induction os arbitrary: j tr)
  case Nil
  then show ?case by simp
next
  case (Cons ob os)
  have tk: "take (6010 - j) (ob # os) = ob # take (6010 - Suc j) os"
    by (rule take_diff_Cons [OF Cons.prems(2)])
  show ?case
  proof (cases "600 < le_clock_ms ob div 1000 \<or> sys_status ob = 1")
    case True
    then show ?thesis unfolding tk by (auto simp: Let_def)
  next
    case False
    have lt: "Suc j < 6010"
    proof (rule ccontr)
      assume "\<not> Suc j < 6010"
      then have "601000 \<le> le_clock_ms ob" using Cons.prems(1) by force
      then show False using False by linarith
    qed
    have c: "\<forall>i<length os. 100 * (Suc i + Suc j) \<le> le_clock_ms (os ! i)"
      using Cons.prems(1) [unfolded all_less_Suc_shift] by simp
    have le: "6010 \<le> length os + Suc j" using Cons.prems(3) by simp
    note ih = Cons.IH [OF c lt le]
    show ?thesis unfolding tk using ih [of "tr @ [GetSysStatus]"] False by (simp add: Let_def) metis
  qed
qed

lemma warmup_loop_trace:
  "warmup_loop os tr = Some (tr', ok) \<Longrightarrow>
   \<exists>k>0. tr' = tr @ replicate k GetSysStatus @ (if ok then [] else [PowerOnOff 0])"
proof (induction os arbitrary: tr)
  case Nil
  then show ?case by simp
next
  case (Cons ob os)
  show ?case
  proof (cases "600 < le_clock_ms ob div 1000 \<or> sys_status ob = 1")
    case True
    then show ?thesis using Cons.prems by (auto simp: Let_def split: if_splits intro: exI [of _ 1])
  next
    case False
    then have "warmup_loop os (tr @ [GetSysStatus]) = Some (tr', ok)" using Cons.prems by (simp add: Let_def)
    from Cons.IH [OF this] obtain k where "0 < k"
      "tr' = (tr @ [GetSysStatus]) @ replicate k GetSysStatus @ (if ok then [] else [PowerOnOff 0])" by blast
    then show ?thesis by (intro exI [of _ "Suc k"]) (simp add: replicate_append_same [symmetric])
  qed
qed

lemma warmup_loop_late:
  assumes "\<forall>p\<in>set pre. sys_status p \<noteq> 1 \<and> \<not> 600 < le_clock_ms p div 1000" "600 < le_clock_ms ob div 1000"
  shows "warmup_loop (pre @ ob # os) tr = Some (tr @ replicate (Suc (length pre)) GetSysStatus @ [PowerOnOff 0], False)"
  using assms
proof (induction pre arbitrary: tr)
  case Nil
  then show ?case by simp
next
  case (Cons p pre)
  then show ?case by (simp add: Let_def replicate_append_same [symmetric])
qed

text \<open>C29: the light-engine warm-up loop terminates: if the clock advances by at least
  100 ms per iteration (the loop sleeps 100 ms), it returns or exits after at most 6010
  iterations, since \<open>duration_cast<seconds>\<close> exceeds 600 from 601000 ms on.\<close>

theorem TurnLightEngineOn_terminates:
  assumes "\<forall>i<length os. 100 * Suc i \<le> le_clock_ms (os ! i)" "6010 \<le> length os"
  shows "TurnLightEngineOn os \<noteq> None \<and> TurnLightEngineOn os = TurnLightEngineOn (take 6010 os)"
  unfolding TurnLightEngineOn_def
  apply (rule warmup_loop_bound [where j = 0, simplified add_0_right diff_zero])
  using assms by simp_all


text \<open>C31: the timeout test comes before the loop test, so an engine that reports ready
  (status 1) in the iteration in which 600 s are exceeded is still powered off and the
  program exits.\<close>

theorem TurnLightEngineOn_ready_too_late:
  assumes "\<forall>p\<in>set pre. sys_status p \<noteq> 1 \<and> \<not> 600 < le_clock_ms p div 1000" "600 < le_clock_ms ob div 1000"
  shows "TurnLightEngineOn (pre @ ob # os) =
           Some ([EnumUsbDevice, SetUsbDeviceIndex 0, CheckUSBOnline, PowerOnOff 1] @
                 replicate (Suc (length pre)) GetSysStatus @ [PowerOnOff 0], False)"
  using warmup_loop_late [OF assms] unfolding TurnLightEngineOn_def by simp

lemma unat_led_current: "unat (word_of_int i :: 8 word) = nat (i mod 256)"
  by (simp add: unat_eq_nat_uint uint_word_of_int)

lemma wait_loop_returns:
  "wait_env_ok timeout os \<Longrightarrow> \<exists>b st'. wait_loop q check cmd timeout os st = Some (b, st')"
  using wait_loop_bound [where j = 0 and os = os and timeout = timeout and q = q and check = check and cmd = cmd and st = st]
  by (auto simp: wait_env_ok_def less_max_iff_disj) metis

lemma wait_loop_log:
  "wait_loop q check cmd timeout os st = Some (b, st') \<Longrightarrow> \<exists>s. tx_log st' = tx_log st @ s"
proof (induction os arbitrary: st)
  case Nil
  then show ?case by simp
next
  case (Cons ob os)
  obtain reply st1 where q: "run_query q (reply_obs ob) st = Some (reply, st1)"
    using Cons.prems by (auto split: option.splits)
  have l1: "\<exists>s. tx_log st1 = tx_log st @ s"
    using q by (auto simp: run_query_def query_reply_def send_entry_wire split: option.splits)
  have l2: "tx_log (run_op cmd st1) = tx_log st1 @ wire_line (op_entry cmd)"
    by (simp add: run_op_def send_entry_wire)
  show ?case
  proof (cases "checkTimeout (clock_ms ob) timeout \<or> check reply = Some True")
    case True
    then have "st' = run_op cmd st1" using Cons.prems q by (auto simp: Let_def split: if_splits)
    then show ?thesis using l1 l2 by auto
  next
    case False
    then have "wait_loop q check cmd timeout os (run_op cmd st1) = Some (b, st')"
      using Cons.prems q by (simp add: Let_def)
    from Cons.IH [OF this] show ?thesis using l1 l2 by auto
  qed
qed

lemma waitForPosition_log: "waitForPosition p tol t os st = Some (b, st') \<Longrightarrow> \<exists>s. tx_log st' = tx_log st @ s"
  unfolding waitForPosition_def by (rule wait_loop_log)

lemma waitForVelocity_log: "waitForVelocity v tol t os st = Some (b, st') \<Longrightarrow> \<exists>s. tx_log st' = tx_log st @ s"
  unfolding waitForVelocity_def by (rule wait_loop_log)

lemma run_op_log [simp]: "tx_log (run_op c st) = tx_log st @ wire_line (op_entry c)"
  by (simp add: run_op_def send_entry_wire)

lemma waitFor_returns:
  assumes "wait_env_ok timeout os"
  shows "\<exists>b st'. waitForPosition p tol timeout os st = Some (b, st')"
        "\<exists>b st'. waitForVelocity v tol timeout os st = Some (b, st')"
  using wait_loop_returns [OF assms] by (simp_all add: waitForPosition_def waitForVelocity_def)

lemma InitializeSystem_done:
  assumes "wait_env_ok 60 o1" "wait_env_ok 60 o2" "wait_env_ok 60 o3" "wait_env_ok 60 o4"
  shows "\<exists>st'. InitializeSystem inputCurrent initialPosition velocity initialVelocity True o1 o2 o3 o4 st =
               Some (InitDone (led_current inputCurrent), st')"
proof -
  obtain b1 s1 where 1: "waitForVelocity initialVelocity 500000 60 o1
      (run_op (SetVelocity initialVelocity) (run_op Home st)) = Some (b1, s1)"
    using waitFor_returns(2) [OF assms(1)] by blast
  obtain b2 s2 where 2: "waitForPosition (initialPosition - 10000000) 10000 60 o2
      (run_op (AbsoluteMove (initialPosition - 10000000)) s1) = Some (b2, s2)"
    using waitFor_returns(1) [OF assms(2)] by blast
  obtain b3 s3 where 3: "waitForVelocity velocity 500000 60 o3 (run_op (SetVelocity velocity) s2) = Some (b3, s3)"
    using waitFor_returns(2) [OF assms(3)] by blast
  obtain b4 s4 where 4: "waitForPosition initialPosition 10000 60 o4 (run_op (AbsoluteMove initialPosition) s3) = Some (b4, s4)"
    using waitFor_returns(1) [OF assms(4)] by blast
  show ?thesis by (simp add: InitializeSystem_def initializeController_def Let_def 1 2 3 4)
qed

lemma DeinitializeSystem_done:
  assumes "SerialRead [] o0 \<noteq> None" "wait_env_ok 60 o1" "wait_env_ok 60 o2" "wait_env_ok 60 o3"
  shows "\<exists>st'. DeinitializeSystem inputCurrent initialVelocity True o0 o1 o2 o3 st =
               Some (InitDone (led_current inputCurrent), st')"
proof -
  obtain pos rx where "SerialRead [] o0 = Some (pos, rx)" using assms(1) by auto
  then obtain s0 where 0: "run_query GetPosition o0 (run_op Home st) = Some (pos, s0)"
    using run_query_read by blast
  obtain b1 s1 where 1: "waitForPosition (parked_position pos - 10000000) 10000 60 o1
      (run_op (AbsoluteMove (parked_position pos - 10000000)) s0) = Some (b1, s1)"
    using waitFor_returns(1) [OF assms(2)] by blast
  obtain b2 s2 where 2: "waitForVelocity initialVelocity 500000 60 o2 (run_op (SetVelocity initialVelocity) s1) = Some (b2, s2)"
    using waitFor_returns(2) [OF assms(3)] by blast
  obtain b3 s3 where 3: "waitForPosition 0 10000 60 o3 (run_op (AbsoluteMove 0) s2) = Some (b3, s3)"
    using waitFor_returns(1) [OF assms(4)] by blast
  show ?thesis by (simp add: DeinitializeSystem_def initializeController_def Let_def 0 1 2 3)
qed

text \<open>C32: once the port opens, \<open>InitializeSystem\<close> returns whenever each of its four
  wait loops is answered and sees the clock advance (60 s timeout, at most 600 iterations
  each), and it then sets the LED current.\<close>

theorem InitializeSystem_returns:
  assumes "wait_env_ok 60 o1" "wait_env_ok 60 o2" "wait_env_ok 60 o3" "wait_env_ok 60 o4"
  shows "\<exists>st'. InitializeSystem inputCurrent initialPosition velocity initialVelocity True o1 o2 o3 o4 st =
               Some (InitDone (led_current inputCurrent), st')"
  by (rule InitializeSystem_done [OF assms])

text \<open>C33: the LED current \<open>InitializeSystem\<close> sets is \<open>static_cast<U8>(inputCurrent)\<close>,
  the input modulo 256: an out-of-range current wraps (300 becomes 44).\<close>

theorem InitializeSystem_led_current:
  assumes "InitializeSystem inputCurrent initialPosition velocity initialVelocity port_open o1 o2 o3 o4 st =
             Some (InitDone calls, st')"
  shows "\<exists>w. calls = [SetCurrent 0 w, GetCurrent 0] \<and> unat w = nat (inputCurrent mod 256)"
  using assms
  by (auto simp: InitializeSystem_def Let_def bind_eq_Some_conv led_current_def unat_led_current split: if_splits)

text \<open>C34: when the position reply of \<open>DeinitializeSystem\<close> cannot be converted (for
  example the \<open>"Timeout"\<close> of a silent controller), \<open>position\<close> stays 0 and the first move
  it commands is an absolute move to -10 mm; afterwards it sets the LED current to
  \<open>inputCurrent\<close> again rather than switching it off.\<close>

theorem DeinitializeSystem_unreadable_position:
  assumes "SerialRead [] o0 = Some (pos, rx)" "parked_position pos = 0"
    "DeinitializeSystem inputCurrent initialVelocity True o0 o1 o2 o3 st = Some (r, st')"
  shows "r = InitDone (led_current inputCurrent) \<and>
         (\<exists>s. tx_log st' = tx_log st @ wire_line (op_entry Home) @ wire_line (query_entry GetPosition)
                           @ wire_line (op_entry (AbsoluteMove (- 10000000))) @ s)"
proof -
  let ?st0 = "(send_entry (query_entry GetPosition) ((run_op Home st)\<lparr>rx_buf := []\<rparr>))\<lparr>rx_buf := rx\<rparr>"
  have q: "run_query GetPosition o0 (run_op Home st) = Some (pos, ?st0)"
    using assms(1) by (simp add: run_query_def query_reply_read)
  have l0: "tx_log ?st0 = tx_log st @ wire_line (op_entry Home) @ wire_line (query_entry GetPosition)"
    by (simp add: send_entry_wire)
  from assms(3) obtain b1 s1 b2 s2 b3 where
    1: "waitForPosition (- 10000000) 10000 60 o1 (run_op (AbsoluteMove (- 10000000)) ?st0) = Some (b1, s1)" and
    2: "waitForVelocity initialVelocity 500000 60 o2 (run_op (SetVelocity initialVelocity) s1) = Some (b2, s2)" and
    3: "waitForPosition 0 10000 60 o3 (run_op (AbsoluteMove 0) s2) = Some (b3, st')" and
    r: "r = InitDone (led_current inputCurrent)"
    by (auto simp: DeinitializeSystem_def initializeController_def Let_def bind_eq_Some_conv q assms(2))
  show ?thesis
    using waitForPosition_log [OF 1] waitForVelocity_log [OF 2] waitForPosition_log [OF 3] l0 r by auto
qed

theorem TurnLightEngineOn_terminates_witness:
  "TurnLightEngineOn (warm_obs 6010) \<noteq> None \<and> TurnLightEngineOn (warm_obs 6010) = TurnLightEngineOn (take 6010 (warm_obs 6010))"
  by (rule TurnLightEngineOn_terminates) (simp_all add: warm_obs_def)


theorem TurnLightEngineOn_ready_too_late_witness:
  "TurnLightEngineOn [\<lparr>sys_status = 4, le_clock_ms = 100\<rparr>, \<lparr>sys_status = 1, le_clock_ms = 601000\<rparr>] =
     Some ([EnumUsbDevice, SetUsbDeviceIndex 0, CheckUSBOnline, PowerOnOff 1, GetSysStatus, GetSysStatus, PowerOnOff 0], False)"
proof -
  have "(4::8 word) \<noteq> 1" by simp
  then show ?thesis
    using TurnLightEngineOn_ready_too_late [of "[\<lparr>sys_status = 4, le_clock_ms = 100\<rparr>]" "\<lparr>sys_status = 1, le_clock_ms = 601000\<rparr>" "[]"]
    by (simp add: numeral_2_eq_2)
qed

theorem InitializeSystem_returns_witness:
  "\<exists>st'. InitializeSystem 300 15000000 1000000 5000000 True (wait_demo 600) (wait_demo 600) (wait_demo 600) (wait_demo 600)
     \<lparr>rx_buf = [], tx_log = []\<rparr> = Some (InitDone (led_current 300), st')"
  by (rule InitializeSystem_returns)
     (simp_all add: wait_env_ok_def wait_demo_def reply_at_def SerialRead_def readString_def take_chunk_def)

theorem InitializeSystem_led_current_witness:
  "\<exists>w. led_current 300 = [SetCurrent 0 w, GetCurrent 0] \<and> unat w = 44"
proof -
  have "\<exists>S. InitializeSystem 300 15000000 1000000 5000000 True [reply_at ''1VA5.0\<newline>'' 60000]
      [reply_at ''1TP5.0000\<newline>'' 60000] [reply_at ''1VA1.0\<newline>'' 60000] [reply_at ''1TP15.000\<newline>'' 60000]
      \<lparr>rx_buf = [], tx_log = []\<rparr> = Some (InitDone (led_current 300), S)"
    by (simp add: InitializeSystem_def initializeController_def waitForPosition_def waitForVelocity_def
        reply_at_def run_query_def query_reply_def SerialRead_def readString_def take_chunk_def checkTimeout_def Let_def)
  then obtain S where "InitializeSystem 300 15000000 1000000 5000000 True [reply_at ''1VA5.0\<newline>'' 60000]
      [reply_at ''1TP5.0000\<newline>'' 60000] [reply_at ''1VA1.0\<newline>'' 60000] [reply_at ''1TP15.000\<newline>'' 60000]
      \<lparr>rx_buf = [], tx_log = []\<rparr> = Some (InitDone (led_current 300), S)" by blast
  from InitializeSystem_led_current [OF this] show ?thesis by simp
qed

theorem DeinitializeSystem_unreadable_position_witness:
  "\<exists>st'. DeinitializeSystem 300 5000000 True [\<lparr>elapsed_ms = 25, arrived = []\<rparr>] [reply_at ''1TP-10.00\<newline>'' 60000]
      [reply_at ''1VA5.0\<newline>'' 60000] [reply_at ''1TP0.0000\<newline>'' 60000] \<lparr>rx_buf = [], tx_log = []\<rparr> =
      Some (InitDone (led_current 300), st') \<and>
      (\<exists>s. tx_log st' = wire_line (op_entry Home) @ wire_line (query_entry GetPosition)
                        @ wire_line (op_entry (AbsoluteMove (- 10000000))) @ s)"
proof -
  have p: "SerialRead [] [\<lparr>elapsed_ms = 25, arrived = []\<rparr>] = Some (''Timeout'', [])"
    by (simp add: SerialRead_def readString_def)
  have z: "parked_position ''Timeout'' = 0"
    by (simp add: parked_position_def erase_char_def cxx_substr_def stof_def Let_def is_space_def is_digit_def char_digit_def)
  have "\<exists>S. DeinitializeSystem 300 5000000 True [\<lparr>elapsed_ms = 25, arrived = []\<rparr>] [reply_at ''1TP-10.00\<newline>'' 60000]
      [reply_at ''1VA5.0\<newline>'' 60000] [reply_at ''1TP0.0000\<newline>'' 60000] \<lparr>rx_buf = [], tx_log = []\<rparr> = Some (InitDone (led_current 300), S)"
    by (simp add: DeinitializeSystem_def initializeController_def waitForPosition_def waitForVelocity_def z
        reply_at_def run_query_def query_reply_def SerialRead_def readString_def take_chunk_def checkTimeout_def Let_def)
  then obtain S where d: "DeinitializeSystem 300 5000000 True [\<lparr>elapsed_ms = 25, arrived = []\<rparr>] [reply_at ''1TP-10.00\<newline>'' 60000]
      [reply_at ''1VA5.0\<newline>'' 60000] [reply_at ''1TP0.0000\<newline>'' 60000] \<lparr>rx_buf = [], tx_log = []\<rparr> = Some (InitDone (led_current 300), S)" by blast
  from DeinitializeSystem_unreadable_position [OF p z d] d show ?thesis by auto
qed

end
