(* ===== verification/Sync_Engine.thy ===== *)
theory Sync_Engine
  imports Prelude
begin

text \<open>
  The exposure loop of \<open>RunFull\<close> (\<open>src/src/individualCommands.cpp\<close>): one call of
  \<open>loop_iteration\<close> is one iteration of \<open>while (window.isOpen())\<close>, paced by the
  display's VSync. What the loop reads from its environment in an iteration is a
  \<open>tick_obs\<close>: the abort flag, whether the asynchronous \<open>moveStage\<close> task has
  finished (\<open>stageThread.wait_for(0) == ready\<close>), whether the dark timer has run out,
  and whether a window-close event was polled. What it does to the outside world is
  appended to \<open>events\<close>: frames presented, textures loaded, stage moves launched and
  joined, position queries, the light-engine current. The code ignores the result of
  \<open>loadFromFile\<close> (lines 873 and 1040), and so does the model: a texture slot records the
  file it was last asked to load, which is what its pixels show only when that load
  succeeded (a failed load leaves the previous image or an empty texture).
\<close>

datatype action =
    PresentImage "nat option"   \<comment> \<open>draw the sprite of \<open>textures[currentTextureIndex]\<close>: the file it was last loaded from\<close>
  | PresentBlank                \<comment> \<open>\<open>window.clear(); window.display()\<close>\<close>
  | LoadTexture nat nat         \<comment> \<open>\<open>textures[slot].loadFromFile(imagePaths[i])\<close>\<close>
  | LaunchMove                  \<comment> \<open>\<open>std::async(moveStage, ...)\<close>\<close>
  | JoinMove                    \<comment> \<open>\<open>stageThread.get()\<close>\<close>
  | QueryPosition               \<comment> \<open>\<open>controller.GetPosition()\<close>, logged\<close>
  | SetCurrentZero              \<comment> \<open>\<open>SetCurrent(0, 0)\<close>\<close>
  | SetCurrentLevel int         \<comment> \<open>\<open>SetCurrent(0, intensity)\<close> of a dynamic group\<close>
  | HomeStage | CloseStage | CloseWindow

record run_config =
  maxImageDisplayCount :: int
  initialExposureCounter :: int
  initialLayers :: int
  n_images :: nat

record tick_obs =
  abort_flag :: bool
  move_ready :: bool
  dark_elapsed :: bool
  window_closed :: bool

record run_state =
  displayImage :: bool
  imageDisplayCount :: int
  currentLayer :: int
  inInitialPhase :: bool
  inLightPhase :: bool
  filenameLogged :: bool
  isStageThreadRunning :: bool
  nextImageLoaded :: bool
  isNextImageLoading :: bool
  allImagesShown :: bool
  currentImageIndex :: nat
  currentTextureIndex :: nat
  textures :: "nat option list"
  events :: "action list"

datatype run_exit = ExitAborted | ExitAllShown | ExitWindowClosed

definition emit_ev :: "action list \<Rightarrow> run_state \<Rightarrow> run_state" where
  "emit_ev es s = s\<lparr>events := events s @ es\<rparr>"

text \<open>State before the loop: the first image requested for texture slot 0.\<close>

definition run_init :: run_state where
  "run_init = \<lparr>displayImage = True, imageDisplayCount = 0, currentLayer = 0,
     inInitialPhase = True, inLightPhase = True, filenameLogged = False,
     isStageThreadRunning = False, nextImageLoaded = False, isNextImageLoading = False,
     allImagesShown = False, currentImageIndex = 0, currentTextureIndex = 0,
     textures = [Some 0, None], events = [LoadTexture 0 0]\<rparr>"

text \<open>The light branch after the abort check, in the code's two blocks: present the
  current texture (logging the file name on the first frame), then count, and at the
  threshold query the position and switch to the dark phase.\<close>

definition light_present :: "run_state \<Rightarrow> run_state" where
  "light_present s =
     emit_ev [PresentImage (textures s ! currentTextureIndex s)]
       (if \<not> filenameLogged s \<and> inLightPhase s then s\<lparr>filenameLogged := True, inLightPhase := False\<rparr> else s)"

definition max_count :: "run_config \<Rightarrow> run_state \<Rightarrow> int" where
  "max_count cfg s = (if inInitialPhase s then initialExposureCounter cfg else maxImageDisplayCount cfg)"

definition light_count :: "run_config \<Rightarrow> run_state \<Rightarrow> run_state" where
  "light_count cfg s =
     (if max_count cfg s \<le> imageDisplayCount s + 1 then
        emit_ev [QueryPosition]
          (s\<lparr>displayImage := False, imageDisplayCount := 0, currentLayer := currentLayer s + 1,
              inInitialPhase := (if initialLayers cfg \<le> currentLayer s + 1 then False else inInitialPhase s)\<rparr>)
      else s\<lparr>imageDisplayCount := imageDisplayCount s + 1\<rparr>)"

definition light_tick :: "run_config \<Rightarrow> run_state \<Rightarrow> run_state" where
  "light_tick cfg s = light_count cfg (light_present s)"

text \<open>The dark branch, block by block: blank frame (and phase log), launch the stage move,
  preload the next image into the unused slot (or note that none is left), poll the
  move, and swap when the timer, the preload and the move all allow it (followed by two
  blank settle frames).\<close>

definition dark_present :: "run_state \<Rightarrow> run_state" where
  "dark_present s = emit_ev [PresentBlank] (if \<not> inLightPhase s then s\<lparr>inLightPhase := True\<rparr> else s)"

definition dark_launch :: "run_state \<Rightarrow> run_state" where
  "dark_launch s =
     (if \<not> isStageThreadRunning s \<and> \<not> nextImageLoaded s
      then emit_ev [LaunchMove] (s\<lparr>isStageThreadRunning := True\<rparr>) else s)"

definition dark_preload :: "run_config \<Rightarrow> run_state \<Rightarrow> run_state" where
  "dark_preload cfg s =
     (if currentImageIndex s + 1 < n_images cfg \<and> \<not> isNextImageLoading s then
        emit_ev [LoadTexture (1 - currentTextureIndex s) (currentImageIndex s + 1)]
          (s\<lparr>isNextImageLoading := True,
              textures := (textures s)[1 - currentTextureIndex s := Some (currentImageIndex s + 1)],
              nextImageLoaded := True\<rparr>)
      else if n_images cfg \<le> currentImageIndex s + 1 \<and> \<not> isNextImageLoading s
      then s\<lparr>allImagesShown := True\<rparr>
      else s)"

definition dark_poll :: "tick_obs \<Rightarrow> run_state \<Rightarrow> run_state" where
  "dark_poll obs s =
     (if isStageThreadRunning s \<and> move_ready obs
      then emit_ev [JoinMove] (s\<lparr>isStageThreadRunning := False\<rparr>) else s)"

definition dark_swap :: "tick_obs \<Rightarrow> run_state \<Rightarrow> run_state" where
  "dark_swap obs s =
     (if dark_elapsed obs \<and> nextImageLoaded s \<and> \<not> isStageThreadRunning s then
        emit_ev [PresentBlank, PresentBlank]
          (s\<lparr>displayImage := True, isNextImageLoading := False,
              currentImageIndex := currentImageIndex s + 1,
              currentTextureIndex := 1 - currentTextureIndex s,
              nextImageLoaded := False, filenameLogged := False\<rparr>)
      else s)"

definition dark_tick :: "run_config \<Rightarrow> tick_obs \<Rightarrow> run_state \<Rightarrow> run_state" where
  "dark_tick cfg obs s = dark_swap obs (dark_poll obs (dark_preload cfg (dark_launch (dark_present s))))"

text \<open>One iteration of the loop: the abort check at the top of the light branch returns
  from \<open>RunFull\<close> at once; otherwise the branch runs, then the \<open>allImagesShown\<close>
  break, then the loop condition (a close event polled at the top of the iteration).\<close>

definition loop_iteration :: "run_config \<Rightarrow> tick_obs \<Rightarrow> run_state \<Rightarrow> run_state \<times> run_exit option" where
  "loop_iteration cfg obs s =
     (if displayImage s \<and> abort_flag obs then (s, Some ExitAborted)
      else let s' = (if displayImage s then light_tick cfg s else dark_tick cfg obs s)
           in if allImagesShown s' \<and> \<not> displayImage s' then (emit_ev [SetCurrentZero] s', Some ExitAllShown)
              else if window_closed obs then (s', Some ExitWindowClosed)
              else (s', None))"

text \<open>The loop over a finite sequence of observations: \<open>None\<close> when the sequence ends
  before the loop does.\<close>

fun run_loop :: "run_config \<Rightarrow> tick_obs list \<Rightarrow> run_state \<Rightarrow> run_state \<times> run_exit option" where
  "run_loop cfg [] s = (s, None)"
| "run_loop cfg (obs # os) s =
     (case loop_iteration cfg obs s of
        (s', Some e) \<Rightarrow> (s', Some e)
      | (s', None) \<Rightarrow> run_loop cfg os s')"

text \<open>After the loop: join an in-flight move, query the final position, home, close the
  stage connection and the window. The abort path returns from inside the loop and does
  none of this; only the destructor of the \<open>std::future\<close> returned by
  \<open>std::async\<close> still waits for an in-flight move.\<close>

definition run_shutdown :: "run_state \<Rightarrow> run_state" where
  "run_shutdown s =
     (let s1 = (if isStageThreadRunning s then emit_ev [JoinMove] (s\<lparr>isStageThreadRunning := False\<rparr>) else s)
      in emit_ev [QueryPosition, HomeStage, CloseStage, CloseWindow] s1)"

definition abort_return :: "run_state \<Rightarrow> run_state" where
  "abort_return s =
     (if isStageThreadRunning s then emit_ev [JoinMove] (s\<lparr>isStageThreadRunning := False\<rparr>) else s)"

definition RunFull_loop :: "run_config \<Rightarrow> tick_obs list \<Rightarrow> run_state \<times> run_exit option" where
  "RunFull_loop cfg os =
     (case run_loop cfg os run_init of
        (s, None) \<Rightarrow> (s, None)
      | (s, Some ExitAborted) \<Rightarrow> (abort_return s, Some ExitAborted)
      | (s, Some e) \<Rightarrow> (run_shutdown s, Some e))"

definition coop :: tick_obs where
  "coop = \<lparr>abort_flag = False, move_ready = True, dark_elapsed = True, window_closed = False\<rparr>"

subsection \<open>Checkers over the event trace\<close>

text \<open>\<open>stage_protocol n es\<close>: with \<open>n\<close> moves in flight, the events \<open>es\<close> launch a
  move only when none is in flight, join only an in-flight one, and present an image
  only when none is in flight. \<open>shown_upto m es\<close>: after images \<open>0..m-1\<close> have been
  shown, the presented images continue in order (repeating the last or taking the next).\<close>

fun stage_protocol :: "nat \<Rightarrow> action list \<Rightarrow> bool" where
  "stage_protocol n [] = True"
| "stage_protocol n (LaunchMove # es) = (n = 0 \<and> stage_protocol 1 es)"
| "stage_protocol n (JoinMove # es) = (n = 1 \<and> stage_protocol 0 es)"
| "stage_protocol n (PresentImage _ # es) = (n = 0 \<and> stage_protocol n es)"
| "stage_protocol n (_ # es) = stage_protocol n es"

fun in_flight :: "nat \<Rightarrow> action list \<Rightarrow> nat" where
  "in_flight n [] = n"
| "in_flight n (LaunchMove # es) = in_flight (Suc n) es"
| "in_flight n (JoinMove # es) = in_flight (n - 1) es"
| "in_flight n (_ # es) = in_flight n es"

fun shown_upto :: "nat \<Rightarrow> action list \<Rightarrow> nat option" where
  "shown_upto m [] = Some m"
| "shown_upto m (PresentImage (Some k) # es) =
     (if Suc k = m then shown_upto m es else if k = m then shown_upto (Suc m) es else None)"
| "shown_upto m (PresentImage None # es) = None"
| "shown_upto m (_ # es) = shown_upto m es"

definition shown_count :: "run_state \<Rightarrow> nat" where
  "shown_count s = (if displayImage s \<and> inLightPhase s then currentImageIndex s else Suc (currentImageIndex s))"

definition run_inv :: "run_config \<Rightarrow> run_state \<Rightarrow> bool" where
  "run_inv cfg s \<longleftrightarrow>
     stage_protocol 0 (events s)
   \<and> in_flight 0 (events s) = (if isStageThreadRunning s then 1 else 0)
   \<and> shown_upto 0 (events s) = Some (shown_count s)
   \<and> (displayImage s \<longrightarrow> \<not> isStageThreadRunning s \<and> \<not> nextImageLoaded s \<and> inLightPhase s = (\<not> filenameLogged s))
   \<and> (\<not> displayImage s \<longrightarrow> \<not> inLightPhase s \<longrightarrow> \<not> isStageThreadRunning s \<and> \<not> nextImageLoaded s)
   \<and> (\<not> displayImage s \<longrightarrow> inLightPhase s \<longrightarrow> nextImageLoaded s \<or> allImagesShown s)
   \<and> isNextImageLoading s = nextImageLoaded s
   \<and> currentTextureIndex s < 2 \<and> length (textures s) = 2
   \<and> textures s ! currentTextureIndex s = Some (currentImageIndex s)
   \<and> currentImageIndex s < n_images cfg
   \<and> (nextImageLoaded s \<longrightarrow> Suc (currentImageIndex s) < n_images cfg
        \<and> textures s ! (1 - currentTextureIndex s) = Some (Suc (currentImageIndex s)))"

abbreviation continuing :: "run_state \<Rightarrow> bool" where
  "continuing s \<equiv> \<not> (allImagesShown s \<and> \<not> displayImage s)"

subsection \<open>The run invariant and safety\<close>

lemma stage_protocol_append [simp]:
  "stage_protocol n (xs @ ys) \<longleftrightarrow> stage_protocol n xs \<and> stage_protocol (in_flight n xs) ys"
  by (induction n xs rule: stage_protocol.induct) auto

lemma in_flight_append [simp]: "in_flight n (xs @ ys) = in_flight (in_flight n xs) ys"
  by (induction n xs rule: in_flight.induct) auto

lemma shown_upto_append [simp]:
  "shown_upto m (xs @ ys) = (case shown_upto m xs of None \<Rightarrow> None | Some m' \<Rightarrow> shown_upto m' ys)"
  by (induction m xs rule: shown_upto.induct) auto

lemma other_slot [simp]: "c < 2 \<Longrightarrow> Suc 0 - c \<noteq> (c::nat)" "c < 2 \<Longrightarrow> Suc 0 - (Suc 0 - c) = (c::nat)"
  "c < 2 \<Longrightarrow> Suc 0 - c < (2::nat)"
  by arith+

lemma run_inv_init: "0 < n_images cfg \<Longrightarrow> run_inv cfg run_init"
  by (simp add: run_inv_def run_init_def shown_count_def)

lemma light_tick_inv: "run_inv cfg s \<Longrightarrow> displayImage s \<Longrightarrow> run_inv cfg (light_tick cfg s)"
  unfolding run_inv_def shown_count_def light_tick_def light_present_def light_count_def emit_ev_def
  by (simp split: if_split)

lemma dark_first_next:
  assumes "\<not> inLightPhase s" "\<not> isStageThreadRunning s" "\<not> nextImageLoaded s" "\<not> isNextImageLoading s"
    "Suc (currentImageIndex s) < n_images cfg"
  shows "dark_preload cfg (dark_launch (dark_present s)) =
    s\<lparr>inLightPhase := True, isStageThreadRunning := True, isNextImageLoading := True,
       textures := (textures s)[1 - currentTextureIndex s := Some (Suc (currentImageIndex s))],
       nextImageLoaded := True,
       events := events s @ [PresentBlank, LaunchMove, LoadTexture (1 - currentTextureIndex s) (Suc (currentImageIndex s))]\<rparr>"
  using assms by (simp add: dark_present_def dark_launch_def dark_preload_def emit_ev_def)

lemma dark_first_last:
  assumes "\<not> inLightPhase s" "\<not> isStageThreadRunning s" "\<not> nextImageLoaded s" "\<not> isNextImageLoading s"
    "n_images cfg \<le> Suc (currentImageIndex s)"
  shows "dark_preload cfg (dark_launch (dark_present s)) =
    s\<lparr>inLightPhase := True, isStageThreadRunning := True, allImagesShown := True,
       events := events s @ [PresentBlank, LaunchMove]\<rparr>"
  using assms by (simp add: dark_present_def dark_launch_def dark_preload_def emit_ev_def)

lemma dark_later:
  assumes "inLightPhase s" "nextImageLoaded s" "isNextImageLoading s"
  shows "dark_preload cfg (dark_launch (dark_present s)) = s\<lparr>events := events s @ [PresentBlank]\<rparr>"
  using assms by (simp add: dark_present_def dark_launch_def dark_preload_def emit_ev_def)

lemma dark_tick_inv:
  assumes inv: "run_inv cfg s" and dark: "\<not> displayImage s" and more: "\<not> allImagesShown s"
  shows "run_inv cfg (dark_tick cfg obs s)"
proof (cases "inLightPhase s")
  case False
  with inv dark have fl: "\<not> isStageThreadRunning s" "\<not> nextImageLoaded s" "\<not> isNextImageLoading s"
    by (simp_all add: run_inv_def)
  show ?thesis
  proof (cases "Suc (currentImageIndex s) < n_images cfg")
    case True
    show ?thesis
      using inv dark False fl True
      unfolding dark_tick_def dark_first_next [OF False fl True]
      by (cases "move_ready obs"; cases "dark_elapsed obs")
        (simp_all add: run_inv_def shown_count_def dark_poll_def dark_swap_def emit_ev_def nth_list_update)
  next
    case nlast: False
    then have le: "n_images cfg \<le> Suc (currentImageIndex s)" by simp
    show ?thesis
      using inv dark False fl
      unfolding dark_tick_def dark_first_last [OF False fl le]
      by (cases "move_ready obs")
        (simp_all add: run_inv_def shown_count_def dark_poll_def dark_swap_def emit_ev_def)
  qed
next
  case True
  with inv dark more have fl: "nextImageLoaded s" "isNextImageLoading s"
    by (simp_all add: run_inv_def)
  show ?thesis
    using inv dark True fl
    unfolding dark_tick_def dark_later [OF True fl]
    by (cases "move_ready obs"; cases "dark_elapsed obs"; cases "isStageThreadRunning s")
      (simp_all add: run_inv_def shown_count_def dark_poll_def dark_swap_def emit_ev_def)
qed

lemma run_inv_emit_neutral:
  "run_inv cfg s \<Longrightarrow> e \<in> {SetCurrentZero, QueryPosition, HomeStage, CloseStage, CloseWindow} \<Longrightarrow>
   run_inv cfg (emit_ev [e] s)"
  by (auto simp: run_inv_def shown_count_def emit_ev_def)

lemma loop_iteration_inv:
  assumes "run_inv cfg s" "continuing s" "loop_iteration cfg obs s = (s', r)"
  shows "run_inv cfg s' \<and> (r = None \<longrightarrow> continuing s')"
proof (cases "displayImage s")
  case True
  with assms(1) have "run_inv cfg (light_tick cfg s)" by (rule light_tick_inv)
  with assms(1,3) True show ?thesis
    by (auto simp: loop_iteration_def Let_def run_inv_emit_neutral split: if_splits)
next
  case False
  with assms(1,2) have "run_inv cfg (dark_tick cfg obs s)" by (simp add: dark_tick_inv)
  with assms(3) False show ?thesis
    by (auto simp: loop_iteration_def Let_def run_inv_emit_neutral split: if_splits)
qed

lemma run_loop_inv:
  "run_inv cfg s \<Longrightarrow> continuing s \<Longrightarrow> run_inv cfg (fst (run_loop cfg os s))"
proof (induction os arbitrary: s)
  case Nil
  then show ?case by simp
next
  case (Cons obs os)
  obtain s' r where it: "loop_iteration cfg obs s = (s', r)" by fastforce
  with Cons.prems have "run_inv cfg s'" and "r = None \<longrightarrow> continuing s'"
    using loop_iteration_inv by blast+
  with Cons.IH it show ?case by (cases r) auto
qed

lemma run_inv_tail:
  assumes "run_inv cfg s"
  shows "stage_protocol 0 (events (run_shutdown s)) \<and> in_flight 0 (events (run_shutdown s)) = 0"
    "stage_protocol 0 (events (abort_return s)) \<and> in_flight 0 (events (abort_return s)) = 0"
  using assms by (auto simp: run_inv_def run_shutdown_def abort_return_def emit_ev_def)

lemma RunFull_loop_inv_cases:
  assumes "0 < n_images cfg"
  obtains s where "run_inv cfg s" and "RunFull_loop cfg os = (s, None)"
  | s e where "run_inv cfg s" and "RunFull_loop cfg os = (run_shutdown s, Some e)"
  | s where "run_inv cfg s" and "RunFull_loop cfg os = (abort_return s, Some ExitAborted)"
proof -
  obtain s0 r0 where rl: "run_loop cfg os run_init = (s0, r0)" by fastforce
  have "run_inv cfg (fst (run_loop cfg os run_init))"
    using assms by (intro run_loop_inv run_inv_init) (simp_all add: run_init_def)
  with rl have inv: "run_inv cfg s0" by simp
  show ?thesis
  proof (cases r0)
    case None
    with rl show ?thesis by (intro that(1) [OF inv]) (simp add: RunFull_loop_def)
  next
    case (Some e)
    show ?thesis
    proof (cases e)
      case ExitAborted
      with Some rl show ?thesis by (intro that(3) [OF inv]) (simp add: RunFull_loop_def)
    next
      case ExitAllShown
      with Some rl show ?thesis by (intro that(2) [OF inv]) (simp add: RunFull_loop_def)
    next
      case ExitWindowClosed
      with Some rl show ?thesis by (intro that(2) [OF inv]) (simp add: RunFull_loop_def)
    qed
  qed
qed

text \<open>
  C4: whatever the environment does (abort, slow or fast stage moves, dark timer, window
  events), the events of a run follow the stage protocol: a stage move is launched only
  when none is in flight, joined only when one is, and no image frame is presented while
  a move is in flight, so curing never starts before the stage has settled; and once
  \<open>RunFull\<close> has returned, every move it launched has been joined.
\<close>

theorem RunFull_stage_protocol:
  assumes "0 < n_images cfg"
  shows "stage_protocol 0 (events (fst (RunFull_loop cfg os)))
       \<and> (snd (RunFull_loop cfg os) \<noteq> None \<longrightarrow> in_flight 0 (events (fst (RunFull_loop cfg os))) = 0)"
  using assms
proof (cases rule: RunFull_loop_inv_cases [of cfg os])
  case (1 s) then show ?thesis by (simp add: run_inv_def)
next
  case (2 s e) then show ?thesis using run_inv_tail(1) by simp
next
  case (3 s) then show ?thesis using run_inv_tail(2) by simp
qed

lemma shown_count_bound: "run_inv cfg s \<Longrightarrow> shown_count s \<le> n_images cfg"
  by (simp add: run_inv_def shown_count_def)

theorem RunFull_stage_protocol_witness:
  "0 < n_images \<lparr>maxImageDisplayCount = 5, initialExposureCounter = 3, initialLayers = 2, n_images = 5\<rparr>
   \<and> stage_protocol 0 (events (fst (RunFull_loop \<lparr>maxImageDisplayCount = 5, initialExposureCounter = 3, initialLayers = 2, n_images = 5\<rparr> (replicate 26 coop))))"
  using RunFull_stage_protocol [of "\<lparr>maxImageDisplayCount = 5, initialExposureCounter = 3, initialLayers = 2, n_images = 5\<rparr>" "replicate 26 coop"]
  by simp

end
