(* ===== verification/Sync_Liveness.thy ===== *)
theory Sync_Liveness
  imports Sync_Engine
begin

text \<open>Liveness of the static run loop of \<^verbatim>\<open>RunFull\<close> (src/individualCommands.cpp) in a
cooperative environment: no abort, the window stays open, every stage move has finished when the
loop polls it and the dark period has elapsed at every dark tick (observation \<^const>\<open>coop\<close>).
Under these observations the loop of \<^const>\<open>RunFull_loop\<close> leaves with
\<^const>\<open>ExitAllShown\<close> after exactly run_ticks ticks and its event trace is the
concatenation of one layer_events block per image: layer_frames exposures
of image L, the position query, the blank frame, the launched move, the preload of image L+1 into
the other texture slot, the join of the move and the two blank frames of the swap.\<close>

definition in_initial :: "run_config \<Rightarrow> nat \<Rightarrow> bool" where
  "in_initial cfg L \<longleftrightarrow> L = 0 \<or> int L < initialLayers cfg"


definition layer_count :: "run_config \<Rightarrow> nat \<Rightarrow> int" where
  "layer_count cfg L = (if in_initial cfg L then initialExposureCounter cfg else maxImageDisplayCount cfg)"


definition layer_frames :: "run_config \<Rightarrow> nat \<Rightarrow> nat" where
  "layer_frames cfg L = nat (max 1 (layer_count cfg L))"


text \<open>The effects of one light/dark cycle of image \<open>L\<close> out of \<open>n\<close> with \<open>frames\<close>
  exposure frames, in a cooperative environment.\<close>

definition cycle_events :: "nat \<Rightarrow> nat \<Rightarrow> nat \<Rightarrow> action list" where
  "cycle_events frames n L =
     replicate frames (PresentImage (Some L)) @ [QueryPosition, PresentBlank, LaunchMove] @
     (if Suc L < n then [LoadTexture (Suc L mod 2) (Suc L), JoinMove, PresentBlank, PresentBlank]
      else [JoinMove])"

definition layer_events :: "run_config \<Rightarrow> nat \<Rightarrow> action list" where
  "layer_events cfg L = cycle_events (layer_frames cfg L) (n_images cfg) L"


definition run_ticks :: "run_config \<Rightarrow> nat \<Rightarrow> nat" where
  "run_ticks cfg L = (\<Sum>j\<leftarrow>[L..<n_images cfg]. Suc (layer_frames cfg j))"


definition layer_start :: "run_config \<Rightarrow> nat \<Rightarrow> run_state \<Rightarrow> bool" where
  "layer_start cfg L s \<longleftrightarrow>
     displayImage s \<and> imageDisplayCount s = 0 \<and> currentLayer s = int L \<and> inInitialPhase s = in_initial cfg L
   \<and> inLightPhase s \<and> \<not> filenameLogged s \<and> \<not> isStageThreadRunning s \<and> \<not> nextImageLoaded s
   \<and> \<not> isNextImageLoading s \<and> \<not> allImagesShown s \<and> currentImageIndex s = L
   \<and> currentTextureIndex s = L mod 2 \<and> length (textures s) = 2 \<and> textures s ! (L mod 2) = Some L"


definition light_after :: "nat \<Rightarrow> nat \<Rightarrow> run_state \<Rightarrow> run_state" where
  "light_after L k s = s\<lparr>inLightPhase := False, filenameLogged := True, imageDisplayCount := int k,
     events := events s @ replicate k (PresentImage (Some L))\<rparr>"


definition dark_entry :: "run_config \<Rightarrow> nat \<Rightarrow> run_state \<Rightarrow> run_state" where
  "dark_entry cfg L s = s\<lparr>inLightPhase := False, filenameLogged := True, displayImage := False,
     imageDisplayCount := 0, currentLayer := int L + 1, inInitialPhase := in_initial cfg (Suc L),
     events := events s @ replicate (layer_frames cfg L) (PresentImage (Some L)) @ [QueryPosition]\<rparr>"


definition demo_cfg :: run_config where
  "demo_cfg = \<lparr>maxImageDisplayCount = 5, initialExposureCounter = 3, initialLayers = 2, n_images = 5\<rparr>"


lemma coop_simps [simp]: "\<not> abort_flag coop" "move_ready coop" "dark_elapsed coop" "\<not> window_closed coop"
  by (simp_all add: coop_def)


lemma light_first:
  assumes "layer_start cfg L s" "1 < layer_frames cfg L"
  shows "loop_iteration cfg coop s = (light_after L 1 s, None)"
  using assms
  by (simp add: loop_iteration_def light_tick_def light_present_def light_count_def layer_start_def
      light_after_def emit_ev_def max_count_def layer_frames_def layer_count_def)


lemma light_next:
  assumes "layer_start cfg L s" "Suc k < layer_frames cfg L" "0 < k"
  shows "loop_iteration cfg coop (light_after L k s) = (light_after L (Suc k) s, None)"
  using assms
  by (simp add: loop_iteration_def light_tick_def light_present_def light_count_def layer_start_def
      light_after_def emit_ev_def max_count_def layer_frames_def layer_count_def replicate_append_same)


lemma light_prefix:
  assumes "layer_start cfg L s" "0 < k" "k < layer_frames cfg L"
  shows "run_loop cfg (replicate k coop @ rest) s = run_loop cfg rest (light_after L k s)"
  using assms(2,3)
proof (induction k arbitrary: rest)
  case 0
  then show ?case by simp
next
  case (Suc k)
  show ?case
  proof (cases "k = 0")
    case True
    with Suc.prems assms(1) show ?thesis by (simp add: light_first)
  next
    case False
    have "run_loop cfg (replicate (Suc k) coop @ rest) s = run_loop cfg (replicate k coop @ coop # rest) s"
      by (simp only: replicate_snoc_append)
    also have "\<dots> = run_loop cfg (coop # rest) (light_after L k s)"
      using Suc.IH [of "coop # rest"] Suc.prems False by simp
    also have "\<dots> = run_loop cfg rest (light_after L (Suc k) s)"
      using light_next [OF assms(1)] Suc.prems False by simp
    finally show ?thesis .
  qed
qed


lemma light_last_tick:
  assumes "layer_start cfg L s" "Suc k = layer_frames cfg L"
  shows "loop_iteration cfg coop (if k = 0 then s else light_after L k s) = (dark_entry cfg L s, None)"
proof -
  have ic: "inInitialPhase s = in_initial cfg L" "currentLayer s = int L"
    using assms(1) by (simp_all add: layer_start_def)
  have nx: "in_initial cfg (Suc L) \<longleftrightarrow> \<not> initialLayers cfg \<le> int L + 1"
    by (auto simp: in_initial_def)
  have mono: "\<not> in_initial cfg L \<Longrightarrow> initialLayers cfg \<le> int L + 1"
    by (auto simp: in_initial_def)
  have cnt: "layer_count cfg L \<le> int k + 1" "k = 0 \<or> \<not> layer_count cfg L \<le> int k"
    using assms(2) by (auto simp: layer_frames_def)
  have fr: "layer_frames cfg L = Suc k" using assms(2) by simp
  show ?thesis
  proof (cases "k = 0"; cases "in_initial cfg L")
    assume "k = 0" "in_initial cfg L"
    with assms(1) nx mono cnt fr show ?thesis
      by (simp add: loop_iteration_def light_tick_def light_present_def light_count_def layer_start_def
          dark_entry_def emit_ev_def max_count_def layer_count_def)
  next
    assume "k = 0" "\<not> in_initial cfg L"
    with assms(1) nx mono cnt fr show ?thesis
      by (simp add: loop_iteration_def light_tick_def light_present_def light_count_def layer_start_def
          dark_entry_def emit_ev_def max_count_def layer_count_def)
  next
    assume "k \<noteq> 0" "in_initial cfg L"
    with assms(1) nx mono cnt fr show ?thesis
      by (simp add: loop_iteration_def light_tick_def light_present_def light_count_def layer_start_def
          light_after_def dark_entry_def emit_ev_def max_count_def layer_count_def replicate_append_same)
  next
    assume "k \<noteq> 0" "\<not> in_initial cfg L"
    with assms(1) nx mono cnt fr show ?thesis
      by (simp add: loop_iteration_def light_tick_def light_present_def light_count_def layer_start_def
          light_after_def dark_entry_def emit_ev_def max_count_def layer_count_def replicate_append_same)
  qed
qed


lemma light_phase:
  assumes "layer_start cfg L s"
  shows "run_loop cfg (replicate (layer_frames cfg L) coop @ rest) s = run_loop cfg rest (dark_entry cfg L s)"
proof -
  obtain k where k: "layer_frames cfg L = Suc k"
    by (cases "layer_frames cfg L") (auto simp: layer_frames_def)
  show ?thesis
  proof (cases "k = 0")
    case True
    with light_last_tick [OF assms k [symmetric]] k show ?thesis by simp
  next
    case False
    have "run_loop cfg (replicate (Suc k) coop @ rest) s = run_loop cfg (replicate k coop @ coop # rest) s"
      by (simp only: replicate_snoc_append)
    also have "\<dots> = run_loop cfg (coop # rest) (light_after L k s)"
      using light_prefix [OF assms, of k "coop # rest"] k False by simp
    also have "\<dots> = run_loop cfg rest (dark_entry cfg L s)"
      using light_last_tick [OF assms k [symmetric]] False by simp
    finally show ?thesis using k by simp
  qed
qed


lemma dark_next:
  assumes "layer_start cfg L s" "Suc L < n_images cfg"
  shows "\<exists>s'. loop_iteration cfg coop (dark_entry cfg L s) = (s', None) \<and> layer_start cfg (Suc L) s'
           \<and> events s' = events s @ layer_events cfg L"
proof -
  have m: "L mod 2 < 2" "1 - L mod 2 < 2" by simp_all
  show ?thesis
    using assms m
    by (simp add: loop_iteration_def dark_tick_def dark_present_def dark_launch_def dark_preload_def
        dark_poll_def dark_swap_def emit_ev_def dark_entry_def layer_start_def layer_events_def cycle_events_def
        one_minus_mod2 nth_list_update)
qed


lemma dark_last:
  assumes "layer_start cfg L s" "Suc L = n_images cfg"
  shows "\<exists>s'. loop_iteration cfg coop (dark_entry cfg L s) = (s', Some ExitAllShown)
           \<and> \<not> isStageThreadRunning s' \<and> events s' = events s @ layer_events cfg L @ [SetCurrentZero]"
  using assms
  by (simp add: loop_iteration_def dark_tick_def dark_present_def dark_launch_def dark_preload_def
      dark_poll_def dark_swap_def emit_ev_def dark_entry_def layer_start_def layer_events_def cycle_events_def)


lemma layer_step:
  assumes "layer_start cfg L s" "Suc L < n_images cfg"
  shows "\<exists>s'. run_loop cfg (replicate (Suc (layer_frames cfg L)) coop @ rest) s = run_loop cfg rest s'
           \<and> layer_start cfg (Suc L) s' \<and> events s' = events s @ layer_events cfg L"
proof -
  obtain s' where s': "loop_iteration cfg coop (dark_entry cfg L s) = (s', None)"
    "layer_start cfg (Suc L) s'" "events s' = events s @ layer_events cfg L"
    using dark_next [OF assms] by blast
  have "run_loop cfg (replicate (Suc (layer_frames cfg L)) coop @ rest) s
        = run_loop cfg (coop # rest) (dark_entry cfg L s)"
    using light_phase [OF assms(1), of "coop # rest"] by (simp only: replicate_snoc_append)
  also have "\<dots> = run_loop cfg rest s'" using s'(1) by simp
  finally show ?thesis using s'(2,3) by blast
qed


lemma layer_final:
  assumes "layer_start cfg L s" "Suc L = n_images cfg"
  shows "\<exists>s'. run_loop cfg (replicate (Suc (layer_frames cfg L)) coop @ rest) s = (s', Some ExitAllShown)
           \<and> \<not> isStageThreadRunning s' \<and> events s' = events s @ layer_events cfg L @ [SetCurrentZero]"
proof -
  obtain s' where s': "loop_iteration cfg coop (dark_entry cfg L s) = (s', Some ExitAllShown)"
    "\<not> isStageThreadRunning s'" "events s' = events s @ layer_events cfg L @ [SetCurrentZero]"
    using dark_last [OF assms] by blast
  have "run_loop cfg (replicate (Suc (layer_frames cfg L)) coop @ rest) s
        = run_loop cfg (coop # rest) (dark_entry cfg L s)"
    using light_phase [OF assms(1), of "coop # rest"] by (simp only: replicate_snoc_append)
  also have "\<dots> = (s', Some ExitAllShown)" using s'(1) by simp
  finally show ?thesis using s'(2,3) by blast
qed


lemma run_ticks_Cons: "L < n_images cfg \<Longrightarrow> run_ticks cfg L = Suc (layer_frames cfg L) + run_ticks cfg (Suc L)"
  by (simp add: run_ticks_def upt_conv_Cons)


lemma layers_run:
  assumes "layer_start cfg L s" "L < n_images cfg"
  shows "\<exists>s'. run_loop cfg (replicate (run_ticks cfg L) coop @ rest) s = (s', Some ExitAllShown)
           \<and> \<not> isStageThreadRunning s'
           \<and> events s' = events s @ concat (map (layer_events cfg) [L..<n_images cfg]) @ [SetCurrentZero]"
  using assms
proof (induction "n_images cfg - L" arbitrary: L s)
  case 0
  then show ?case by simp
next
  case (Suc d)
  have split: "replicate (run_ticks cfg L) coop @ rest
      = replicate (Suc (layer_frames cfg L)) coop @ (replicate (run_ticks cfg (Suc L)) coop @ rest)"
    using Suc.prems(2) by (simp add: run_ticks_Cons replicate_add)
  show ?case
  proof (cases "Suc L < n_images cfg")
    case True
    obtain s' where s': "run_loop cfg (replicate (Suc (layer_frames cfg L)) coop @ replicate (run_ticks cfg (Suc L)) coop @ rest) s
        = run_loop cfg (replicate (run_ticks cfg (Suc L)) coop @ rest) s'"
      "layer_start cfg (Suc L) s'" "events s' = events s @ layer_events cfg L"
      using layer_step [OF Suc.prems(1) True] by blast
    have "d = n_images cfg - Suc L" using Suc.hyps(2) by arith
    from Suc.hyps(1) [OF this s'(2) True] s' True show ?thesis
      by (simp add: split upt_conv_Cons)
  next
    case False
    then have last: "Suc L = n_images cfg" using Suc.prems(2) by simp
    then show ?thesis
      using layer_final [OF Suc.prems(1) last] by (simp add: split upt_conv_Cons)
  qed
qed


lemma count_layer_events:
  "count_list (layer_events cfg j) (PresentImage (Some L)) = (if j = L then layer_frames cfg L else 0)"
  by (simp add: layer_events_def cycle_events_def count_list_replicate)


lemma layer_start_init: "0 < n_images cfg \<Longrightarrow> layer_start cfg 0 run_init"
  by (simp add: layer_start_def run_init_def in_initial_def)


lemma coop_run:
  assumes "0 < n_images cfg"
  shows "RunFull_loop cfg (replicate (run_ticks cfg 0) coop @ extra)
    = (fst (RunFull_loop cfg (replicate (run_ticks cfg 0) coop @ extra)), Some ExitAllShown)
    \<and> events (fst (RunFull_loop cfg (replicate (run_ticks cfg 0) coop @ extra)))
      = LoadTexture 0 0 # concat (map (layer_events cfg) [0..<n_images cfg])
        @ [SetCurrentZero, QueryPosition, HomeStage, CloseStage, CloseWindow]"
proof -
  obtain s' where s': "run_loop cfg (replicate (run_ticks cfg 0) coop @ extra) run_init = (s', Some ExitAllShown)"
    "\<not> isStageThreadRunning s'"
    "events s' = events run_init @ concat (map (layer_events cfg) [0..<n_images cfg]) @ [SetCurrentZero]"
    using layers_run [OF layer_start_init [OF assms] assms] by blast
  then show ?thesis
    by (simp add: RunFull_loop_def run_shutdown_def emit_ev_def run_init_def)
qed


text \<open>
  C6: in a cooperative environment (no abort, the window stays open, every move has finished when
  polled, the dark time has elapsed) a static run over \<open>n > 0\<close> images terminates: after exactly
  \<open>run_ticks cfg 0\<close> iterations of the render loop it leaves with all images shown, whatever
  further observations would follow, and the effects it produced are exactly the first texture
  load, one block of layer events per image in order, the laser switched off, the final position
  query, homing, closing the stage link and closing the window.
\<close>

theorem RunFull_coop_completes:
  assumes "0 < n_images cfg"
  shows "snd (RunFull_loop cfg (replicate (run_ticks cfg 0) coop @ extra)) = Some ExitAllShown
    \<and> events (fst (RunFull_loop cfg (replicate (run_ticks cfg 0) coop @ extra)))
      = LoadTexture 0 0 # concat (map (layer_events cfg) [0..<n_images cfg])
        @ [SetCurrentZero, QueryPosition, HomeStage, CloseStage, CloseWindow]"
  using coop_run [OF assms, of extra] by (metis snd_conv)


text \<open>
  C7: in a cooperative run, image \<open>L\<close> is exposed for exactly
  \<open>max 1 initialExposureCounter\<close> frames when \<open>L = 0\<close> or \<open>L < initialLayers\<close>, and for
  \<open>max 1 maxImageDisplayCount\<close> frames otherwise.  The first layer always takes the initial
  count, even when \<open>initialLayers = 0\<close>, because \<open>inInitialPhase\<close> starts true and is only
  cleared after a layer ends; a non-positive count still gives one frame, because the counter is
  incremented before it is compared.
\<close>

theorem RunFull_exposures_per_layer:
  assumes "L < n_images cfg"
  shows "count_list (events (fst (RunFull_loop cfg (replicate (run_ticks cfg 0) coop @ extra))))
           (PresentImage (Some L))
         = nat (max 1 (if L = 0 \<or> int L < initialLayers cfg then initialExposureCounter cfg
                       else maxImageDisplayCount cfg))"
proof -
  have "0 < n_images cfg" using assms by simp
  from coop_run [OF this, of extra] assms show ?thesis
    by (simp add: count_list_concat comp_def count_layer_events sum_list_upt_delta layer_frames_def
        layer_count_def in_initial_def)
qed


theorem RunFull_exposures_per_layer_witness:
  "2 < n_images demo_cfg \<and> count_list (events (fst (RunFull_loop demo_cfg (replicate (run_ticks demo_cfg 0) coop))))
      (PresentImage (Some 2)) = 5"
  using RunFull_exposures_per_layer [of 2 demo_cfg "[]"] by (simp add: demo_cfg_def)


theorem RunFull_coop_completes_witness:
  "0 < n_images demo_cfg \<and> snd (RunFull_loop demo_cfg (replicate 26 coop)) = Some ExitAllShown"
proof -
  have t: "run_ticks demo_cfg 0 = 26"
    by (simp add: demo_cfg_def run_ticks_def layer_frames_def layer_count_def in_initial_def upt_rec)
  have n: "0 < n_images demo_cfg" by (simp add: demo_cfg_def)
  from RunFull_coop_completes [OF n, of "[]"] t n show ?thesis by simp
qed

end
