(* ===== verification/Layer_Settings.thy ===== *)
theory Layer_Settings
  imports Prelude "HOL-Library.Product_Lexorder" "HOL-Library.Monad_Syntax"
begin

text \<open>
  The settings table of the dynamic run: \<open>struct LayerSettings\<close>
  (\<open>src/dependencies/include/individualCommands.h\<close>) and \<open>readSettingsOrdered\<close>
  (\<open>src/src/individualCommands.cpp\<close>). The file is given by its contents; \<open>std::getline\<close>
  splits it into lines, the header is skipped, each row is read with
  \<open>iss >> layer >> delim >> intensity >> delim >> exposureTime >> delim >> darkTime\<close>,
  and the rows are grouped into \<open>orderedSettings\<close>, with \<open>settingsCount\<close> (a
  \<open>std::map\<close>) remembering which settings have been seen.
\<close>

datatype LayerSettings = LayerSettings (intensity: int) (exposureTime: int) (darkTime: int)

text \<open>\<open>operator<\<close> compares \<open>std::tie(intensity, exposureTime, darkTime)\<close>
  lexicographically; it is the order of the \<open>std::map\<close> key.\<close>

definition settings_key :: "LayerSettings \<Rightarrow> int \<times> int \<times> int" where
  "settings_key s = (intensity s, exposureTime s, darkTime s)"

instantiation LayerSettings :: linorder
begin

definition less_eq_LayerSettings :: "LayerSettings \<Rightarrow> LayerSettings \<Rightarrow> bool" where
  "less_eq_LayerSettings a b \<longleftrightarrow> settings_key a \<le> settings_key b"

definition less_LayerSettings :: "LayerSettings \<Rightarrow> LayerSettings \<Rightarrow> bool" where
  "less_LayerSettings a b \<longleftrightarrow> settings_key a < settings_key b"

instance
  by standard (auto simp: less_eq_LayerSettings_def less_LayerSettings_def settings_key_def LayerSettings.expand)

end

subsection \<open>Reading the file\<close>

text \<open>\<open>std::getline\<close> returns the text up to each newline, and the text after the last
  newline only when it is not empty.\<close>

fun split_nl :: "string \<Rightarrow> string \<Rightarrow> string list" where
  "split_nl cur [] = [cur]"
| "split_nl cur (c # cs) = (if c = CHR ''\<newline>'' then cur # split_nl [] cs else split_nl (cur @ [c]) cs)"

definition getlines :: "string \<Rightarrow> string list" where
  "getlines s = (let ls = split_nl [] s in if last ls = [] then butlast ls else ls)"

text \<open>\<open>iss >> i\<close> for an \<open>int\<close>: optional sign, then decimal digits. No digits, or a value
  outside the 32-bit range, sets the failbit; the later extractions of the row then store
  nothing.\<close>

definition extract_int :: "string \<Rightarrow> (int \<times> string) option" where
  "extract_int s =
     (let r = dropWhile is_space s;
          (sg, r') = (case r of c # t \<Rightarrow> if c = CHR ''-'' then (-1, t) else if c = CHR ''+'' then (1, t) else (1, r)
                              | [] \<Rightarrow> (1, []));
          ds = takeWhile is_digit r'
      in if ds = [] then None
         else case parse_nat ds of
                None \<Rightarrow> None
              | Some n \<Rightarrow> (let v = sg * int n in
                            if v < - (2 ^ 31) \<or> 2 ^ 31 - 1 < v then None
                            else Some (v, dropWhile is_digit r')))"

text \<open>\<open>iss >> delim\<close> for a \<open>char\<close>: the next character that is not white space, whatever
  it is.\<close>

definition extract_char :: "string \<Rightarrow> (char \<times> string) option" where
  "extract_char s = (case dropWhile is_space s of [] \<Rightarrow> None | c # t \<Rightarrow> Some (c, t))"

text \<open>The last extraction, \<open>iss >> darkTime\<close>, decides the row on its own: every earlier
  variable has been stored. When only white space is left the sentry fails and
  \<open>darkTime\<close> stays uninitialised (\<open>None\<close>); otherwise a failed conversion still stores a
  value: 0 when no digits follow, \<open>INT_MAX\<close> or \<open>INT_MIN\<close> when the number is out of
  range (C++11 \<open>num_get\<close>).\<close>

definition extract_last_int :: "string \<Rightarrow> int option" where
  "extract_last_int s =
     (case extract_int s of
        Some (v, _) \<Rightarrow> Some v
      | None \<Rightarrow>
          (case dropWhile is_space s of
             [] \<Rightarrow> None
           | c # t \<Rightarrow>
               (let r' = (if c = CHR ''-'' \<or> c = CHR ''+'' then t else c # t) in
                if takeWhile is_digit r' = [] then Some 0
                else if c = CHR ''-'' then Some (- (2 ^ 31)) else Some (2 ^ 31 - 1))))"

text \<open>A row: \<open>iss >> layer >> delim >> intensity >> delim >> exposureTime >> delim >>
  darkTime\<close>. A failure before the last field leaves later fields uninitialised, and
  constructing the \<open>LayerSettings\<close> from them is undefined (\<open>None\<close>).\<close>

definition parse_row :: "string \<Rightarrow> LayerSettings option" where
  "parse_row line = do {
     (layer, r1) \<leftarrow> extract_int line;
     (_, r2) \<leftarrow> extract_char r1;
     (i, r3) \<leftarrow> extract_int r2;
     (_, r4) \<leftarrow> extract_char r3;
     (e, r5) \<leftarrow> extract_int r4;
     (_, r6) \<leftarrow> extract_char r5;
     d \<leftarrow> extract_last_int r6;
     Some (LayerSettings i e d)
   }"

subsection \<open>Grouping the rows\<close>

record settings_acc =
  orderedSettings :: "(LayerSettings \<times> int) list"
  settingsCount :: "LayerSettings \<rightharpoonup> int"

definition settings_empty :: settings_acc where
  "settings_empty = \<lparr>orderedSettings = [], settingsCount = Map.empty\<rparr>"

text \<open>The inner \<open>for\<close> loop: increment the first entry whose setting equals \<open>cur\<close>.\<close>

fun bump_setting :: "LayerSettings \<Rightarrow> (LayerSettings \<times> int) list \<Rightarrow> (LayerSettings \<times> int) list" where
  "bump_setting cur [] = []"
| "bump_setting cur ((k, c) # xs) = (if k = cur then (k, c + 1) # xs else (k, c) # bump_setting cur xs)"

text \<open>One row: a new setting is appended with count 1; a known one has its entry
  incremented. The map is incremented in the \<open>else\<close> branch and again after the \<open>if\<close>.\<close>

definition settings_step :: "settings_acc \<Rightarrow> LayerSettings \<Rightarrow> settings_acc" where
  "settings_step st cur =
     (case settingsCount st cur of
        None \<Rightarrow> st\<lparr>orderedSettings := orderedSettings st @ [(cur, 1)], settingsCount := (settingsCount st)(cur \<mapsto> 1)\<rparr>
      | Some c \<Rightarrow> st\<lparr>orderedSettings := bump_setting cur (orderedSettings st),
                    settingsCount := (settingsCount st)(cur \<mapsto> c + 2)\<rparr>)"

fun read_rows :: "settings_acc \<Rightarrow> string list \<Rightarrow> settings_acc option" where
  "read_rows st [] = Some st"
| "read_rows st (l # ls) = (case parse_row l of None \<Rightarrow> None | Some cur \<Rightarrow> read_rows (settings_step st cur) ls)"

definition readSettingsOrdered :: "string \<Rightarrow> (LayerSettings \<times> int) list option" where
  "readSettingsOrdered content = map_option orderedSettings (read_rows settings_empty (drop 1 (getlines content)))"

subsection \<open>Reference grouping and serial form\<close>

text \<open>What the table promises: the distinct settings in order of first appearance, each
  with its number of rows.\<close>

definition first_occurrences :: "'a list \<Rightarrow> 'a list" where
  "first_occurrences xs = rev (remdups (rev xs))"

definition group_settings :: "LayerSettings list \<Rightarrow> (LayerSettings \<times> int) list" where
  "group_settings rows = map (\<lambda>k. (k, int (count_list rows k))) (first_occurrences rows)"

definition rows_of :: "string \<Rightarrow> LayerSettings list option" where
  "rows_of content = those (map parse_row (drop 1 (getlines content)))"

text \<open>The serial form of a table: a header, then one row per layer, numbered from 1.\<close>

definition row_line :: "nat \<Rightarrow> LayerSettings \<Rightarrow> string" where
  "row_line j k = int_to_string (int j) @ CHR '','' # int_to_string (intensity k) @ CHR '','' #
     int_to_string (exposureTime k) @ CHR '','' # int_to_string (darkTime k)"

definition expand_table :: "(LayerSettings \<times> int) list \<Rightarrow> LayerSettings list" where
  "expand_table tbl = concat (map (\<lambda>(k, c). replicate (nat c) k) tbl)"

definition settings_header :: string where
  "settings_header = ''Layer,Intensity,ExposureTime,DarkTime''"

definition settings_csv :: "(LayerSettings \<times> int) list \<Rightarrow> string" where
  "settings_csv tbl = concat (map (\<lambda>l. l @ ''\<newline>'')
     (settings_header #
      map (\<lambda>(j, k). row_line j k) (zip [1..<Suc (length (expand_table tbl))] (expand_table tbl))))"

text \<open>The grouping invariant: the accumulator holds the reference grouping of the rows
  read so far, and the map knows exactly those rows.\<close>

definition groups_inv :: "settings_acc \<Rightarrow> LayerSettings list \<Rightarrow> bool" where
  "groups_inv st rows \<longleftrightarrow> orderedSettings st = group_settings rows \<and> dom (settingsCount st) = set rows"

definition int32_ok :: "int \<Rightarrow> bool" where
  "int32_ok v \<longleftrightarrow> - (2 ^ 31) \<le> v \<and> v \<le> 2 ^ 31 - 1"

definition spec_table :: "(LayerSettings \<times> int) list" where
  "spec_table = [(LayerSettings 10 5 100, 3), (LayerSettings 20 8 150, 2)]"

subsection \<open>Grouping refines the reference\<close>

lemma first_occurrences_snoc:
  "first_occurrences (xs @ [x]) = (if x \<in> set xs then first_occurrences xs else first_occurrences xs @ [x])"
  by (simp add: first_occurrences_def)

lemma set_first_occurrences [simp]: "set (first_occurrences xs) = set xs"
  and distinct_first_occurrences [simp]: "distinct (first_occurrences xs)"
  by (simp_all add: first_occurrences_def)

lemma first_occurrences_append:
  "first_occurrences (xs @ ys) = first_occurrences xs @ filter (\<lambda>y. y \<notin> set xs) (first_occurrences ys)"
proof -
  have "remdups (rev ys @ rev xs) = remdups (filter (\<lambda>y. y \<notin> set xs) (rev ys)) @ remdups (rev xs)"
    using remdups_append_filter [of "rev ys" "rev xs"] by simp
  then show ?thesis by (simp add: first_occurrences_def remdups_filter rev_filter)
qed

lemma bump_setting_map:
  "distinct xs \<Longrightarrow> bump_setting cur (map (\<lambda>k. (k, f k)) xs)
     = map (\<lambda>k. (k, if k = cur then f k + 1 else f k)) xs"
  by (induction xs) auto

lemma groups_inv_empty: "groups_inv settings_empty []"
  by (simp add: groups_inv_def settings_empty_def group_settings_def first_occurrences_def)

lemma settings_step_inv:
  assumes "groups_inv st rows"
  shows "groups_inv (settings_step st cur) (rows @ [cur])"
proof (cases "cur \<in> set rows")
  case True
  then obtain c where c: "settingsCount st cur = Some c"
    using assms by (auto simp: groups_inv_def)
  have "bump_setting cur (group_settings rows) = group_settings (rows @ [cur])"
    using True by (simp add: group_settings_def bump_setting_map first_occurrences_snoc)
  with assms c True show ?thesis
    by (auto simp: groups_inv_def settings_step_def)
next
  case False
  then have c: "settingsCount st cur = None"
    using assms by (auto simp: groups_inv_def)
  have "group_settings rows @ [(cur, 1)] = group_settings (rows @ [cur])"
    using False by (auto simp: group_settings_def first_occurrences_snoc)
  with assms c show ?thesis
    by (auto simp: groups_inv_def settings_step_def)
qed

lemma read_rows_groups:
  "groups_inv st rows \<Longrightarrow>
   map_option orderedSettings (read_rows st ls)
     = map_option (\<lambda>rs. group_settings (rows @ rs)) (those (map parse_row ls))"
proof (induction ls arbitrary: st rows)
  case Nil
  then show ?case by (simp add: groups_inv_def)
next
  case (Cons l ls)
  show ?case
  proof (cases "parse_row l")
    case None
    then show ?thesis by simp
  next
    case (Some cur)
    from Cons.IH [OF settings_step_inv [OF Cons.prems, of cur]] Some show ?thesis
      by (simp add: option.map_comp comp_def split: option.splits)
  qed
qed

subsection \<open>Round trip through the serial form\<close>

lemma split_nl_line:
  "CHR ''\<newline>'' \<notin> set l \<Longrightarrow> split_nl cur (l @ CHR ''\<newline>'' # rest) = (cur @ l) # split_nl [] rest"
  by (induction l arbitrary: cur) auto

lemma getlines_lines:
  assumes "\<forall>l\<in>set ls. CHR ''\<newline>'' \<notin> set l"
  shows "getlines (concat (map (\<lambda>l. l @ ''\<newline>'') ls)) = ls"
proof -
  have "split_nl [] (concat (map (\<lambda>l. l @ ''\<newline>'') ls)) = ls @ [[]]"
    using assms by (induction ls) (simp_all add: split_nl_line)
  then show ?thesis by (simp add: getlines_def)
qed

lemma no_sign_nat_digits:
  "(case nat_digits n @ rest of c # t \<Rightarrow> if c = CHR ''-'' then (-1, t) else if c = CHR ''+'' then (1, t)
      else (1, nat_digits n @ rest) | [] \<Rightarrow> (1, [])) = (1::int, nat_digits n @ rest)"
proof -
  obtain c cs where c: "nat_digits n = c # cs" "c \<in> set (nat_digits n)"
    using nat_digits_Cons by blast
  have "c \<noteq> CHR ''-''" "c \<noteq> CHR ''+''"
    using nat_digits_props(3,4) [OF c(2)] by simp_all
  with c(1) show ?thesis by simp
qed

lemma extract_int_to_string:
  assumes "int32_ok v" "takeWhile is_digit rest = []"
  shows "extract_int (int_to_string v @ rest) = Some (v, rest)"
proof (cases "v < 0")
  case True
  have sp: "\<not> is_space (CHR ''-'')" by (simp add: is_space_def)
  show ?thesis
    using True assms extract_nat_digits [OF assms(2), of "nat (- v)"] sp
    by (simp add: extract_int_def int_to_string_def int32_ok_def parse_nat_digits Let_def)
next
  case False
  then show ?thesis
    using assms extract_nat_digits [OF assms(2), of "nat v"]
    by (simp add: extract_int_def int_to_string_def int32_ok_def parse_nat_digits no_sign_nat_digits Let_def)
qed

lemma comma_props [simp]: "\<not> is_digit (CHR '','')" "\<not> is_space (CHR '','')"
  by (simp_all add: is_digit_def char_digit_def is_space_def)

lemma extract_int_to_string_end: "int32_ok v \<Longrightarrow> extract_int (int_to_string v) = Some (v, [])"
  using extract_int_to_string [of v "[]"] by simp

lemma parse_row_line:
  assumes "int32_ok (int j)" "int32_ok (intensity k)" "int32_ok (exposureTime k)" "int32_ok (darkTime k)"
  shows "parse_row (row_line j k) = Some k"
  using assms
  by (cases k) (simp add: parse_row_def row_line_def extract_int_to_string extract_int_to_string_end
      extract_char_def extract_last_int_def)

lemma parse_row_bad_last_field: "parse_row ''1,10,5,x'' = Some (LayerSettings 10 5 0)"
  by code_simp

lemma newline_not_in_row_line: "CHR ''\<newline>'' \<notin> set (row_line j k)"
proof -
  have "CHR ''\<newline>'' \<notin> set (int_to_string v)" for v
    using nat_digits_props(5) by (auto simp: int_to_string_def)
  then show ?thesis by (simp add: row_line_def)
qed

lemma expand_table_Cons [simp]: "expand_table ((k, c) # tbl) = replicate (nat c) k @ expand_table tbl"
  by (simp add: expand_table_def)

lemma set_expand_table: "k \<in> set (expand_table tbl) \<Longrightarrow> \<exists>c. (k, c) \<in> set tbl"
  by (auto simp: expand_table_def)

lemma first_occurrences_replicate: "0 < n \<Longrightarrow> first_occurrences (replicate n x) = [x]"
  by (simp add: first_occurrences_def remdups_replicate_pos)

lemma first_occurrences_expand:
  "distinct (map fst tbl) \<Longrightarrow> \<forall>(k, c)\<in>set tbl. 0 < c \<Longrightarrow> first_occurrences (expand_table tbl) = map fst tbl"
proof (induction tbl)
  case Nil
  then show ?case by (simp add: expand_table_def first_occurrences_def)
next
  case (Cons kc tbl)
  obtain k c where kc: "kc = (k, c)" by fastforce
  have "filter (\<lambda>y. y \<noteq> k) (map fst tbl) = map fst tbl"
    using Cons.prems(1) kc by (auto simp: filter_id_conv)
  with Cons kc show ?case
    by (simp add: first_occurrences_append first_occurrences_replicate)
qed

lemma count_expand_table:
  "distinct (map fst tbl) \<Longrightarrow> (k, c) \<in> set tbl \<Longrightarrow> count_list (expand_table tbl) k = nat c"
proof (induction tbl)
  case Nil
  then show ?case by simp
next
  case (Cons kc tbl)
  obtain k' c' where kc: "kc = (k', c')" by fastforce
  show ?case
  proof (cases "(k, c) = (k', c')")
    case True
    then have "count_list (expand_table tbl) k = 0"
      using Cons.prems(1) kc by (force simp: count_list_0_iff dest: set_expand_table)
    with True kc show ?thesis by (simp add: count_list_replicate)
  next
    case False
    then have "(k, c) \<in> set tbl" "k \<noteq> k'"
      using Cons.prems kc by force+
    with Cons.IH Cons.prems(1) kc show ?thesis by (simp add: count_list_replicate)
  qed
qed

lemma group_settings_expand:
  assumes "distinct (map fst tbl)" "\<forall>(k, c)\<in>set tbl. 0 < c"
  shows "group_settings (expand_table tbl) = tbl"
proof -
  have "map (\<lambda>k. (k, int (count_list (expand_table tbl) k))) (map fst tbl) = tbl"
    using assms by (auto simp: count_expand_table intro!: map_idI)
  with assms show ?thesis by (simp add: group_settings_def first_occurrences_expand)
qed

lemma rows_of_settings_csv:
  assumes "\<forall>(k, c)\<in>set tbl. int32_ok (intensity k) \<and> int32_ok (exposureTime k) \<and> int32_ok (darkTime k)"
    "length (expand_table tbl) < 2 ^ 31"
  shows "rows_of (settings_csv tbl) = Some (expand_table tbl)"
proof -
  let ?z = "zip [1..<Suc (length (expand_table tbl))] (expand_table tbl)"
  have nl: "\<forall>l\<in>set (settings_header # map (\<lambda>(j, k). row_line j k) ?z).
      CHR ''\<newline>'' \<notin> set l"
    using newline_not_in_row_line by (auto simp: settings_header_def)
  have ok: "parse_row (row_line j k) = Some k" if "(j, k) \<in> set ?z" for j k
  proof -
    have "j < Suc (length (expand_table tbl))" "k \<in> set (expand_table tbl)"
      using that by (auto dest: set_zip_leftD set_zip_rightD simp del: upt_Suc)
    then show ?thesis
      using assms by (auto simp: int32_ok_def intro!: parse_row_line dest!: set_expand_table)
  qed
  have "those (map parse_row (map (\<lambda>(j, k). row_line j k) ?z)) = Some (map snd ?z)"
    unfolding map_map using ok by (intro those_map_Some) auto
  moreover have "getlines (settings_csv tbl) = settings_header # map (\<lambda>(j, k). row_line j k) ?z"
    unfolding settings_csv_def by (rule getlines_lines [OF nl])
  ultimately show ?thesis
    by (simp add: rows_of_def del: upt_Suc)
qed

lemma group_settings_inv:
  "distinct (map fst (group_settings rows)) \<and> (\<forall>(k, c)\<in>set (group_settings rows). 0 < c)
   \<and> sum_list (map snd (group_settings rows)) = int (length rows)"
proof -
  have "sum_list (map (\<lambda>k. count_list rows k) (first_occurrences rows)) = length rows"
    by (simp add: sum_list_distinct_conv_sum_set sum_count_list)
  then have "sum_list (map (\<lambda>k. int (count_list rows k)) (first_occurrences rows)) = int (length rows)"
    by (simp add: int_sum_list_map)
  then show ?thesis
    by (auto simp: group_settings_def comp_def count_list_pos)
qed

lemma readSettingsOrdered_groups:
  assumes "readSettingsOrdered content = Some tbl"
  shows "\<exists>rows. tbl = group_settings rows \<and> length rows = length (drop 1 (getlines content))"
proof -
  have e: "map_option orderedSettings (read_rows settings_empty (drop 1 (getlines content))) = Some tbl"
    using assms unfolding readSettingsOrdered_def .
  have "map_option group_settings (those (map parse_row (drop 1 (getlines content)))) = Some tbl"
    using e by (simp only: read_rows_groups [OF groups_inv_empty] append_Nil)
  then obtain rows where r: "those (map parse_row (drop 1 (getlines content))) = Some rows" "tbl = group_settings rows"
    by (auto simp: map_option_eq_Some)
  with those_length [OF r(1)] show ?thesis by auto
qed

text \<open>
  C8: \<open>readSettingsOrdered\<close> implements the reference grouping: when every row parses, the
  result lists the distinct settings in order of first appearance, each with the number of
  rows that carry it (repeats merge even when they are not adjacent); a row that does not
  parse is an error of the whole read.
\<close>
theorem readSettingsOrdered_refines:
  "readSettingsOrdered content = map_option group_settings (rows_of content)"
  using read_rows_groups [OF groups_inv_empty, of "drop 1 (getlines content)"]
  by (simp add: readSettingsOrdered_def rows_of_def)

text \<open>
  C9: every table \<open>readSettingsOrdered\<close> returns is well formed: no setting occurs twice,
  every count is positive, and the counts add up to the number of data rows of the file.
\<close>
theorem readSettingsOrdered_table_inv:
  assumes "readSettingsOrdered content = Some tbl"
  shows "distinct (map fst tbl) \<and> (\<forall>(k, c)\<in>set tbl. 0 < c)
    \<and> sum_list (map snd tbl) = int (length (drop 1 (getlines content)))"
proof -
  obtain rows where "tbl = group_settings rows" "length rows = length (drop 1 (getlines content))"
    using readSettingsOrdered_groups [OF assms] by blast
  with group_settings_inv [of rows] show ?thesis by simp
qed

text \<open>
  C10: loading is the inverse of writing a table out: a deduplicated table with positive
  counts and 32-bit fields, written as a header and one numbered row per layer, is read back
  as the same groups and counts.
\<close>
theorem readSettingsOrdered_roundtrip:
  assumes "distinct (map fst tbl)"
    "\<forall>(k, c)\<in>set tbl. 0 < c \<and> int32_ok (intensity k) \<and> int32_ok (exposureTime k) \<and> int32_ok (darkTime k)"
    "length (expand_table tbl) < 2 ^ 31"
  shows "readSettingsOrdered (settings_csv tbl) = Some tbl"
proof -
  have "rows_of (settings_csv tbl) = Some (expand_table tbl)"
    using assms(2,3) by (intro rows_of_settings_csv) auto
  moreover have "group_settings (expand_table tbl) = tbl"
    using assms(1,2) by (intro group_settings_expand) auto
  ultimately show ?thesis
    unfolding readSettingsOrdered_def rows_of_def
    by (simp only: read_rows_groups [OF groups_inv_empty] append_Nil option.map)
qed

theorem readSettingsOrdered_roundtrip_witness:
  "distinct (map fst spec_table)
   \<and> length (expand_table spec_table) < 2 ^ 31
   \<and> readSettingsOrdered (settings_csv spec_table) = Some spec_table"
  using readSettingsOrdered_roundtrip [of spec_table]
  by (simp add: spec_table_def int32_ok_def expand_table_def)

theorem readSettingsOrdered_table_inv_witness:
  "readSettingsOrdered ''L,I,E,D\<newline>1,10,5,100\<newline>2,20,8,150\<newline>3,10,5,100\<newline>''
     = Some [(LayerSettings 10 5 100, 2), (LayerSettings 20 8 150, 1)]
   \<and> distinct (map fst [(LayerSettings 10 5 100, 2), (LayerSettings 20 8 150, 1)])
   \<and> sum_list (map snd [(LayerSettings 10 5 100, 2), (LayerSettings 20 8 150, 1::int)]) = 3"
proof -
  have r: "readSettingsOrdered ''L,I,E,D\<newline>1,10,5,100\<newline>2,20,8,150\<newline>3,10,5,100\<newline>''
     = Some [(LayerSettings 10 5 100, 2), (LayerSettings 20 8 150, 1)]"
    by code_simp
  show ?thesis
    using readSettingsOrdered_table_inv [OF r] r by simp
qed

end
