(* ===== verification/Dynamic_Run.thy ===== *)
theory Dynamic_Run
  imports Sync_Liveness Layer_Settings
begin

text \<open>
  \<open>RunFullDynamic\<close> (\<open>src/src/individualCommands.cpp\<close>): the same light/dark loop as
  \<open>RunFull\<close>, run once per group of the settings table. For each group the loop sets the
  light-engine current to the group's intensity, resets \<open>layercounter\<close> and runs
  \<open>while (layercounter <= layerCount)\<close>; \<open>layercounter\<close> grows when the loop swaps to
  the next image. The exposure count of a group is its \<open>exposureTime\<close>; there is no
  initial phase. The window's events are polled once before the groups, so a close request
  is not seen during the run. The dark phase is the one of \<^const>\<open>dark_tick\<close>.
\<close>

datatype dyn_signal = DynContinue | DynAbort | DynBreak

datatype dyn_out = GroupDone | GroupAborted | OutOfTicks

datatype dyn_exit = DynAborted | DynFinished

text \<open>Light branch with \<open>maxImageDisplayCount = currentSetting.exposureTime\<close>.\<close>

definition dyn_light_count :: "int \<Rightarrow> run_state \<Rightarrow> run_state" where
  "dyn_light_count maxc s =
     (if maxc \<le> imageDisplayCount s + 1 then
        emit_ev [QueryPosition] (s\<lparr>displayImage := False, imageDisplayCount := 0, currentLayer := currentLayer s + 1\<rparr>)
      else s\<lparr>imageDisplayCount := imageDisplayCount s + 1\<rparr>)"

definition dyn_light_tick :: "int \<Rightarrow> run_state \<Rightarrow> run_state" where
  "dyn_light_tick maxc s = dyn_light_count maxc (light_present s)"

text \<open>One iteration of the inner \<open>while\<close>: abort check in the light branch, the light or
  dark branch, \<open>layercounter++\<close> when the dark branch swapped to the next image, and the
  \<open>break\<close> of the inner loop once all images are shown.\<close>

definition dyn_iteration ::
  "run_config \<Rightarrow> int \<Rightarrow> tick_obs \<Rightarrow> run_state \<Rightarrow> int \<Rightarrow> (run_state \<times> int) \<times> dyn_signal" where
  "dyn_iteration cfg maxc obs s lc =
     (if displayImage s \<and> abort_flag obs then ((s, lc), DynAbort)
      else let s' = (if displayImage s then dyn_light_tick maxc s else dark_tick cfg obs s);
               lc' = (if \<not> displayImage s \<and> displayImage s' then lc + 1 else lc)
           in if allImagesShown s' \<and> \<not> displayImage s' then ((emit_ev [SetCurrentZero] s', lc'), DynBreak)
              else ((s', lc'), DynContinue))"

text \<open>\<open>while (layercounter <= layerCount)\<close>, one observation per iteration; running out of
  observations is a run that has not finished yet.\<close>

fun dyn_inner ::
  "run_config \<Rightarrow> int \<Rightarrow> int \<Rightarrow> int \<Rightarrow> tick_obs list \<Rightarrow> run_state \<Rightarrow> run_state \<times> tick_obs list \<times> dyn_out" where
  "dyn_inner cfg maxc cnt lc [] s = (s, [], if lc \<le> cnt then OutOfTicks else GroupDone)"
| "dyn_inner cfg maxc cnt lc (obs # os) s =
     (if \<not> lc \<le> cnt then (s, obs # os, GroupDone)
      else case dyn_iteration cfg maxc obs s lc of
             ((s', _), DynAbort) \<Rightarrow> (s', os, GroupAborted)
           | ((s', _), DynBreak) \<Rightarrow> (s', os, GroupDone)
           | ((s', lc'), DynContinue) \<Rightarrow> dyn_inner cfg maxc cnt lc' os s')"

text \<open>\<open>for (const auto& setting : orderedSettings)\<close>: \<open>SetCurrent(0, intensity)\<close>, then the
  inner loop with \<open>layercounter = 0\<close>.\<close>

fun dyn_groups ::
  "run_config \<Rightarrow> (LayerSettings \<times> int) list \<Rightarrow> tick_obs list \<Rightarrow> run_state \<Rightarrow> run_state \<times> tick_obs list \<times> dyn_out" where
  "dyn_groups cfg [] os s = (s, os, GroupDone)"
| "dyn_groups cfg ((st, cnt) # gs) os s =
     (case dyn_inner cfg (exposureTime st) cnt 0 os (emit_ev [SetCurrentLevel (intensity st)] s) of
        (s', os', GroupDone) \<Rightarrow> dyn_groups cfg gs os' s'
      | r \<Rightarrow> r)"

definition RunFullDynamic_loop ::
  "run_config \<Rightarrow> (LayerSettings \<times> int) list \<Rightarrow> tick_obs list \<Rightarrow> run_state \<times> dyn_exit option" where
  "RunFullDynamic_loop cfg gs os =
     (case dyn_groups cfg gs os run_init of
        (s, _, GroupAborted) \<Rightarrow> (abort_return s, Some DynAborted)
      | (s, _, OutOfTicks) \<Rightarrow> (s, None)
      | (s, _, GroupDone) \<Rightarrow> (run_shutdown s, Some DynFinished))"

subsection \<open>Cooperative runs\<close>

text \<open>The settings each printed layer gets: a group with count \<open>c\<close> covers \<open>c + 1\<close>
  layers (none when \<open>c < 0\<close>).\<close>

definition group_layers :: "int \<Rightarrow> nat" where
  "group_layers c = nat (c + 1)"

definition dyn_plan :: "(LayerSettings \<times> int) list \<Rightarrow> LayerSettings list" where
  "dyn_plan gs = concat (map (\<lambda>(st, c). replicate (group_layers c) st) gs)"

definition dyn_frames :: "LayerSettings \<Rightarrow> nat" where
  "dyn_frames st = nat (max 1 (exposureTime st))"

fun dyn_trace :: "nat \<Rightarrow> (LayerSettings \<times> int) list \<Rightarrow> nat \<Rightarrow> action list" where
  "dyn_trace n [] L = []"
| "dyn_trace n ((st, c) # gs) L =
     SetCurrentLevel (intensity st) # concat (map (cycle_events (dyn_frames st) n) [L..<L + group_layers c])
     @ dyn_trace n gs (L + group_layers c)"

definition dyn_ticks :: "(LayerSettings \<times> int) list \<Rightarrow> nat" where
  "dyn_ticks gs = (\<Sum>st\<leftarrow>dyn_plan gs. Suc (dyn_frames st))"

definition dyn_start :: "nat \<Rightarrow> run_state \<Rightarrow> bool" where
  "dyn_start L s \<longleftrightarrow>
     displayImage s \<and> imageDisplayCount s = 0 \<and> currentLayer s = int L
   \<and> inLightPhase s \<and> \<not> filenameLogged s \<and> \<not> isStageThreadRunning s \<and> \<not> nextImageLoaded s
   \<and> \<not> isNextImageLoading s \<and> \<not> allImagesShown s \<and> currentImageIndex s = L
   \<and> currentTextureIndex s = L mod 2 \<and> length (textures s) = 2 \<and> textures s ! (L mod 2) = Some L"

definition dyn_dark_entry :: "nat \<Rightarrow> nat \<Rightarrow> run_state \<Rightarrow> run_state" where
  "dyn_dark_entry frames L s = s\<lparr>inLightPhase := False, filenameLogged := True, displayImage := False,
     imageDisplayCount := 0, currentLayer := int L + 1,
     events := events s @ replicate frames (PresentImage (Some L)) @ [QueryPosition]\<rparr>"

definition dyn_demo_cfg :: run_config where
  "dyn_demo_cfg = \<lparr>maxImageDisplayCount = 0, initialExposureCounter = 0, initialLayers = 0, n_images = 10\<rparr>"

definition shown_all_state :: run_state where
  "shown_all_state = run_init\<lparr>allImagesShown := True, displayImage := False\<rparr>"

lemma dyn_start_emit [simp]: "dyn_start L (emit_ev es s) = dyn_start L s"
  by (simp add: dyn_start_def emit_ev_def)

lemma dyn_light_first:
  assumes "dyn_start L s" "1 < dyn_frames st"
  shows "dyn_iteration cfg (exposureTime st) coop s lc = ((light_after L 1 s, lc), DynContinue)"
  using assms
  by (simp add: dyn_iteration_def dyn_light_tick_def light_present_def dyn_light_count_def dyn_start_def
      light_after_def emit_ev_def dyn_frames_def)

lemma dyn_light_next:
  assumes "dyn_start L s" "Suc k < dyn_frames st" "0 < k"
  shows "dyn_iteration cfg (exposureTime st) coop (light_after L k s) lc = ((light_after L (Suc k) s, lc), DynContinue)"
  using assms
  by (simp add: dyn_iteration_def dyn_light_tick_def light_present_def dyn_light_count_def dyn_start_def
      light_after_def emit_ev_def dyn_frames_def replicate_append_same)

lemma dyn_light_last:
  assumes "dyn_start L s" "Suc k = dyn_frames st"
  shows "dyn_iteration cfg (exposureTime st) coop (if k = 0 then s else light_after L k s) lc
           = ((dyn_dark_entry (dyn_frames st) L s, lc), DynContinue)"
proof -
  have cnt: "exposureTime st \<le> int k + 1" "k = 0 \<or> \<not> exposureTime st \<le> int k"
    using assms(2) by (auto simp: dyn_frames_def)
  have fr: "dyn_frames st = Suc k" using assms(2) by simp
  show ?thesis
  proof (cases "k = 0")
    case True
    with assms(1) cnt fr show ?thesis
      by (simp add: dyn_iteration_def dyn_light_tick_def light_present_def dyn_light_count_def dyn_start_def
          dyn_dark_entry_def emit_ev_def)
  next
    case False
    with assms(1) cnt fr show ?thesis
      by (simp add: dyn_iteration_def dyn_light_tick_def light_present_def dyn_light_count_def dyn_start_def
          light_after_def dyn_dark_entry_def emit_ev_def replicate_append_same)
  qed
qed

lemma dyn_light_prefix:
  assumes "dyn_start L s" "0 < k" "k < dyn_frames st" "lc \<le> cnt"
  shows "dyn_inner cfg (exposureTime st) cnt lc (replicate k coop @ rest) s
           = dyn_inner cfg (exposureTime st) cnt lc rest (light_after L k s)"
  using assms(2,3)
proof (induction k arbitrary: rest)
  case 0
  then show ?case by simp
next
  case (Suc k)
  show ?case
  proof (cases "k = 0")
    case True
    with Suc.prems assms(1,4) show ?thesis by (simp add: dyn_light_first)
  next
    case False
    have "dyn_inner cfg (exposureTime st) cnt lc (replicate (Suc k) coop @ rest) s
        = dyn_inner cfg (exposureTime st) cnt lc (replicate k coop @ coop # rest) s"
      by (simp only: replicate_snoc_append)
    also have "\<dots> = dyn_inner cfg (exposureTime st) cnt lc (coop # rest) (light_after L k s)"
      using Suc.IH [of "coop # rest"] Suc.prems False by simp
    also have "\<dots> = dyn_inner cfg (exposureTime st) cnt lc rest (light_after L (Suc k) s)"
      using dyn_light_next [OF assms(1)] Suc.prems False assms(4) by simp
    finally show ?thesis .
  qed
qed

lemma dyn_light_phase:
  assumes "dyn_start L s" "lc \<le> cnt"
  shows "dyn_inner cfg (exposureTime st) cnt lc (replicate (dyn_frames st) coop @ rest) s
           = dyn_inner cfg (exposureTime st) cnt lc rest (dyn_dark_entry (dyn_frames st) L s)"
proof -
  obtain k where k: "dyn_frames st = Suc k"
    by (cases "dyn_frames st") (auto simp: dyn_frames_def)
  show ?thesis
  proof (cases "k = 0")
    case True
    with dyn_light_last [OF assms(1) k [symmetric], of cfg lc] k assms(2) show ?thesis by simp
  next
    case False
    have "dyn_inner cfg (exposureTime st) cnt lc (replicate (Suc k) coop @ rest) s
        = dyn_inner cfg (exposureTime st) cnt lc (replicate k coop @ coop # rest) s"
      by (simp only: replicate_snoc_append)
    also have "\<dots> = dyn_inner cfg (exposureTime st) cnt lc (coop # rest) (light_after L k s)"
      using dyn_light_prefix [OF assms(1) _ _ assms(2), where k = k and st = st and rest = "coop # rest"] k False by simp
    also have "\<dots> = dyn_inner cfg (exposureTime st) cnt lc rest (dyn_dark_entry (dyn_frames st) L s)"
      using dyn_light_last [OF assms(1) k [symmetric], of cfg lc] False assms(2) by simp
    finally show ?thesis using k by simp
  qed
qed

lemma dyn_dark_next:
  assumes "dyn_start L s" "Suc L < n_images cfg"
  shows "\<exists>s'. dyn_iteration cfg maxc coop (dyn_dark_entry f L s) lc = ((s', lc + 1), DynContinue)
           \<and> dyn_start (Suc L) s' \<and> events s' = events s @ cycle_events f (n_images cfg) L"
proof -
  have m: "L mod 2 < 2" "1 - L mod 2 < 2" by simp_all
  show ?thesis
    using assms m
    by (simp add: dyn_iteration_def dark_tick_def dark_present_def dark_launch_def dark_preload_def
        dark_poll_def dark_swap_def emit_ev_def dyn_dark_entry_def dyn_start_def cycle_events_def
        one_minus_mod2 nth_list_update)
qed

lemma dyn_layer_step:
  assumes "dyn_start L s" "Suc L < n_images cfg" "lc \<le> cnt"
  shows "\<exists>s'. dyn_inner cfg (exposureTime st) cnt lc (replicate (Suc (dyn_frames st)) coop @ rest) s
              = dyn_inner cfg (exposureTime st) cnt (lc + 1) rest s'
           \<and> dyn_start (Suc L) s' \<and> events s' = events s @ cycle_events (dyn_frames st) (n_images cfg) L"
proof -
  obtain s' where s': "dyn_iteration cfg (exposureTime st) coop (dyn_dark_entry (dyn_frames st) L s) lc
      = ((s', lc + 1), DynContinue)"
    "dyn_start (Suc L) s'" "events s' = events s @ cycle_events (dyn_frames st) (n_images cfg) L"
    using dyn_dark_next [OF assms(1,2)] by blast
  have "dyn_inner cfg (exposureTime st) cnt lc (replicate (Suc (dyn_frames st)) coop @ rest) s
      = dyn_inner cfg (exposureTime st) cnt lc (coop # rest) (dyn_dark_entry (dyn_frames st) L s)"
    using dyn_light_phase [OF assms(1,3), of cfg st "coop # rest"] by (simp only: replicate_snoc_append)
  also have "\<dots> = dyn_inner cfg (exposureTime st) cnt (lc + 1) rest s'"
    using s'(1) assms(3) by simp
  finally show ?thesis using s'(2,3) by blast
qed

lemma dyn_inner_done: "\<not> lc \<le> cnt \<Longrightarrow> dyn_inner cfg maxc cnt lc rest s = (s, rest, GroupDone)"
  by (cases rest) auto

lemma dyn_group_run:
  assumes "dyn_start L s" "m = nat (cnt + 1 - lc)" "L + m < n_images cfg"
  shows "\<exists>s'. dyn_inner cfg (exposureTime st) cnt lc (replicate (m * Suc (dyn_frames st)) coop @ rest) s
              = (s', rest, GroupDone)
           \<and> dyn_start (L + m) s'
           \<and> events s' = events s @ concat (map (cycle_events (dyn_frames st) (n_images cfg)) [L..<L + m])"
  using assms
proof (induction m arbitrary: lc L s)
  case 0
  then show ?case by (simp add: dyn_inner_done)
next
  case (Suc m)
  have le: "lc \<le> cnt" and m: "m = nat (cnt + 1 - (lc + 1))" using Suc.prems(2) by arith+
  obtain s1 where s1: "dyn_inner cfg (exposureTime st) cnt lc
        (replicate (Suc (dyn_frames st)) coop @ replicate (m * Suc (dyn_frames st)) coop @ rest) s
      = dyn_inner cfg (exposureTime st) cnt (lc + 1) (replicate (m * Suc (dyn_frames st)) coop @ rest) s1"
    "dyn_start (Suc L) s1" "events s1 = events s @ cycle_events (dyn_frames st) (n_images cfg) L"
  proof -
    have "Suc L < n_images cfg" using Suc.prems(3) by simp
    from dyn_layer_step [OF Suc.prems(1) this le, where st = st and rest = "replicate (m * Suc (dyn_frames st)) coop @ rest"]
    show ?thesis using that by blast
  qed
  obtain s' where s': "dyn_inner cfg (exposureTime st) cnt (lc + 1) (replicate (m * Suc (dyn_frames st)) coop @ rest) s1
      = (s', rest, GroupDone)" "dyn_start (Suc L + m) s'"
    "events s' = events s1 @ concat (map (cycle_events (dyn_frames st) (n_images cfg)) [Suc L..<Suc L + m])"
    using Suc.IH [OF s1(2) m] Suc.prems(3) by auto
  have rep: "replicate (Suc m * Suc (dyn_frames st)) coop @ rest
      = replicate (Suc (dyn_frames st)) coop @ replicate (m * Suc (dyn_frames st)) coop @ rest"
    by (simp add: replicate_add [symmetric])
  have "dyn_inner cfg (exposureTime st) cnt lc (replicate (Suc m * Suc (dyn_frames st)) coop @ rest) s
      = (s', rest, GroupDone)"
    unfolding rep s1(1) by (rule s'(1))
  moreover have "dyn_start (L + Suc m) s'" using s'(2) by simp
  moreover have "events s' = events s @ concat (map (cycle_events (dyn_frames st) (n_images cfg)) [L..<L + Suc m])"
  proof -
    have ups: "[L..<L + Suc m] = L # [Suc L..<Suc L + m]"
      by (simp add: upt_conv_Cons del: upt_Suc)
    show ?thesis unfolding ups using s1(3) s'(3) by simp
  qed
  ultimately show ?case by blast
qed

lemma dyn_plan_Cons [simp]: "dyn_plan ((st, c) # gs) = replicate (group_layers c) st @ dyn_plan gs"
  by (simp add: dyn_plan_def)

lemma dyn_ticks_Cons [simp]: "dyn_ticks ((st, c) # gs) = group_layers c * Suc (dyn_frames st) + dyn_ticks gs"
  by (simp add: dyn_ticks_def sum_list_replicate)

lemma dyn_groups_run:
  assumes "dyn_start L s" "L + length (dyn_plan gs) < n_images cfg"
  shows "\<exists>s'. dyn_groups cfg gs (replicate (dyn_ticks gs) coop @ rest) s = (s', rest, GroupDone)
           \<and> dyn_start (L + length (dyn_plan gs)) s' \<and> events s' = events s @ dyn_trace (n_images cfg) gs L"
  using assms
proof (induction gs arbitrary: L s)
  case Nil
  then show ?case by (simp add: dyn_ticks_def dyn_plan_def)
next
  case (Cons g gs)
  obtain st c where g: "g = (st, c)" by fastforce
  let ?s0 = "emit_ev [SetCurrentLevel (intensity st)] s"
  obtain s1 where s1: "dyn_inner cfg (exposureTime st) c 0
        (replicate (group_layers c * Suc (dyn_frames st)) coop @ replicate (dyn_ticks gs) coop @ rest) ?s0
      = (s1, replicate (dyn_ticks gs) coop @ rest, GroupDone)" "dyn_start (L + group_layers c) s1"
    "events s1 = events ?s0 @ concat (map (cycle_events (dyn_frames st) (n_images cfg)) [L..<L + group_layers c])"
  proof -
    have "dyn_start L ?s0" using Cons.prems(1) by simp
    moreover have "group_layers c = nat (c + 1 - 0)" by (simp add: group_layers_def)
    moreover have "L + group_layers c < n_images cfg" using Cons.prems(2) g by simp
    ultimately show ?thesis
      using dyn_group_run [where st = st and rest = "replicate (dyn_ticks gs) coop @ rest"] that by blast
  qed
  obtain s' where s': "dyn_groups cfg gs (replicate (dyn_ticks gs) coop @ rest) s1 = (s', rest, GroupDone)"
    "dyn_start (L + group_layers c + length (dyn_plan gs)) s'"
    "events s' = events s1 @ dyn_trace (n_images cfg) gs (L + group_layers c)"
    using Cons.IH [OF s1(2)] Cons.prems(2) g by (auto simp: add.assoc)
  have rep: "replicate (dyn_ticks ((st, c) # gs)) coop @ rest
      = replicate (group_layers c * Suc (dyn_frames st)) coop @ replicate (dyn_ticks gs) coop @ rest"
    by (simp only: dyn_ticks_Cons replicate_add append_assoc)
  have "dyn_groups cfg ((st, c) # gs) (replicate (dyn_ticks ((st, c) # gs)) coop @ rest) s = (s', rest, GroupDone)"
    unfolding rep dyn_groups.simps(2) s1(1) using s'(1) by simp
  moreover have "dyn_start (L + length (dyn_plan ((st, c) # gs))) s'" using s'(2) by (simp add: add.assoc)
  moreover have "events s' = events s @ dyn_trace (n_images cfg) ((st, c) # gs) L"
    using s1(3) s'(3) by (simp add: emit_ev_def)
  ultimately show ?case using g by blast
qed

lemma dyn_start_init: "dyn_start 0 run_init"
  by (simp add: dyn_start_def run_init_def)

lemma dyn_coop_run:
  assumes "length (dyn_plan gs) < n_images cfg"
  shows "\<exists>s. RunFullDynamic_loop cfg gs (replicate (dyn_ticks gs) coop @ extra) = (s, Some DynFinished)
    \<and> events s = LoadTexture 0 0 # dyn_trace (n_images cfg) gs 0 @ [QueryPosition, HomeStage, CloseStage, CloseWindow]"
proof -
  obtain s' where s': "dyn_groups cfg gs (replicate (dyn_ticks gs) coop @ extra) run_init = (s', extra, GroupDone)"
    "dyn_start (length (dyn_plan gs)) s'" "events s' = events run_init @ dyn_trace (n_images cfg) gs 0"
    using dyn_groups_run [OF dyn_start_init, of gs cfg extra] assms by auto
  then show ?thesis
    by (simp add: RunFullDynamic_loop_def run_shutdown_def emit_ev_def run_init_def dyn_start_def)
qed

lemma count_cycle_events:
  "count_list (cycle_events f n j) (PresentImage (Some L)) = (if j = L then f else 0)"
  by (simp add: cycle_events_def count_list_replicate)

lemma count_dyn_trace:
  "count_list (dyn_trace n gs L0) (PresentImage (Some L))
     = (if L0 \<le> L \<and> L < L0 + length (dyn_plan gs) then dyn_frames (dyn_plan gs ! (L - L0)) else 0)"
proof (induction gs arbitrary: L0)
  case Nil
  then show ?case by (simp add: dyn_plan_def)
next
  case (Cons g gs)
  obtain st c where g: "g = (st, c)" by fastforce
  show ?case
    using Cons.IH [of "L0 + group_layers c"] g
    by (auto simp: count_list_concat comp_def count_cycle_events sum_list_upt_delta nth_append)
qed

text \<open>
  C11: in a cooperative environment a dynamic run whose settings table covers fewer layers than
  there are images ends after exactly \<open>dyn_ticks\<close> iterations, and its effects are: the first
  texture load, then per group the group's \<open>SetCurrent\<close> followed by the light/dark cycles of
  \<open>layerCount + 1\<close> layers, then the final position query, homing and closing. The current is
  not switched off on this path.
\<close>
theorem RunFullDynamic_coop_completes:
  assumes "length (dyn_plan gs) < n_images cfg"
  shows "snd (RunFullDynamic_loop cfg gs (replicate (dyn_ticks gs) coop @ extra)) = Some DynFinished
    \<and> events (fst (RunFullDynamic_loop cfg gs (replicate (dyn_ticks gs) coop @ extra)))
      = LoadTexture 0 0 # dyn_trace (n_images cfg) gs 0 @ [QueryPosition, HomeStage, CloseStage, CloseWindow]"
  using dyn_coop_run [OF assms, of extra] by auto

text \<open>
  C12: in such a run layer \<open>L\<close> is exposed for \<open>max 1 exposureTime\<close> frames of the setting
  \<open>dyn_plan gs ! L\<close>, where each group of the table accounts for \<open>layerCount + 1\<close> consecutive
  layers (the loop condition is \<open>layercounter <= layerCount\<close>); layers beyond the plan are not
  exposed at all.
\<close>
theorem RunFullDynamic_layer_exposures:
  assumes "length (dyn_plan gs) < n_images cfg"
  shows "count_list (events (fst (RunFullDynamic_loop cfg gs (replicate (dyn_ticks gs) coop @ extra))))
           (PresentImage (Some L))
         = (if L < length (dyn_plan gs) then nat (max 1 (exposureTime (dyn_plan gs ! L))) else 0)"
proof -
  obtain s where s: "RunFullDynamic_loop cfg gs (replicate (dyn_ticks gs) coop @ extra) = (s, Some DynFinished)"
    "events s = LoadTexture 0 0 # dyn_trace (n_images cfg) gs 0 @ [QueryPosition, HomeStage, CloseStage, CloseWindow]"
    using dyn_coop_run [OF assms, of extra] by blast
  then show ?thesis by (simp add: count_dyn_trace dyn_frames_def)
qed

theorem RunFullDynamic_layer_exposures_witness:
  "length (dyn_plan spec_table) < n_images dyn_demo_cfg
   \<and> count_list (events (fst (RunFullDynamic_loop dyn_demo_cfg spec_table (replicate (dyn_ticks spec_table) coop))))
       (PresentImage (Some 3)) = 5"
  using RunFullDynamic_layer_exposures [of spec_table dyn_demo_cfg "[]" 3]
  by (simp add: spec_table_def dyn_demo_cfg_def dyn_plan_def group_layers_def nth_append)

theorem RunFullDynamic_coop_completes_witness:
  "length (dyn_plan spec_table) < n_images dyn_demo_cfg
   \<and> snd (RunFullDynamic_loop dyn_demo_cfg spec_table (replicate (dyn_ticks spec_table) coop)) = Some DynFinished"
  using RunFullDynamic_coop_completes [of spec_table dyn_demo_cfg "[]"]
  by (simp add: spec_table_def dyn_demo_cfg_def dyn_plan_def group_layers_def)

text \<open>
  C13: once all images have been shown, every further group of the table still sets its
  current, launches one more stage move and joins it, and switches the current off again, so
  the stage travels one step per left-over group after the last layer.
\<close>
theorem RunFullDynamic_group_after_last_image:
  assumes "allImagesShown s" "\<not> displayImage s" "\<not> isStageThreadRunning s" "\<not> nextImageLoaded s"
    "\<not> isNextImageLoading s" "n_images cfg \<le> Suc (currentImageIndex s)" "0 \<le> c"
  shows "\<exists>s'. dyn_groups cfg ((st, c) # gs) (coop # os) s = dyn_groups cfg gs os s'
           \<and> events s' = events s @ [SetCurrentLevel (intensity st), PresentBlank, LaunchMove, JoinMove, SetCurrentZero]
           \<and> allImagesShown s' \<and> \<not> displayImage s' \<and> \<not> isStageThreadRunning s' \<and> \<not> nextImageLoaded s'
           \<and> \<not> isNextImageLoading s' \<and> currentImageIndex s' = currentImageIndex s"
proof -
  let ?s1 = "dark_tick cfg coop (emit_ev [SetCurrentLevel (intensity st)] s)"
  have s1: "allImagesShown ?s1 \<and> \<not> displayImage ?s1 \<and> \<not> isStageThreadRunning ?s1 \<and> \<not> nextImageLoaded ?s1
      \<and> \<not> isNextImageLoading ?s1 \<and> currentImageIndex ?s1 = currentImageIndex s
      \<and> events ?s1 = events s @ [SetCurrentLevel (intensity st), PresentBlank, LaunchMove, JoinMove]"
    using assms
    by (simp add: dark_tick_def dark_present_def dark_launch_def dark_preload_def
        dark_poll_def dark_swap_def emit_ev_def)
  have "dyn_groups cfg ((st, c) # gs) (coop # os) s = dyn_groups cfg gs os (emit_ev [SetCurrentZero] ?s1)"
  proof -
    have "\<not> displayImage (emit_ev [SetCurrentLevel (intensity st)] s)"
      using assms(2) by (simp add: emit_ev_def)
    with assms(7) s1 show ?thesis by (simp add: dyn_iteration_def)
  qed
  with s1 show ?thesis by (intro exI [of _ "emit_ev [SetCurrentZero] ?s1"]) (simp add: emit_ev_def)
qed

theorem RunFullDynamic_group_after_last_image_witness:
  "\<exists>s'. dyn_groups \<lparr>maxImageDisplayCount = 0, initialExposureCounter = 0, initialLayers = 0, n_images = 1\<rparr>
          [(LayerSettings 20 8 150, 2)] [coop] shown_all_state
        = dyn_groups \<lparr>maxImageDisplayCount = 0, initialExposureCounter = 0, initialLayers = 0, n_images = 1\<rparr> [] [] s'
      \<and> events s' = [LoadTexture 0 0, SetCurrentLevel 20, PresentBlank, LaunchMove, JoinMove, SetCurrentZero]"
  using RunFullDynamic_group_after_last_image
    [of shown_all_state "\<lparr>maxImageDisplayCount = 0, initialExposureCounter = 0, initialLayers = 0, n_images = 1\<rparr>"
        2 "LayerSettings 20 8 150" "[]" "[]"]
  by (auto simp: shown_all_state_def run_init_def)

end
