(* ===== verification/Worker.thy ===== *)
theory Worker
  imports Bring_Up Dynamic_Run
begin

text \<open>
  The Qt side of a print (\<open>src/demoqt/Worker.cpp\<close>, \<open>src/demoqt/Worker.h\<close>, and the main
  window in \<open>src/unnamed/part_001\<close>, \<open>demoqt.cpp\<close>): the \<open>Worker\<close> object that holds the print
  parameters and runs \<open>Worker::process\<close> on its thread, and the main-window handlers that
  configure it, start its thread and set its flags. Text fields are strings converted with
  Qt's \<open>toInt\<close> and \<open>toFloat\<close>; lengths and positions are in millionths of a millimetre.
\<close>

subsection \<open>The worker object\<close>

text \<open>The parameters \<open>Worker::setParameters\<close> stores. Before it is called these members are
  uninitialised, which the worker state records as \<open>None\<close>.\<close>

record worker_params =
  w_directoryPath :: string
  w_maxImageDisplayCount :: int
  w_stepSize :: int
  w_mindarktime :: int
  w_inputCurrent :: int
  w_initialPosition :: int
  w_inputVelocity :: int
  w_isCLIP :: bool
  w_dlpPumpingAction :: int
  w_initialVelocity :: int
  w_initialExposureCounter :: int
  w_initialLayers :: int

record worker =
  readyToRunFull :: bool
  w_params :: "worker_params option"
  abortFlag :: bool
  w_orderedSettings :: "(LayerSettings \<times> int) list"
  dynamicFlag :: bool

text \<open>The constructor: the in-class initialisers \<open>readyToRunFull = false\<close>,
  \<open>abortFlag {false}\<close>, \<open>dynamicFlag = false\<close>, an empty settings vector.\<close>

definition worker_init :: worker where
  "worker_init = \<lparr>readyToRunFull = False, w_params = None, abortFlag = False,
                  w_orderedSettings = [], dynamicFlag = False\<rparr>"

definition setParameters :: "worker_params \<Rightarrow> worker \<Rightarrow> worker" where
  "setParameters p w = w\<lparr>w_params := Some p\<rparr>"

definition setDynamicParameters :: "(LayerSettings \<times> int) list \<Rightarrow> worker \<Rightarrow> worker" where
  "setDynamicParameters tbl w = w\<lparr>w_orderedSettings := tbl, dynamicFlag := True\<rparr>"

definition setAbortFlag :: "bool \<Rightarrow> worker \<Rightarrow> worker" where
  "setAbortFlag b w = w\<lparr>abortFlag := b\<rparr>"

definition getAbortFlag :: "worker \<Rightarrow> bool" where
  "getAbortFlag w = abortFlag w"

definition setReadyToRunFull :: "bool \<Rightarrow> worker \<Rightarrow> worker" where
  "setReadyToRunFull b w = w\<lparr>readyToRunFull := b\<rparr>"

definition setReadyToRunFullSlot :: "worker \<Rightarrow> worker" where
  "setReadyToRunFullSlot w = w\<lparr>readyToRunFull := True\<rparr>"

subsection \<open>Worker::process\<close>

text \<open>The signals \<open>process\<close> emits, one constructor per \<open>emit\<close>; the texts of the log
  messages are not modelled, nor are the messages \<open>RunFull\<close> logs through the callback.\<close>

datatype worker_signal =
    LogInitializing | LogInitialized | LogDynamicStatus bool | LogFlagTriggered
  | LogEnteringDynamic | LogDeinitializing | LogDeinitFinished | Finished

datatype run_result = StaticRun "run_state \<times> run_exit option" | DynamicRun "run_state \<times> dyn_exit option"

datatype process_result = ProcessExit | ProcessDone run_result

text \<open>What \<open>process\<close> observes: whether the port opens and the wait-loop observations of
  \<open>InitializeSystem\<close> and \<open>DeinitializeSystem\<close>, the value of \<open>readyToRunFull\<close> at each test
  of the waiting loop (the flag is written by the GUI thread), the number of images in the
  directory and the loop observations of the run.\<close>

record process_obs =
  init_open :: bool
  init_waits :: "wait_obs list \<times> wait_obs list \<times> wait_obs list \<times> wait_obs list"
  ready_obs :: "bool list"
  image_count :: nat
  run_ticks_obs :: "tick_obs list"
  deinit_open :: bool
  deinit_position :: "rx_obs list"
  deinit_waits :: "wait_obs list \<times> wait_obs list \<times> wait_obs list"

text \<open>\<open>while (!readyToRunFull)\<close>: the number of 100 ms sleeps before the flag is seen.\<close>

fun wait_ready :: "bool list \<Rightarrow> nat option" where
  "wait_ready [] = None"
| "wait_ready (r # rs) = (if r then Some 0 else map_option Suc (wait_ready rs))"

definition run_cfg :: "worker_params \<Rightarrow> nat \<Rightarrow> run_config" where
  "run_cfg p n = \<lparr>maxImageDisplayCount = w_maxImageDisplayCount p,
                   initialExposureCounter = w_initialExposureCounter p,
                   initialLayers = w_initialLayers p, n_images = n\<rparr>"

text \<open>The run: \<open>RunFullDynamic\<close> with the stored settings when \<open>dynamicFlag\<close> is set,
  otherwise \<open>RunFull\<close>; \<open>None\<close> when the run does not end within the observations.\<close>

definition run_phase :: "worker \<Rightarrow> worker_params \<Rightarrow> process_obs \<Rightarrow> run_result option" where
  "run_phase w p ob =
     (if dynamicFlag w then
        (case RunFullDynamic_loop (run_cfg p (image_count ob)) (w_orderedSettings w) (run_ticks_obs ob) of
           (s, None) \<Rightarrow> None
         | r \<Rightarrow> Some (DynamicRun r))
      else
        (case RunFull_loop (run_cfg p (image_count ob)) (run_ticks_obs ob) of
           (s, None) \<Rightarrow> None
         | r \<Rightarrow> Some (StaticRun r)))"

definition link0 :: link_state where
  "link0 = \<lparr>rx_buf = [], tx_log = []\<rparr>"

definition process :: "worker \<Rightarrow> process_obs \<Rightarrow> (worker_signal list \<times> process_result) option" where
  "process w ob =
     (case w_params w of
        None \<Rightarrow> None
      | Some p \<Rightarrow>
          (case init_waits ob of (o1, o2, o3, o4) \<Rightarrow>
          (case InitializeSystem (w_inputCurrent p) (w_initialPosition p) (w_inputVelocity p) (w_initialVelocity p)
                  (init_open ob) o1 o2 o3 o4 link0 of
             None \<Rightarrow> None
           | Some (InitExit, _) \<Rightarrow> Some ([LogInitializing], ProcessExit)
           | Some (InitDone _, _) \<Rightarrow>
               (case wait_ready (ready_obs ob) of
                  None \<Rightarrow> None
                | Some _ \<Rightarrow>
                    (let sigs = [LogInitializing, LogInitialized, LogDynamicStatus (dynamicFlag w), LogFlagTriggered]
                                @ (if dynamicFlag w then [LogEnteringDynamic] else []) in
                     case run_phase w p ob of
                       None \<Rightarrow> None
                     | Some r \<Rightarrow>
                         (case deinit_waits ob of (d1, d2, d3) \<Rightarrow>
                          case DeinitializeSystem (w_inputCurrent p) (w_initialVelocity p) (deinit_open ob)
                                 (deinit_position ob) d1 d2 d3 link0 of
                            None \<Rightarrow> None
                          | Some (InitExit, _) \<Rightarrow> Some (sigs @ [LogDeinitializing], ProcessExit)
                          | Some (InitDone _, _) \<Rightarrow>
                              Some (sigs @ [LogDeinitializing, LogDeinitFinished, Finished], ProcessDone r)))))))"

subsection \<open>Main-window handlers\<close>

text \<open>The widgets the handlers read: the text of the line edits and labels and the state
  of the check boxes and radio buttons of \<open>demoqt\<close>'s form.\<close>

record main_ui =
  ui_inputCurrent :: string
  ui_exposureTime :: string
  ui_minimumDarktime :: string
  ui_initialPosition :: string
  ui_inputVelocity :: string
  ui_inputStepSize :: string
  ui_initialLayerNumber :: string
  ui_initialExposureTime :: string
  ui_initialVelocity :: string
  ui_selectFolder :: string
  ui_radioButtonCLIP :: bool
  ui_pumping :: string
  ui_DynamicCheckBox :: bool
  ui_selectDynamicFolder :: string

text \<open>The main window's hold on the worker: the \<open>Worker\<close> object, whether it still exists
  (\<open>finished\<close> is connected to \<open>deleteLater\<close>, but the \<open>worker\<close> pointer is never
  cleared), and whether \<open>runFullThread\<close> has been started.\<close>

record gui_state =
  g_worker :: worker
  worker_alive :: bool
  thread_running :: bool

definition gui_init :: gui_state where
  "gui_init = \<lparr>g_worker = worker_init, worker_alive = True, thread_running = False\<rparr>"

text \<open>The parameters \<open>on_initializeSystemButton_clicked\<close> passes to \<open>setParameters\<close>:
  integers through \<open>toInt\<close>, lengths through \<open>toFloat\<close>, the pumping distance stored in an
  \<open>int\<close> (truncated toward zero) and the initial velocity read with \<open>toInt\<close>.\<close>

definition ui_params :: "main_ui \<Rightarrow> worker_params" where
  "ui_params ui =
     \<lparr>w_directoryPath = ui_selectFolder ui,
      w_maxImageDisplayCount = qt_value (qt_toInt (ui_exposureTime ui)),
      w_stepSize = qt_value (qt_toFloat (ui_inputStepSize ui)),
      w_mindarktime = qt_value (qt_toInt (ui_minimumDarktime ui)),
      w_inputCurrent = qt_value (qt_toInt (ui_inputCurrent ui)),
      w_initialPosition = qt_value (qt_toFloat (ui_initialPosition ui)),
      w_inputVelocity = qt_value (qt_toFloat (ui_inputVelocity ui)),
      w_isCLIP = ui_radioButtonCLIP ui,
      w_dlpPumpingAction =
        (if ui_radioButtonCLIP ui then 0 else trunc_micro (qt_value (qt_toFloat (ui_pumping ui))) * 10 ^ 6),
      w_initialVelocity = qt_value (qt_toInt (ui_initialVelocity ui)) * 10 ^ 6,
      w_initialExposureCounter = qt_value (qt_toInt (ui_initialExposureTime ui)),
      w_initialLayers = qt_value (qt_toInt (ui_initialLayerNumber ui))\<rparr>"

text \<open>\<open>runFullThread->start()\<close> unless it is running.\<close>

definition start_thread :: "gui_state \<Rightarrow> gui_state" where
  "start_thread g = g\<lparr>thread_running := True\<rparr>"

text \<open>\<open>on_initializeSystemButton_clicked\<close>: an empty folder is only reported; the worker is
  configured and its thread started in any case. The dynamic table is read from the selected
  CSV file, given by its contents. \<open>None\<close>: the worker has been deleted (a call through the
  dangling pointer) or the CSV file has a row that does not parse.\<close>

definition on_initializeSystemButton_clicked :: "main_ui \<Rightarrow> string \<Rightarrow> gui_state \<Rightarrow> gui_state option" where
  "on_initializeSystemButton_clicked ui csv g =
     (if \<not> worker_alive g then None
      else let w1 = setParameters (ui_params ui) (g_worker g) in
        (if ui_DynamicCheckBox ui \<and> ui_selectDynamicFolder ui \<noteq> [] then
           map_option (\<lambda>tbl. start_thread (g\<lparr>g_worker := setDynamicParameters tbl w1\<rparr>)) (readSettingsOrdered csv)
         else Some (start_thread (g\<lparr>g_worker := w1\<rparr>))))"

text \<open>\<open>on_startPrintButton_clicked\<close>: with a folder selected it sets the ready flag directly
  (the \<open>setParameters\<close> call is commented out) and starts the thread.\<close>

definition on_startPrintButton_clicked :: "main_ui \<Rightarrow> gui_state \<Rightarrow> gui_state option" where
  "on_startPrintButton_clicked ui g =
     (if ui_selectFolder ui = [] then Some g
      else if \<not> worker_alive g then None
      else Some (start_thread (g\<lparr>g_worker := setReadyToRunFullSlot (g_worker g)\<rparr>)))"

definition on_abortButton_clicked :: "gui_state \<Rightarrow> gui_state option" where
  "on_abortButton_clicked g =
     (if \<not> worker_alive g then None else Some (g\<lparr>g_worker := setAbortFlag True (g_worker g)\<rparr>))"

text \<open>The events of the main window: the three buttons, and \<open>Worker::finished\<close> at the end
  of \<open>process\<close>, after which \<open>deleteLater\<close> destroys the worker.\<close>

datatype gui_event = StartPrint main_ui | InitializeButton main_ui string | AbortButton | WorkerFinished

fun gui_step :: "gui_event \<Rightarrow> gui_state \<Rightarrow> gui_state option" where
  "gui_step (StartPrint ui) g = on_startPrintButton_clicked ui g"
| "gui_step (InitializeButton ui csv) g = on_initializeSystemButton_clicked ui csv g"
| "gui_step AbortButton g = on_abortButton_clicked g"
| "gui_step WorkerFinished g =
     (if thread_running g \<and> worker_alive g then Some (g\<lparr>worker_alive := False\<rparr>) else None)"

text \<open>The states the main window can reach, whatever the user does.\<close>

inductive gui_reach :: "gui_state \<Rightarrow> bool" where
  gui_start: "gui_reach gui_init"
| gui_next: "gui_reach g \<Longrightarrow> gui_step e g = Some g' \<Longrightarrow> gui_reach g'"

text \<open>A well-formed settings table: distinct settings with positive counts.\<close>

definition table_ok :: "(LayerSettings \<times> int) list \<Rightarrow> bool" where
  "table_ok tbl \<longleftrightarrow> distinct (map fst tbl) \<and> (\<forall>(k, c)\<in>set tbl. 0 < c)"

text \<open>The invariant of the main window's states: the worker's table is well formed and
  empty unless a dynamic table was loaded, and the ready flag is only set, and the worker only
  deleted, once the thread has been started.\<close>

definition gui_inv :: "gui_state \<Rightarrow> bool" where
  "gui_inv g \<longleftrightarrow> table_ok (w_orderedSettings (g_worker g))
     \<and> (\<not> dynamicFlag (g_worker g) \<longrightarrow> w_orderedSettings (g_worker g) = [])
     \<and> (readyToRunFull (g_worker g) \<longrightarrow> thread_running g)
     \<and> (\<not> worker_alive g \<longrightarrow> thread_running g)"

text \<open>A filled-in form and the observations of a print used by the examples below: a DLP
  print with a pumping distance of 0.5 mm and an initial velocity typed as 2.5.\<close>

definition demo_ui :: main_ui where
  "demo_ui = \<lparr>ui_inputCurrent = ''120'', ui_exposureTime = ''5'', ui_minimumDarktime = ''1000'',
     ui_initialPosition = ''15.0'', ui_inputVelocity = ''1.0'', ui_inputStepSize = ''0.05'',
     ui_initialLayerNumber = ''2'', ui_initialExposureTime = ''3'', ui_initialVelocity = ''2.5'',
     ui_selectFolder = ''C:/print/'', ui_radioButtonCLIP = False, ui_pumping = ''0.5'',
     ui_DynamicCheckBox = False, ui_selectDynamicFolder = []\<rparr>"

definition demo_worker :: worker where
  "demo_worker = setParameters (ui_params demo_ui) worker_init"

definition demo_obs :: process_obs where
  "demo_obs = \<lparr>init_open = True,
     init_waits = (wait_demo 600, wait_demo 600, wait_demo 600, wait_demo 600),
     ready_obs = [False, True], image_count = 1,
     run_ticks_obs = replicate (run_ticks (run_cfg (ui_params demo_ui) 1) 0) coop,
     deinit_open = True, deinit_position = [\<lparr>elapsed_ms = 25, arrived = []\<rparr>],
     deinit_waits = (wait_demo 600, wait_demo 600, wait_demo 600)\<rparr>"

lemma readSettingsOrdered_table_ok: "readSettingsOrdered csv = Some tbl \<Longrightarrow> table_ok tbl"
  using readSettingsOrdered_groups [of csv tbl] group_settings_inv by (auto simp: table_ok_def)

lemma gui_step_inv: "gui_step e g = Some g' \<Longrightarrow> gui_inv g \<Longrightarrow> gui_inv g'"
proof (cases e)
  case (InitializeButton ui csv)
  then show "gui_step e g = Some g' \<Longrightarrow> gui_inv g \<Longrightarrow> gui_inv g'"
    by (auto simp: on_initializeSystemButton_clicked_def gui_inv_def setParameters_def
        setDynamicParameters_def start_thread_def readSettingsOrdered_table_ok Let_def split: if_splits)
qed (auto simp: on_startPrintButton_clicked_def on_abortButton_clicked_def gui_inv_def start_thread_def
      setReadyToRunFullSlot_def setAbortFlag_def split: if_splits)

text \<open>C36: in every state the main window can reach, whatever buttons are pressed in
  whatever order, the worker holds a well-formed settings table (distinct settings, positive
  counts) that is empty unless dynamic printing was enabled, and its ready flag is set and it
  is deleted only after its thread was started.\<close>

theorem gui_reach_inv: "gui_reach g \<Longrightarrow> gui_inv g"
proof (induction rule: gui_reach.induct)
  case gui_start
  show ?case by (simp add: gui_inv_def gui_init_def worker_init_def table_ok_def)
next
  case (gui_next g e g')
  then show ?case by (blast intro: gui_step_inv)
qed

text \<open>C37: pressing Start Print before Initialize System starts the worker thread with the
  ready flag set but without any call of \<open>setParameters\<close>: \<open>process\<close> runs on
  uninitialised members, which the model leaves undefined.\<close>

theorem startPrint_without_parameters:
  assumes "ui_selectFolder ui \<noteq> []"
  shows "\<exists>g. gui_step (StartPrint ui) gui_init = Some g \<and> gui_reach g \<and> thread_running g
           \<and> readyToRunFull (g_worker g) \<and> (\<forall>ob. process (g_worker g) ob = None)"
proof -
  let ?g = "start_thread (gui_init\<lparr>g_worker := setReadyToRunFullSlot (g_worker gui_init)\<rparr>)"
  have s: "gui_step (StartPrint ui) gui_init = Some ?g"
    using assms by (simp add: on_startPrintButton_clicked_def gui_init_def)
  have "gui_reach ?g" by (rule gui_reach.gui_next [OF gui_reach.gui_start s])
  with s show ?thesis
    by (simp add: start_thread_def setReadyToRunFullSlot_def process_def gui_init_def worker_init_def)
qed

text \<open>C38: once \<open>process\<close> has emitted \<open>finished\<close>, the worker is deleted but the main
  window keeps the pointer: Abort, Initialize System and Start Print (with a folder) then call
  through a dangling pointer.\<close>

theorem worker_used_after_delete:
  assumes "gui_step WorkerFinished g = Some g'"
  shows "gui_step AbortButton g' = None \<and> gui_step (InitializeButton ui csv) g' = None
         \<and> (ui_selectFolder ui \<noteq> [] \<longrightarrow> gui_step (StartPrint ui) g' = None)"
  using assms
  by (auto simp: on_abortButton_clicked_def on_initializeSystemButton_clicked_def on_startPrintButton_clicked_def
      split: if_splits)

text \<open>C39: Initialize System stores the pumping distance of a DLP print in an \<open>int\<close>, so
  the distance the worker receives is the typed value truncated to whole millimetres (0.5 mm
  becomes 0).\<close>

theorem ui_params_pumping_truncated:
  assumes "\<not> ui_radioButtonCLIP ui" "qt_toFloat (ui_pumping ui) = Some x" "0 \<le> x"
  shows "w_dlpPumpingAction (ui_params ui) = x div 10 ^ 6 * 10 ^ 6"
  using assms by (auto simp: ui_params_def qt_value_def trunc_micro_def sgn_if)

lemma ui_params_initialVelocity_integer:
  assumes "CHR ''.'' \<in> set (ui_initialVelocity ui)"
  shows "w_initialVelocity (ui_params ui) = 0"
  using assms by (simp add: ui_params_def qt_value_def qt_toInt_dot)

lemma wait_ready_Some: "True \<in> set rs \<Longrightarrow> \<exists>n. wait_ready rs = Some n"
  by (induction rs) auto

lemma run_phase_static:
  assumes "\<not> dynamicFlag w" "0 < image_count ob"
    "run_ticks_obs ob = replicate (run_ticks (run_cfg p (image_count ob)) 0) coop @ extra"
  shows "\<exists>s. run_phase w p ob = Some (StaticRun (s, Some ExitAllShown))"
proof -
  have "0 < n_images (run_cfg p (image_count ob))" using assms(2) by (simp add: run_cfg_def)
  from coop_run [OF this, of extra] assms show ?thesis
    by (auto simp: run_phase_def split: prod.split)
qed

lemma run_phase_dynamic:
  assumes "dynamicFlag w" "length (dyn_plan (w_orderedSettings w)) < image_count ob"
    "run_ticks_obs ob = replicate (dyn_ticks (w_orderedSettings w)) coop @ extra"
  shows "\<exists>s. run_phase w p ob = Some (DynamicRun (s, Some DynFinished))"
proof -
  have "length (dyn_plan (w_orderedSettings w)) < n_images (run_cfg p (image_count ob))"
    using assms(2) by (simp add: run_cfg_def)
  from dyn_coop_run [OF this, of extra] assms show ?thesis
    by (auto simp: run_phase_def)
qed

text \<open>C35: \<open>Worker::process\<close> composes bring-up, the print and tear-down: when the
  parameters are set, both ports open, every wait loop is answered with the clock advancing,
  the ready flag is eventually seen and the render loop runs in a cooperative environment for
  its exact number of iterations, the worker initialises the system, runs \<open>RunFullDynamic\<close>
  exactly when \<open>dynamicFlag\<close> is set (otherwise \<open>RunFull\<close>) until all images are shown,
  deinitialises the system and emits \<open>finished\<close>.\<close>

theorem process_completes:
  assumes "w_params w = Some p" "init_open ob" "deinit_open ob"
    "init_waits ob = (o1, o2, o3, o4)" "deinit_waits ob = (d1, d2, d3)"
    "list_all (wait_env_ok 60) [o1, o2, o3, o4, d1, d2, d3]" "SerialRead [] (deinit_position ob) \<noteq> None"
    "True \<in> set (ready_obs ob)"
    "if dynamicFlag w then length (dyn_plan (w_orderedSettings w)) < image_count ob
     \<and> run_ticks_obs ob = replicate (dyn_ticks (w_orderedSettings w)) coop @ extra
     else 0 < image_count ob \<and> run_ticks_obs ob = replicate (run_ticks (run_cfg p (image_count ob)) 0) coop @ extra"
  shows "\<exists>r. process w ob =
           Some ([LogInitializing, LogInitialized, LogDynamicStatus (dynamicFlag w), LogFlagTriggered]
                 @ (if dynamicFlag w then [LogEnteringDynamic] else [])
                 @ [LogDeinitializing, LogDeinitFinished, Finished], ProcessDone r)
         \<and> (case r of StaticRun x \<Rightarrow> \<not> dynamicFlag w \<and> snd x = Some ExitAllShown
                     | DynamicRun x \<Rightarrow> dynamicFlag w \<and> snd x = Some DynFinished)"
proof -
  obtain s1 where i: "InitializeSystem (w_inputCurrent p) (w_initialPosition p) (w_inputVelocity p) (w_initialVelocity p)
      True o1 o2 o3 o4 link0 = Some (InitDone (led_current (w_inputCurrent p)), s1)"
    using InitializeSystem_done assms(6) by fastforce
  obtain s2 where d: "DeinitializeSystem (w_inputCurrent p) (w_initialVelocity p) True (deinit_position ob) d1 d2 d3 link0
      = Some (InitDone (led_current (w_inputCurrent p)), s2)"
    using DeinitializeSystem_done assms(6,7) by fastforce
  obtain n where r: "wait_ready (ready_obs ob) = Some n" using wait_ready_Some [OF assms(8)] by blast
  obtain rr where rp: "run_phase w p ob = Some rr"
    and rc: "case rr of StaticRun x \<Rightarrow> \<not> dynamicFlag w \<and> snd x = Some ExitAllShown
             | DynamicRun x \<Rightarrow> dynamicFlag w \<and> snd x = Some DynFinished"
  proof (cases "dynamicFlag w")
    case True
    then show thesis using run_phase_dynamic [of w ob extra p] assms(9) that by fastforce
  next
    case False
    then show thesis using run_phase_static [of w ob p extra] assms(9) that by fastforce
  qed
  show ?thesis
    using assms(1-5) i d r rp rc by (simp add: process_def)
qed

lemma demo_init_step:
  "gui_step (InitializeButton demo_ui []) gui_init = Some (start_thread (gui_init\<lparr>g_worker := demo_worker\<rparr>))"
  by (simp add: on_initializeSystemButton_clicked_def demo_ui_def demo_worker_def gui_init_def)

theorem gui_reach_inv_witness:
  "gui_reach (start_thread (gui_init\<lparr>g_worker := demo_worker\<rparr>)) \<and> gui_inv (start_thread (gui_init\<lparr>g_worker := demo_worker\<rparr>))"
proof -
  have r: "gui_reach (start_thread (gui_init\<lparr>g_worker := demo_worker\<rparr>))"
    by (rule gui_reach.gui_next [OF gui_reach.gui_start demo_init_step])
  with gui_reach_inv [OF r] show ?thesis by simp
qed

theorem startPrint_without_parameters_witness:
  "\<exists>g. gui_step (StartPrint demo_ui) gui_init = Some g \<and> gui_reach g \<and> thread_running g
     \<and> readyToRunFull (g_worker g) \<and> (\<forall>ob. process (g_worker g) ob = None)"
  using startPrint_without_parameters [of demo_ui] by (simp add: demo_ui_def)

theorem worker_used_after_delete_witness:
  "gui_step AbortButton (start_thread (gui_init\<lparr>g_worker := demo_worker, worker_alive := False\<rparr>)) = None"
proof -
  have "gui_step WorkerFinished (start_thread (gui_init\<lparr>g_worker := demo_worker\<rparr>))
      = Some (start_thread (gui_init\<lparr>g_worker := demo_worker, worker_alive := False\<rparr>))"
    by (simp add: start_thread_def gui_init_def)
  from worker_used_after_delete [OF this, of demo_ui "[]"] show ?thesis by simp
qed

theorem ui_params_pumping_truncated_witness:
  "qt_toFloat (ui_pumping demo_ui) = Some 500000 \<and> w_dlpPumpingAction (ui_params demo_ui) = 0"
proof -
  have f: "qt_toFloat (ui_pumping demo_ui) = Some 500000"
    by (simp add: demo_ui_def qt_toFloat_def trim_space_def is_space_def is_digit_def char_digit_def Let_def parse_digits_acc_replicate_zero)
  have "w_dlpPumpingAction (ui_params demo_ui) = 0"
    using ui_params_pumping_truncated [OF _ f] by (simp add: demo_ui_def)
  with f show ?thesis by simp
qed

theorem process_completes_witness:
  "\<exists>r. process demo_worker demo_obs =
     Some ([LogInitializing, LogInitialized, LogDynamicStatus False, LogFlagTriggered,
            LogDeinitializing, LogDeinitFinished, Finished], ProcessDone r)
     \<and> (case r of StaticRun x \<Rightarrow> snd x = Some ExitAllShown | DynamicRun x \<Rightarrow> False)"
proof -
  have ok: "wait_env_ok 60 (wait_demo 600)"
    by (simp add: wait_env_ok_def wait_demo_def reply_at_def SerialRead_def readString_def take_chunk_def)
  have "SerialRead [] [\<lparr>elapsed_ms = 25, arrived = []\<rparr>] \<noteq> None"
    by (simp add: SerialRead_def readString_def)
  with ok process_completes [of demo_worker "ui_params demo_ui" demo_obs "wait_demo 600" "wait_demo 600" "wait_demo 600"
      "wait_demo 600" "wait_demo 600" "wait_demo 600" "wait_demo 600" "[]"]
  show ?thesis
    by (auto simp: demo_worker_def demo_obs_def setParameters_def worker_init_def split: run_result.splits)
qed

end
