(* ===== verification/Image_Order.thy ===== *)
theory Image_Order
  imports Prelude "HOL-Library.List_Lexorder" "HOL-Library.Char_ord"
begin

text \<open>
  \<open>customSort\<close> (\<open>src/src/individualCommands.cpp\<close>), the comparator \<open>RunFull\<close> and
  \<open>RunFullDynamic\<close> pass to \<open>std::sort\<close> to order the image paths. It searches each path
  for the regular expression \<open>SEC_(\d+)\.PNG\<close>; when both paths match it compares the
  captured numbers with \<open>std::stoi\<close>, otherwise it falls back to \<open>std::string\<close>'s
  \<open>operator<\<close>, which compares the characters as unsigned bytes, lexicographically
  (the order of \<open>List_Lexorder\<close> over \<open>Char_ord\<close>). The result is \<open>None\<close> when
  \<open>std::stoi\<close> throws \<open>std::out_of_range\<close>.
\<close>

text \<open>A match of the expression starting at the beginning of \<open>s\<close>: \<open>SEC_\<close>, a maximal
  run of digits (the only run the backtracking matcher can accept, since \<open>.\<close> is not a
  digit), then \<open>.PNG\<close>. The captured group is the digit run.\<close>

definition sec_at :: "string \<Rightarrow> string option" where
  "sec_at s =
     (if take 4 s = ''SEC_'' then
        (let r = drop 4 s; d = takeWhile is_digit r in
         if d \<noteq> [] \<and> take 4 (dropWhile is_digit r) = ''.PNG'' then Some d else None)
      else None)"

text \<open>\<open>std::regex_search\<close>: the leftmost position at which a match starts.\<close>

fun sec_search :: "string \<Rightarrow> string option" where
  "sec_search [] = None"
| "sec_search (c # cs) = (case sec_at (c # cs) of Some d \<Rightarrow> Some d | None \<Rightarrow> sec_search cs)"

text \<open>\<open>std::stoi\<close> of a digit string: \<open>std::out_of_range\<close> above \<open>INT_MAX\<close>.\<close>

definition stoi_digits :: "string \<Rightarrow> int option" where
  "stoi_digits d = (case parse_nat d of
                      Some n \<Rightarrow> if int n \<le> 2 ^ 31 - 1 then Some (int n) else None
                    | None \<Rightarrow> None)"

definition customSort :: "string \<Rightarrow> string \<Rightarrow> bool option" where
  "customSort a b =
     (case (sec_search a, sec_search b) of
        (Some da, Some db) \<Rightarrow>
          (case (stoi_digits da, stoi_digits db) of
             (Some x, Some y) \<Rightarrow> Some (x < y)
           | _ \<Rightarrow> None)
      | _ \<Rightarrow> Some (a < b))"

text \<open>The file name of layer \<open>n\<close> as the slicer writes it.\<close>

definition sec_name :: "nat \<Rightarrow> string" where
  "sec_name n = ''SEC_'' @ nat_digits n @ ''.PNG''"

text \<open>The relation \<open>std::sort\<close> sees: \<open>customSort a b\<close> returned \<open>true\<close>.\<close>

definition sort_before :: "string \<Rightarrow> string \<Rightarrow> bool" where
  "sort_before a b \<longleftrightarrow> customSort a b = Some True"

text \<open>A print directory of the form the file dialog returns; no suffix of it starts a match.\<close>

definition print_dir :: string where "print_dir = ''C:/print/''"


lemma sec_at_sec_name: "sec_at (sec_name n @ rest) = Some (nat_digits n)"
proof -
  have "takeWhile is_digit (''.PNG'' @ rest) = []" by (simp add: is_digit_def)
  from extract_nat_digits [OF this, of n] show ?thesis
    by (simp add: sec_at_def sec_name_def Let_def)
qed

lemma sec_search_sec_name: "sec_search (sec_name n) = Some (nat_digits n)"
  using sec_at_sec_name [of n "[]"] by (simp add: sec_name_def)

lemma sec_search_append:
  "\<forall>i<length dir. sec_at (drop i dir @ s) = None \<Longrightarrow> sec_search (dir @ s) = sec_search s"
proof (induction dir)
  case Nil
  then show ?case by simp
next
  case (Cons c dir)
  from Cons.prems [unfolded all_less_Suc_shift]
  have "sec_at (c # dir @ s) = None" "\<forall>i<length dir. sec_at (drop i dir @ s) = None" by simp_all
  then show ?case using Cons.IH by simp
qed

lemma stoi_nat_digits: "n < 2 ^ 31 \<Longrightarrow> stoi_digits (nat_digits n) = Some (int n)"
  by (simp add: stoi_digits_def parse_nat_digits)

lemma stoi_nat_digits_big: "2 ^ 31 \<le> n \<Longrightarrow> stoi_digits (nat_digits n) = None"
  by (simp add: stoi_digits_def parse_nat_digits)

lemma customSort_sec_names:
  assumes "m < 2 ^ 31" "n < 2 ^ 31"
    "sec_search a = Some (nat_digits m)" "sec_search b = Some (nat_digits n)"
  shows "customSort a b = Some (m < n)"
  using assms by (simp add: customSort_def stoi_nat_digits)

lemma sort_before_sec_name:
  "m < 2 ^ 31 \<Longrightarrow> n < 2 ^ 31 \<Longrightarrow> sort_before (sec_name m) (sec_name n) \<longleftrightarrow> m < n"
  by (simp add: sort_before_def customSort_sec_names sec_search_sec_name)

text \<open>C20: for layer files in one directory with numbers below \<open>2^31\<close>, \<open>customSort\<close>
  compares the layer numbers, not the strings: \<open>SEC_9.PNG\<close> sorts before \<open>SEC_10.PNG\<close>.\<close>

theorem customSort_numeric:
  assumes "m < 2 ^ 31" "n < 2 ^ 31"
    "\<forall>i<length dir. sec_at (drop i dir @ sec_name m) = None"
    "\<forall>i<length dir. sec_at (drop i dir @ sec_name n) = None"
  shows "customSort (dir @ sec_name m) (dir @ sec_name n) = Some (m < n)"
  using assms by (simp add: customSort_sec_names sec_search_append sec_search_sec_name)

text \<open>C23: a layer number above \<open>INT_MAX\<close> makes \<open>std::stoi\<close> throw
  \<open>std::out_of_range\<close>, which nothing in \<open>RunFull\<close> catches.\<close>

theorem customSort_stoi_overflow:
  assumes "2 ^ 31 \<le> m"
  shows "customSort (sec_name m) (sec_name n) = None"
  using assms by (simp add: customSort_def sec_search_sec_name stoi_nat_digits_big split: option.split)

lemma print_dir_no_match: "\<forall>i<length print_dir. sec_at (drop i print_dir @ s) = None"
  by (simp add: print_dir_def less_Suc_eq numeral_eq_Suc all_conj_distrib sec_at_def)

theorem customSort_numeric_witness:
  "customSort (print_dir @ sec_name 9) (print_dir @ sec_name 10) = Some True"
  using customSort_numeric [of 9 10 print_dir] print_dir_no_match by simp

theorem customSort_stoi_overflow_witness:
  "customSort (sec_name 3000000000) (sec_name 1) = None"
  using customSort_stoi_overflow [of 3000000000 1] by simp

end
