(* ===== verification/Image_Sort.thy ===== *)
theory Image_Sort
  imports Image_Order "HOL-Library.Multiset"
begin

text \<open>
  The \<open>std::sort(imagePaths.begin(), imagePaths.end(), customSort)\<close> calls of \<open>RunFull\<close>,
  \<open>RunFullDynamic\<close> and the dummy runs. The standard library promises, for a comparator that
  is a strict weak order, a permutation of the input in which no element sorts before one
  that precedes it; \<open>sort_contract\<close> states that promise without fixing the algorithm. On
  slicer layer files the promise has exactly one solution: the names in increasing layer
  number.
\<close>

text \<open>What \<open>std::sort\<close> with \<open>customSort\<close> may return for the list \<open>xs\<close>.\<close>

definition sort_contract :: "string list \<Rightarrow> string list \<Rightarrow> bool" where
  "sort_contract xs ys \<longleftrightarrow> mset ys = mset xs \<and> sorted_wrt (\<lambda>a b. \<not> sort_before b a) ys"

subsection \<open>Lemmas\<close>

lemma sec_name_inj: "sec_name m = sec_name n \<Longrightarrow> m = n"
proof -
  assume "sec_name m = sec_name n"
  then have "parse_nat (nat_digits m) = parse_nat (nat_digits n)"
    using sec_search_sec_name [of m] sec_search_sec_name [of n] by simp
  then show "m = n" by (simp add: parse_nat_digits)
qed

lemma sorted_wrt_sort_before_sec_name:
  assumes "\<forall>n\<in>set ms. n < 2 ^ 31"
  shows "sorted_wrt (\<lambda>a b. \<not> sort_before b a) (map sec_name ms) \<longleftrightarrow> sorted ms"
proof -
  have "sorted_wrt (\<lambda>x y. \<not> sort_before (sec_name y) (sec_name x)) ms \<longleftrightarrow> sorted ms"
    using assms by (induction ms) (auto simp: sort_before_sec_name not_less)
  then show ?thesis by (simp add: sorted_wrt_map)
qed



end
