(* ===== verification/Settings_Dialog.thy ===== *)
theory Settings_Dialog
  imports Bring_Up "HOL-Library.Sublist"
begin

text \<open>
  \<open>AdvancedSettingsDialog\<close> (\<open>src/demoqt/Worker.h\<close>, the dialog's implementation file
  appended to the header): a Qt dialog whose buttons each run one slot. The slots read or
  write the light engine's LED default status and current through the \<open>LibUSB3DPrinter\<close>
  calls (\<^typ>\<open>le_call\<close>), or query and command the SMC100 stage through the
  dialog's own \<open>SMC100C controller\<close> (the link of \<open>Stage_Link\<close>). The dialog's state
  is the text of its labels and line edits, the stage link and the light-engine call trace.
  A light-engine getter's observation is its \<open>BOOL\<close> result with the value it stored
  (\<open>None\<close>: it returned false). A slot whose \<open>substr\<close> throws, or whose reply
  observations end, is \<open>None\<close>: the exception leaves the Qt slot and ends the program.
\<close>

record dialog_ui =
  LedDefaultLabel :: string
  IntensityLineEdit :: string
  PositionLineEdit :: string
  AccelerationLineEdit :: string
  VelocityLineEdit :: string
  PosLimitLineEdit :: string
  NegLimitLineEdit :: string

record dialog_state =
  d_ui :: dialog_ui
  d_link :: link_state
  d_le :: "le_call list"

text \<open>The constructor: \<open>initializeController(controller)\<close>, \<open>exit(0)\<close> when it fails.\<close>

definition AdvancedSettingsDialog :: "dialog_ui \<Rightarrow> bool \<Rightarrow> link_state \<Rightarrow> dialog_state option" where
  "AdvancedSettingsDialog ui port_open st =
     (if \<not> initializeController port_open then None else Some \<lparr>d_ui = ui, d_link = st, d_le = []\<rparr>)"

definition led_text :: "8 word \<Rightarrow> string" where
  "led_text s = (if s \<noteq> 0 then ''On'' else ''Off'')"

text \<open>\<open>U8 newStatus = !currentStatus\<close>: the \<open>bool\<close> negation converted back to \<open>U8\<close>.\<close>

definition led_toggle :: "8 word \<Rightarrow> 8 word" where
  "led_toggle s = (if s = 0 then 1 else 0)"

definition set_ui :: "(dialog_ui \<Rightarrow> dialog_ui) \<Rightarrow> dialog_state \<Rightarrow> dialog_state" where
  "set_ui f d = d\<lparr>d_ui := f (d_ui d)\<rparr>"

definition le_calls :: "le_call list \<Rightarrow> dialog_state \<Rightarrow> dialog_state" where
  "le_calls cs d = d\<lparr>d_le := d_le d @ cs\<rparr>"

definition on_getLedStatus_clicked :: "8 word option \<Rightarrow> dialog_state \<Rightarrow> dialog_state" where
  "on_getLedStatus_clicked r d =
     (let d1 = le_calls [GetLedDefaultStatus] d in
      case r of
        Some status \<Rightarrow> set_ui (\<lambda>u. u\<lparr>LedDefaultLabel := led_text status\<rparr>) d1
      | None \<Rightarrow> d1)"

definition on_setLedStatus_clicked :: "8 word option \<Rightarrow> bool \<Rightarrow> dialog_state \<Rightarrow> dialog_state" where
  "on_setLedStatus_clicked r set_ok d =
     (case r of
        None \<Rightarrow> le_calls [GetLedDefaultStatus] d
      | Some currentStatus \<Rightarrow>
          (let newStatus = led_toggle currentStatus;
               d1 = le_calls [GetLedDefaultStatus, SetLedDefaultStatus newStatus] d
           in if set_ok then set_ui (\<lambda>u. u\<lparr>LedDefaultLabel := led_text newStatus\<rparr>) d1 else d1))"

text \<open>\<open>static_cast<uint8_t>(text().toInt())\<close>; the result of \<open>SetCurrent\<close> is ignored.\<close>

definition on_setIntensity_clicked :: "dialog_state \<Rightarrow> dialog_state" where
  "on_setIntensity_clicked d =
     le_calls [SetCurrent 0 (word_of_int (qt_value (qt_toInt (IntensityLineEdit (d_ui d)))))] d"

definition on_getIntensity_clicked :: "8 word option \<Rightarrow> dialog_state \<Rightarrow> dialog_state" where
  "on_getIntensity_clicked r d =
     (let d1 = le_calls [GetCurrent 0] d in
      case r of
        Some intensity \<Rightarrow> set_ui (\<lambda>u. u\<lparr>IntensityLineEdit := nat_digits (unat intensity)\<rparr>) d1
      | None \<Rightarrow> d1)"

text \<open>The common part of the stage getters: the query, the erasure of every \<open>'\n'\<close> and
  then every \<open>'\r'\<close>, and \<open>substr(3, n)\<close>.\<close>

definition reply_field :: "nat \<Rightarrow> string \<Rightarrow> string option" where
  "reply_field n r = cxx_substr (erase_char CHR 0x0D (erase_char CHR ''\<newline>'' r)) 3 n"

definition dialog_query ::
  "query_op \<Rightarrow> nat \<Rightarrow> rx_obs list \<Rightarrow> dialog_state \<Rightarrow> (string \<times> dialog_state) option" where
  "dialog_query q n os d = do {
     (reply, st') \<leftarrow> run_query q os (d_link d);
     f \<leftarrow> reply_field n reply;
     Some (f, d\<lparr>d_link := st'\<rparr>)
   }"

definition dialog_op :: "controller_op \<Rightarrow> dialog_state \<Rightarrow> dialog_state" where
  "dialog_op c d = d\<lparr>d_link := run_op c (d_link d)\<rparr>"

text \<open>\<open>QString::toFloat\<close> of a line edit, 0 when the text is not a number.\<close>

definition field_value :: "(dialog_ui \<Rightarrow> string) \<Rightarrow> dialog_state \<Rightarrow> int" where
  "field_value fld d = qt_value (qt_toFloat (fld (d_ui d)))"

definition on_getPosition_clicked :: "rx_obs list \<Rightarrow> dialog_state \<Rightarrow> dialog_state option" where
  "on_getPosition_clicked os d =
     map_option (\<lambda>(f, d'). set_ui (\<lambda>u. u\<lparr>PositionLineEdit := f\<rparr>) d') (dialog_query GetPosition 6 os d)"

definition on_setPosition_clicked :: "dialog_state \<Rightarrow> dialog_state" where
  "on_setPosition_clicked d = dialog_op (AbsoluteMove (field_value PositionLineEdit d)) d"

definition on_getAcceleration_clicked :: "rx_obs list \<Rightarrow> dialog_state \<Rightarrow> dialog_state option" where
  "on_getAcceleration_clicked os d =
     map_option (\<lambda>(f, d'). set_ui (\<lambda>u. u\<lparr>AccelerationLineEdit := f\<rparr>) d') (dialog_query GetAcceleration 2 os d)"

definition on_setAcceleration_clicked :: "dialog_state \<Rightarrow> dialog_state" where
  "on_setAcceleration_clicked d = dialog_op (SetAcceleration (field_value AccelerationLineEdit d)) d"

definition on_getVelocity_clicked :: "rx_obs list \<Rightarrow> dialog_state \<Rightarrow> dialog_state option" where
  "on_getVelocity_clicked os d =
     map_option (\<lambda>(f, d'). set_ui (\<lambda>u. u\<lparr>VelocityLineEdit := f\<rparr>) d') (dialog_query GetVelocity 4 os d)"

definition on_setVelocity_clicked :: "dialog_state \<Rightarrow> dialog_state" where
  "on_setVelocity_clicked d = dialog_op (SetVelocity (field_value VelocityLineEdit d)) d"

definition on_getPosLimit_clicked :: "rx_obs list \<Rightarrow> dialog_state \<Rightarrow> dialog_state option" where
  "on_getPosLimit_clicked os d =
     map_option (\<lambda>(f, d'). set_ui (\<lambda>u. u\<lparr>PosLimitLineEdit := f\<rparr>) d') (dialog_query GetPositiveLimit 2 os d)"

definition on_setPosLimit_clicked :: "dialog_state \<Rightarrow> dialog_state" where
  "on_setPosLimit_clicked d = dialog_op (SetPositiveLimit (field_value VelocityLineEdit d)) d"

definition on_getNegLimit_clicked :: "rx_obs list \<Rightarrow> dialog_state \<Rightarrow> dialog_state option" where
  "on_getNegLimit_clicked os d =
     map_option (\<lambda>(f, d'). set_ui (\<lambda>u. u\<lparr>NegLimitLineEdit := f\<rparr>) d') (dialog_query GetNegativeLimit 2 os d)"

definition on_setNegLimit_clicked :: "dialog_state \<Rightarrow> dialog_state" where
  "on_setNegLimit_clicked d = dialog_op (SetNegativeLimit (field_value VelocityLineEdit d)) d"

definition on_stopStage_clicked :: "dialog_state \<Rightarrow> dialog_state" where
  "on_stopStage_clicked d = dialog_op StopMotionOp d"

text \<open>The fifteen buttons the constructor connects, each with what its slot observes.\<close>

datatype dialog_event =
    GetLedStatusBtn "8 word option" | SetLedStatusBtn "8 word option" bool
  | SetIntensityBtn | GetIntensityBtn "8 word option"
  | GetPositionBtn "rx_obs list" | SetPositionBtn
  | GetAccelerationBtn "rx_obs list" | SetAccelerationBtn
  | GetVelocityBtn "rx_obs list" | SetVelocityBtn
  | GetPosLimitBtn "rx_obs list" | SetPosLimitBtn
  | GetNegLimitBtn "rx_obs list" | SetNegLimitBtn
  | StopStageBtn

fun dialog_step :: "dialog_event \<Rightarrow> dialog_state \<Rightarrow> dialog_state option" where
  "dialog_step (GetLedStatusBtn r) d = Some (on_getLedStatus_clicked r d)"
| "dialog_step (SetLedStatusBtn r ok) d = Some (on_setLedStatus_clicked r ok d)"
| "dialog_step SetIntensityBtn d = Some (on_setIntensity_clicked d)"
| "dialog_step (GetIntensityBtn r) d = Some (on_getIntensity_clicked r d)"
| "dialog_step (GetPositionBtn os) d = on_getPosition_clicked os d"
| "dialog_step SetPositionBtn d = Some (on_setPosition_clicked d)"
| "dialog_step (GetAccelerationBtn os) d = on_getAcceleration_clicked os d"
| "dialog_step SetAccelerationBtn d = Some (on_setAcceleration_clicked d)"
| "dialog_step (GetVelocityBtn os) d = on_getVelocity_clicked os d"
| "dialog_step SetVelocityBtn d = Some (on_setVelocity_clicked d)"
| "dialog_step (GetPosLimitBtn os) d = on_getPosLimit_clicked os d"
| "dialog_step SetPosLimitBtn d = Some (on_setPosLimit_clicked d)"
| "dialog_step (GetNegLimitBtn os) d = on_getNegLimit_clicked os d"
| "dialog_step SetNegLimitBtn d = Some (on_setNegLimit_clicked d)"
| "dialog_step StopStageBtn d = Some (on_stopStage_clicked d)"

subsection \<open>Invariant\<close>

text \<open>The light-engine calls a slot makes: the LED default status, read or set to 0 or 1,
  and the current of channel 0.\<close>

definition dialog_le_ok :: "le_call \<Rightarrow> bool" where
  "dialog_le_ok c = (case c of GetLedDefaultStatus \<Rightarrow> True | SetLedDefaultStatus s \<Rightarrow> s \<le> 1
                      | SetCurrent ch _ \<Rightarrow> ch = 0 | GetCurrent ch \<Rightarrow> ch = 0 | _ \<Rightarrow> False)"

text \<open>From a start state \<open>d0\<close>: the stage link's log and the light-engine trace only
  grow, every call added is one of the above, and the LED label is its first text or
  \<open>On\<close> or \<open>Off\<close>.\<close>

definition dialog_inv :: "dialog_state \<Rightarrow> dialog_state \<Rightarrow> bool" where
  "dialog_inv d0 d \<longleftrightarrow> prefix (tx_log (d_link d0)) (tx_log (d_link d)) \<and> prefix (d_le d0) (d_le d)
     \<and> list_all dialog_le_ok (drop (length (d_le d0)) (d_le d))
     \<and> LedDefaultLabel (d_ui d) \<in> {LedDefaultLabel (d_ui d0), ''On'', ''Off''}"

text \<open>The states a sequence of button clicks reaches from \<open>d0\<close>.\<close>

inductive dialog_reach :: "dialog_state \<Rightarrow> dialog_state \<Rightarrow> bool" where
  dialog_start: "dialog_reach d0 d0"
| dialog_next: "dialog_reach d0 d \<Longrightarrow> dialog_step ev d = Some d' \<Longrightarrow> dialog_reach d0 d'"

text \<open>A controller that reports an acceleration of 100 units per second squared.\<close>

definition acc_obs :: "rx_obs list" where
  "acc_obs = [\<lparr>elapsed_ms = 1, arrived = ''1AC100.000000'' @ CRLF\<rparr>]"


subsection \<open>Lemmas\<close>

lemma led_toggle_bool: "led_toggle s \<le> 1"
  by (simp add: led_toggle_def)

lemma led_toggle_twice: "led_toggle (led_toggle s) = s \<longleftrightarrow> s \<le> 1"
proof -
  have "s \<le> 1 \<longleftrightarrow> s = 0 \<or> s = 1" by (auto simp: word_le_less_eq)
  then show ?thesis by (auto simp: led_toggle_def)
qed

lemma on_setLedStatus_label:
  "LedDefaultLabel (d_ui (on_setLedStatus_clicked (Some cur) True d)) = (if cur = 0 then ''On'' else ''Off'')"
  by (simp add: on_setLedStatus_clicked_def led_toggle_def led_text_def set_ui_def le_calls_def Let_def)

lemma dialog_query_Some:
  "dialog_query q n os d = Some (f, d') \<Longrightarrow>
     tx_log (d_link d') = tx_log (d_link d) @ wire_line (query_entry q) \<and> d_ui d' = d_ui d \<and> d_le d' = d_le d"
  by (auto simp: dialog_query_def run_query_def query_reply_def send_entry_wire bind_eq_Some_conv Let_def
      split: option.splits)

lemma dialog_query_read:
  assumes "SerialRead [] os = Some (reply, rx')" "reply_field n reply = Some f"
  shows "\<exists>d'. dialog_query q n os d = Some (f, d')"
  using assms by (simp add: dialog_query_def run_query_def query_reply_read)

lemma reply_field_short:
  "reply_field n r = None \<longleftrightarrow> length (filter (\<lambda>c. c \<noteq> CHR 0x0D \<and> c \<noteq> CHR ''\<newline>'') r) < 3"
  by (simp add: reply_field_def erase_char_def conj_commute)

lemma on_setIntensity_wraps:
  assumes "qt_toInt (IntensityLineEdit (d_ui d)) = Some i"
  shows "\<exists>w. d_le (on_setIntensity_clicked d) = d_le d @ [SetCurrent 0 w] \<and> unat w = nat (i mod 256)"
  using assms by (simp add: on_setIntensity_clicked_def le_calls_def qt_value_def unat_led_current)

lemma on_setPosLimit_log:
  "tx_log (d_link (on_setPosLimit_clicked d)) =
     tx_log (d_link d) @ wire_line (op_entry (SetPositiveLimit (field_value VelocityLineEdit d)))"
  by (simp add: on_setPosLimit_clicked_def dialog_op_def)

lemma on_setPosLimit_ignores_field:
  "on_setPosLimit_clicked (set_ui (\<lambda>u. u\<lparr>PosLimitLineEdit := x\<rparr>) d) =
   set_ui (\<lambda>u. u\<lparr>PosLimitLineEdit := x\<rparr>) (on_setPosLimit_clicked d)"
  by (simp add: on_setPosLimit_clicked_def dialog_op_def set_ui_def field_value_def)

lemma SerialRead_acc_obs: "SerialRead [] acc_obs = Some (''1AC100.000000'' @ CRLF, [])"
  by (simp add: SerialRead_def readString_def acc_obs_def take_chunk_def CRLF_def)

lemma acc_get_set_tenfold:
  "\<exists>d'. on_getAcceleration_clicked acc_obs d = Some d' \<and> AccelerationLineEdit (d_ui d') = ''10''
      \<and> tx_log (d_link (on_setAcceleration_clicked d')) =
          tx_log (d_link d) @ wire_line (query_entry GetAcceleration) @ wire_line (op_entry (SetAcceleration 10000000))"
proof -
  have rf: "reply_field 2 (''1AC100.000000'' @ CRLF) = Some ''10''"
    by (simp add: reply_field_def erase_char_def cxx_substr_def CRLF_def)
  obtain d1 where q: "dialog_query GetAcceleration 2 acc_obs d = Some (''10'', d1)"
    using dialog_query_read [OF SerialRead_acc_obs rf] by blast
  have v: "qt_toFloat ''10'' = Some 10000000" by code_simp
  show ?thesis
    using dialog_query_Some [OF q]
    by (simp add: on_getAcceleration_clicked_def q on_setAcceleration_clicked_def dialog_op_def
        field_value_def set_ui_def v qt_value_def)
qed

lemma dialog_op_log [simp]:
  "tx_log (d_link (dialog_op c d)) = tx_log (d_link d) @ wire_line (op_entry c)"
  "d_le (dialog_op c d) = d_le d" "d_ui (dialog_op c d) = d_ui d"
  by (simp_all add: dialog_op_def)

lemma dialog_step_effect:
  assumes "dialog_step ev d = Some d'"
  shows "prefix (tx_log (d_link d)) (tx_log (d_link d'))
         \<and> (\<exists>cs. d_le d' = d_le d @ cs \<and> list_all dialog_le_ok cs)
         \<and> LedDefaultLabel (d_ui d') \<in> {LedDefaultLabel (d_ui d), ''On'', ''Off''}"
  using assms
proof (cases ev)
  case (GetPositionBtn os)
  with assms show ?thesis by (auto simp: on_getPosition_clicked_def set_ui_def dest!: dialog_query_Some)
next
  case (GetAccelerationBtn os)
  with assms show ?thesis by (auto simp: on_getAcceleration_clicked_def set_ui_def dest!: dialog_query_Some)
next
  case (GetVelocityBtn os)
  with assms show ?thesis by (auto simp: on_getVelocity_clicked_def set_ui_def dest!: dialog_query_Some)
next
  case (GetPosLimitBtn os)
  with assms show ?thesis by (auto simp: on_getPosLimit_clicked_def set_ui_def dest!: dialog_query_Some)
next
  case (GetNegLimitBtn os)
  with assms show ?thesis by (auto simp: on_getNegLimit_clicked_def set_ui_def dest!: dialog_query_Some)
qed (auto simp: on_getLedStatus_clicked_def on_setLedStatus_clicked_def on_setIntensity_clicked_def
       on_getIntensity_clicked_def on_setPosition_clicked_def on_setAcceleration_clicked_def
       on_setVelocity_clicked_def on_setPosLimit_clicked_def on_setNegLimit_clicked_def
       on_stopStage_clicked_def le_calls_def set_ui_def led_text_def dialog_le_ok_def led_toggle_bool
       Let_def split: option.splits)

lemma dialog_reach_inv: "dialog_reach d0 d \<Longrightarrow> dialog_inv d0 d"
proof (induction rule: dialog_reach.induct)
  case dialog_start
  then show ?case by (simp add: dialog_inv_def)
next
  case (dialog_next d0 d ev d')
  from dialog_step_effect [OF dialog_next.hyps(2)] obtain cs where
    tx: "prefix (tx_log (d_link d)) (tx_log (d_link d'))" and le: "d_le d' = d_le d @ cs"
    and ok: "list_all dialog_le_ok cs"
    and lbl: "LedDefaultLabel (d_ui d') \<in> {LedDefaultLabel (d_ui d), ''On'', ''Off''}" by blast
  from dialog_next.IH have "length (d_le d0) \<le> length (d_le d)"
    by (auto simp: dialog_inv_def dest: prefix_length_le)
  with dialog_next.IH tx le ok lbl show ?case
    by (auto simp: dialog_inv_def intro: prefix_order.trans)
qed

lemma reply_field_Timeout: "reply_field 6 ''Timeout'' = Some ''eout''"
  by (simp add: reply_field_def erase_char_def cxx_substr_def)

lemma on_getPosition_timeout:
  assumes "readString CHR ''\<newline>'' 63 20 [] os = Some (ReadTimeout, r, rx')"
  shows "\<exists>d'. on_getPosition_clicked os d = Some d' \<and> PositionLineEdit (d_ui d') = ''eout''"
proof -
  have "SerialRead [] os = Some (''Timeout'', rx')" using assms by (simp add: SerialRead_def)
  from dialog_query_read [OF this reply_field_Timeout] obtain d1 where
    "dialog_query GetPosition 6 os d = Some (''eout'', d1)" by blast
  then show ?thesis by (simp add: on_getPosition_clicked_def set_ui_def)
qed

end
