(* ===== verification/Device_Status.thy ===== *)
theory Device_Status
  imports Settings_Dialog
begin

text \<open>
  The status queries of \<open>src/src/individualCommands.cpp\<close> behind the main window's
  check buttons: \<open>checkStage\<close> (a controller of its own, homing, five queries, and
  \<open>std::stof\<close> of a fixed \<open>substr\<close> of each reply, inside one \<open>try\<close> block whose
  \<open>catch\<close> logs and returns what was assigned), \<open>checkStageDummy\<close>,
  \<open>getLightEngineStatus\<close> and \<open>getLightEngineStatusDummy\<close>, with the structs
  \<open>StageStatus\<close> and \<open>LightEngineStatus\<close> of \<open>individualCommands.h\<close>. A struct field that
  is never assigned keeps the indeterminate value of default initialisation: it is
  \<open>None\<close>. Floats are millionths, as everywhere in the development.
\<close>

subsection \<open>Stage status\<close>

record StageStatus =
  position :: "int option"
  velocity :: "int option"
  acceleration :: "int option"
  positiveLimit :: "int option"
  negativeLimit :: "int option"

text \<open>\<open>StageStatus status;\<close>: no initialiser, so every field is indeterminate.\<close>

definition StageStatus_uninit :: StageStatus where
  "StageStatus_uninit = \<lparr>position = None, velocity = None, acceleration = None,
                         positiveLimit = None, negativeLimit = None\<rparr>"

text \<open>\<open>exit(0)\<close> when the controller does not open, otherwise the returned struct.\<close>

datatype stage_check = StageExit | StageChecked StageStatus

text \<open>The five queries of the \<open>try\<close> block with the length of the \<open>substr(3, n)\<close> each
  reply is printed and converted with.\<close>

definition checkStage_queries :: "(query_op \<times> nat) list" where
  "checkStage_queries =
     [(GetPosition, 6), (GetVelocity, 2), (GetAcceleration, 2), (GetPositiveLimit, 2), (GetNegativeLimit, 2)]"

text \<open>The queries in order, each followed by the erasure of CR and LF and the printed
  \<open>substr\<close>. The inner \<open>None\<close> is a \<open>std::out_of_range\<close> thrown by \<open>substr\<close>, after
  which no further query is sent; the outer \<open>None\<close> is the end of the observations.\<close>

fun stage_queries ::
  "(query_op \<times> nat) list \<Rightarrow> rx_obs list list \<Rightarrow> link_state \<Rightarrow> (string list option \<times> link_state) option" where
  "stage_queries [] oss st = Some (Some [], st)"
| "stage_queries ((q, n) # qs) [] st = None"
| "stage_queries ((q, n) # qs) (os # oss) st =
     (case run_query q os st of
        None \<Rightarrow> None
      | Some (reply, st1) \<Rightarrow>
          (case reply_field n reply of
             None \<Rightarrow> Some (None, st1)
           | Some f \<Rightarrow> map_option (\<lambda>(fs, st2). (map_option (Cons f) fs, st2)) (stage_queries qs oss st1)))"

text \<open>The five assignments \<open>status.x = std::stof(...)\<close> in order: the first
  \<open>std::invalid_argument\<close> leaves that field and the following ones unassigned.\<close>

fun stof_fields :: "string list \<Rightarrow> int option list" where
  "stof_fields [] = []"
| "stof_fields (f # fs) =
     (case stof f of None \<Rightarrow> replicate (Suc (length fs)) None | Some v \<Rightarrow> Some v # stof_fields fs)"

fun status_of_fields :: "int option list \<Rightarrow> StageStatus" where
  "status_of_fields [p, v, a, pl, nl] =
     \<lparr>position = p, velocity = v, acceleration = a, positiveLimit = pl, negativeLimit = nl\<rparr>"
| "status_of_fields _ = StageStatus_uninit"

definition checkStage :: "bool \<Rightarrow> rx_obs list list \<Rightarrow> link_state \<Rightarrow> (stage_check \<times> link_state) option" where
  "checkStage port_open oss st =
     (if \<not> initializeController port_open then Some (StageExit, st)
      else (case stage_queries checkStage_queries oss (run_op Home st) of
              None \<Rightarrow> None
            | Some (None, st') \<Rightarrow> Some (StageChecked StageStatus_uninit, st')
            | Some (Some fs, st') \<Rightarrow> Some (StageChecked (status_of_fields (stof_fields fs)), st')))"

definition checkStageDummy :: StageStatus where
  "checkStageDummy = \<lparr>position = Some 123450000, velocity = Some 67890000, acceleration = Some 10110000,
                      positiveLimit = Some 200000000, negativeLimit = Some (- 10000000)\<rparr>"

subsection \<open>Light-engine status\<close>

record LightEngineStatus =
  status :: "8 word"
  current :: "8 word option"
  sysStatus :: "8 word"
  ledDefaultStatus :: "bool option"
  temperature :: "16 word option"

text \<open>What the light-engine library answers: \<open>GetStatus()\<close> and \<open>GetSysStatus()\<close> return a
  byte; \<open>GetCurrent\<close>, \<open>GetLedDefaultStatus\<close> and \<open>GetTemperature\<close> store through their
  pointer argument (\<open>None\<close>: nothing stored).\<close>

record le_status_obs =
  ob_status :: "8 word"
  ob_current :: "8 word option"
  ob_sysStatus :: "8 word"
  ob_led :: "8 word option"
  ob_temperature :: "16 word option"

definition getLightEngineStatus :: "le_status_obs \<Rightarrow> le_call list \<times> LightEngineStatus" where
  "getLightEngineStatus ob =
     ([GetStatus, GetCurrent 0, GetSysStatus, GetLedDefaultStatus, GetTemperature],
      \<lparr>status = ob_status ob, current = ob_current ob, sysStatus = ob_sysStatus ob,
       ledDefaultStatus = map_option (\<lambda>flag. flag \<noteq> 0) (ob_led ob), temperature = ob_temperature ob\<rparr>)"

definition getLightEngineStatusDummy :: LightEngineStatus where
  "getLightEngineStatusDummy =
     \<lparr>status = 1, current = Some 5, sysStatus = 2, ledDefaultStatus = Some True, temperature = Some 25\<rparr>"

subsection \<open>Controller answers\<close>

text \<open>A controller that answers a query at once with the line \<open>s\<close>, and one that stays
  silent beyond \<open>readString\<close>'s 20 ms timeout.\<close>

definition answer_obs :: "string \<Rightarrow> rx_obs list" where
  "answer_obs s = [\<lparr>elapsed_ms = 1, arrived = s @ CRLF\<rparr>]"

definition silent_obs :: "rx_obs list" where
  "silent_obs = [\<lparr>elapsed_ms = 25, arrived = []\<rparr>]"

subsection \<open>Lemmas\<close>

text \<open>Evaluation of \<open>std::stof\<close> on a literal.\<close>

lemmas stof_eval = stof_def Let_def is_space_def is_digit_def char_digit_def parse_digits_acc_replicate_zero

lemma reply_field_answer:
  "CHR ''\<newline>'' \<notin> set s \<Longrightarrow> CHR 0x0D \<notin> set s \<Longrightarrow> reply_field n (s @ CRLF) = cxx_substr s 3 n"
proof -
  assume "CHR ''\<newline>'' \<notin> set s" "CHR 0x0D \<notin> set s"
  then have "filter (\<lambda>x. x \<noteq> CHR ''\<newline>'' \<and> x \<noteq> CHR 0x0D) s = s" by (auto simp: filter_id_conv)
  then show ?thesis by (simp add: reply_field_def erase_char_def CRLF_def)
qed

lemma length_stof_fields [simp]: "length (stof_fields fs) = length fs"
  by (induction fs) (auto split: option.split)

lemma stof_fields_prefix: "\<exists>vs k. stof_fields fs = map Some vs @ replicate k None"
proof (induction fs)
  case Nil
  show ?case by simp
next
  case (Cons f fs)
  show ?case
  proof (cases "stof f")
    case None
    then show ?thesis by (intro exI [of _ "[]"] exI [of _ "Suc (length fs)"]) simp
  next
    case (Some v)
    from Cons.IH obtain vs k where "stof_fields fs = map Some vs @ replicate k None" by blast
    with Some show ?thesis by (intro exI [of _ "v # vs"]) simp
  qed
qed

lemma SerialRead_answer_exact:
  assumes "CHR ''\<newline>'' \<notin> set s" "CHR 0x00 \<notin> set s" "length s < 61"
  shows "SerialRead [] (answer_obs s) = Some (s @ CRLF, [])"
proof -
  have tw: "takeWhile (\<lambda>c. c \<noteq> CHR ''\<newline>'') (s @ [CHR 0x0D, CHR ''\<newline>'']) = s @ [CHR 0x0D]"
    using assms(1) by (subst takeWhile_append2) auto
  have nul: "takeWhile (\<lambda>c. c \<noteq> CHR 0x00) (s @ [CHR 0x0D, CHR ''\<newline>'']) = s @ [CHR 0x0D, CHR ''\<newline>'']"
    using assms(2) by (auto simp: takeWhile_eq_all_conv)
  show ?thesis
    using assms(3) by (simp add: SerialRead_def readString_def answer_obs_def CRLF_def take_chunk_def tw nul)
qed

lemma run_query_answer:
  assumes "CHR ''\<newline>'' \<notin> set s" "CHR 0x00 \<notin> set s" "length s < 61"
  shows "run_query q (answer_obs s) st =
           Some (s @ CRLF, \<lparr>rx_buf = [], tx_log = tx_log st @ wire_line (query_entry q)\<rparr>)"
  using SerialRead_answer_exact [OF assms]
  by (simp add: run_query_def query_reply_read send_entry_wire)

lemma stage_queries_answer:
  assumes "CHR ''\<newline>'' \<notin> set s" "CHR 0x0D \<notin> set s" "CHR 0x00 \<notin> set s" "length s < 61"
  shows "stage_queries ((q, n) # qs) (answer_obs s # oss) st =
           (let st1 = \<lparr>rx_buf = [], tx_log = tx_log st @ wire_line (query_entry q)\<rparr> in
            case cxx_substr s 3 n of
              None \<Rightarrow> Some (None, st1)
            | Some f \<Rightarrow> map_option (\<lambda>(fs, st2). (map_option (Cons f) fs, st2)) (stage_queries qs oss st1))"
  using assms by (simp add: run_query_answer reply_field_answer Let_def)

lemma checkStage_demo:
  "checkStage True (map answer_obs [''1TP12.345678'', ''1VA2.5'', ''1AC100.0'', ''1SR25.0'', ''1SL-5.0'']) st =
     Some (StageChecked \<lparr>position = Some 12345000, velocity = Some 2000000, acceleration = Some 10000000,
                          positiveLimit = Some 25000000, negativeLimit = Some (- 5000000)\<rparr>,
           \<lparr>rx_buf = [], tx_log = tx_log st @ wire_line (op_entry Home) @ wire_line (query_entry GetPosition)
              @ wire_line (query_entry GetVelocity) @ wire_line (query_entry GetAcceleration)
              @ wire_line (query_entry GetPositiveLimit) @ wire_line (query_entry GetNegativeLimit)\<rparr>)"
proof -
  have st: "stof ''12.345'' = Some 12345000" "stof ''2.'' = Some 2000000" "stof ''10'' = Some 10000000"
    "stof ''25'' = Some 25000000" "stof ''-5'' = Some (- 5000000)" by (simp_all add: stof_eval)
  show ?thesis
    by (simp add: checkStage_def initializeController_def checkStage_queries_def stage_queries_answer
        cxx_substr_def st del: stage_queries.simps(3) query_entry.simps op_entry.simps)
qed

lemma stage_queries_silent:
  "stage_queries ((q, n) # qs) (silent_obs # oss) st =
     (let st1 = \<lparr>rx_buf = [], tx_log = tx_log st @ wire_line (query_entry q)\<rparr> in
      case cxx_substr ''Timeout'' 3 n of
        None \<Rightarrow> Some (None, st1)
      | Some f \<Rightarrow> map_option (\<lambda>(fs, st2). (map_option (Cons f) fs, st2)) (stage_queries qs oss st1))"
proof -
  have "SerialRead [] silent_obs = Some (''Timeout'', [])"
    by (simp add: SerialRead_def readString_def silent_obs_def)
  then have "run_query q silent_obs st = Some (''Timeout'', \<lparr>rx_buf = [], tx_log = tx_log st @ wire_line (query_entry q)\<rparr>)"
    by (simp add: run_query_def query_reply_read send_entry_wire)
  then show ?thesis by (simp add: reply_field_def erase_char_def Let_def)
qed

lemma stage_queries_length:
  "stage_queries qs oss st = Some (Some fs, st') \<Longrightarrow> length fs = length qs"
  by (induction qs oss st arbitrary: fs st' rule: stage_queries.induct)
     (auto split: option.splits prod.splits)

lemma status_of_fields_list:
  assumes "length xs = 5"
  shows "[position (status_of_fields xs), velocity (status_of_fields xs), acceleration (status_of_fields xs),
          positiveLimit (status_of_fields xs), negativeLimit (status_of_fields xs)] = xs"
proof -
  from assms obtain a b c d e where "xs = [a, b, c, d, e]"
    by (auto simp: numeral_eq_Suc length_Suc_conv)
  then show ?thesis by simp
qed


lemma checkStage_short_position:
  "checkStage True (answer_obs ''1T'' # oss) st =
     Some (StageChecked StageStatus_uninit,
           \<lparr>rx_buf = [], tx_log = tx_log st @ wire_line (op_entry Home) @ wire_line (query_entry GetPosition)\<rparr>)"
  by (simp add: checkStage_def initializeController_def checkStage_queries_def stage_queries_answer
      cxx_substr_def del: stage_queries.simps(3) query_entry.simps op_entry.simps)

lemma checkStage_velocity_timeout:
  "checkStage True [answer_obs ''1TP12.345678'', silent_obs, answer_obs ''1AC100.0'', answer_obs ''1SR25.0'',
                    answer_obs ''1SL-5.0''] st =
     Some (StageChecked \<lparr>position = Some 12345000, velocity = None, acceleration = None,
                          positiveLimit = None, negativeLimit = None\<rparr>,
           \<lparr>rx_buf = [], tx_log = tx_log st @ wire_line (op_entry Home) @ wire_line (query_entry GetPosition)
              @ wire_line (query_entry GetVelocity) @ wire_line (query_entry GetAcceleration)
              @ wire_line (query_entry GetPositiveLimit) @ wire_line (query_entry GetNegativeLimit)\<rparr>)"
proof -
  have st: "stof ''12.345'' = Some 12345000" "stof ''eo'' = None" by (simp_all add: stof_eval)
  show ?thesis
    by (simp add: checkStage_def initializeController_def checkStage_queries_def stage_queries_answer
        stage_queries_silent cxx_substr_def st del: stage_queries.simps(3) query_entry.simps op_entry.simps)
qed

end
