(* ===== verification/Main_Window.thy ===== *)
theory Main_Window
  imports Device_Status Worker
begin

text \<open>
  The panels of the main window \<open>demoqt\<close> (\<open>src/unnamed/part_001\<close>) that are not part of a
  print: the COM-port selection that sets \<open>globalComPort\<close> (the port every
  \<open>initializeController\<close> opens), the visibility toggles, the Check Stage and Check Light
  Engine buttons with the status texts they build, the light-engine on/off buttons, the log
  terminal, and the modal Advanced Settings dialog of \<^theory_text>\<open>Settings_Dialog\<close>. Whether
  \<open>SMC100CInit\<close> opens a port of a given name is the environment function \<open>port_ok\<close>.
  \<open>QString::arg\<close> of an integer prints its decimal value; the formatting of a \<open>float\<close>
  argument is the parameter \<open>fmt\<close>. A text that reads an indeterminate struct field is
  \<open>None\<close> (undefined behaviour), as is a handler that ends the program.
\<close>

record window_state =
  comPortItems :: "string list"
  comPortIndex :: nat
  ComPortDirectInput :: string
  ComPortDirectInputVisible :: bool
  comPortPushButtonVisible :: bool
  pumpingVisible :: bool
  RunUpGroupVisible :: bool
  globalComPort :: string
  engineLabel :: string
  lighteEngineLabel :: string
  outputTerminal :: "string list"
  w_link :: link_state
  w_le :: "le_call list"
  w_form :: main_ui

definition currentText :: "window_state \<Rightarrow> string" where
  "currentText w = comPortItems w ! comPortIndex w"

text \<open>The constructor: the three combo-box items (the first \<open>addItem\<close> makes item 0
  current), the hidden widgets, and \<open>globalComPort\<close> still the empty \<open>QString\<close>: the
  combo box's \<open>currentIndexChanged\<close> is connected only after the items are added. The
  text fields and the CLIP/DLP radio buttons start as the form file sets them (\<open>form\<close>).\<close>

definition demoqt_init :: "main_ui \<Rightarrow> link_state \<Rightarrow> window_state" where
  "demoqt_init form st =
     \<lparr>comPortItems = [''COM3'', ''COM4'', ''Direct Input''], comPortIndex = 0, ComPortDirectInput = [],
      ComPortDirectInputVisible = False, comPortPushButtonVisible = False,
      pumpingVisible = False, RunUpGroupVisible = False, globalComPort = [],
      engineLabel = [], lighteEngineLabel = [], outputTerminal = [], w_link = st, w_le = [], w_form = form\<rparr>"

definition onComPortComboBoxChanged :: "window_state \<Rightarrow> window_state" where
  "onComPortComboBoxChanged w =
     (if currentText w = ''Direct Input''
      then w\<lparr>ComPortDirectInputVisible := True, comPortPushButtonVisible := True\<rparr>
      else w\<lparr>ComPortDirectInputVisible := False, comPortPushButtonVisible := False,
             globalComPort := currentText w\<rparr>)"

definition onConfirmComPortButtonClicked :: "window_state \<Rightarrow> window_state" where
  "onConfirmComPortButtonClicked w =
     w\<lparr>globalComPort := (if currentText w = ''Direct Input'' then ComPortDirectInput w else currentText w)\<rparr>"

text \<open>The CLIP and DLP radio buttons are exclusive: DLP is checked exactly when CLIP is not.\<close>

definition onPrintingMethodChanged :: "window_state \<Rightarrow> window_state" where
  "onPrintingMethodChanged w = w\<lparr>pumpingVisible := \<not> ui_radioButtonCLIP (w_form w)\<rparr>"

definition on_RunUpSettings_clicked :: "window_state \<Rightarrow> window_state" where
  "on_RunUpSettings_clicked w = w\<lparr>RunUpGroupVisible := \<not> RunUpGroupVisible w\<rparr>"

definition handleLogMessage :: "string \<Rightarrow> window_state \<Rightarrow> window_state" where
  "handleLogMessage message w = w\<lparr>outputTerminal := outputTerminal w @ [message]\<rparr>"

text \<open>The folder picker's result is written to the label even when the dialog was
  cancelled (an empty path).\<close>

definition on_selectFolderButton_clicked :: "string \<Rightarrow> window_state \<Rightarrow> window_state" where
  "on_selectFolderButton_clicked folderPath w = w\<lparr>w_form := (w_form w)\<lparr>ui_selectFolder := folderPath\<rparr>\<rparr>"

definition setting_line :: "LayerSettings \<times> int \<Rightarrow> string" where
  "setting_line sc =
     ''Layers with settings (Intensity: '' @ int_to_string (intensity (fst sc))
     @ '', Exposure Time: '' @ int_to_string (exposureTime (fst sc))
     @ '', Dark Time: '' @ int_to_string (darkTime (fst sc)) @ '') = '' @ int_to_string (snd sc)"

text \<open>The CSV picker: for a chosen file, the label and one terminal line per setting of
  \<open>readSettingsOrdered\<close> on the file's content (\<open>None\<close>: its \<open>std::stoi\<close> throws inside the
  slot). The table is only displayed; Initialize System reads the file again.\<close>

definition on_selectDynamicFolderButton_clicked :: "string \<Rightarrow> string \<Rightarrow> window_state \<Rightarrow> window_state option" where
  "on_selectDynamicFolderButton_clicked filePath content w =
     (if filePath = [] then Some w
      else map_option (\<lambda>orderedSettings.
               w\<lparr>w_form := (w_form w)\<lparr>ui_selectDynamicFolder := filePath\<rparr>,
                 outputTerminal := outputTerminal w @ map setting_line orderedSettings\<rparr>)
             (readSettingsOrdered content))"

subsection \<open>Status texts\<close>

definition stage_message :: "(int \<Rightarrow> string) \<Rightarrow> StageStatus \<Rightarrow> string option" where
  "stage_message fmt s = do {
     p \<leftarrow> position s; v \<leftarrow> velocity s; a \<leftarrow> acceleration s; pl \<leftarrow> positiveLimit s; nl \<leftarrow> negativeLimit s;
     Some (''Position: '' @ fmt p @ '' mm\<newline>Velocity: '' @ fmt v @ '' mm/s\<newline>Acceleration: '' @ fmt a
           @ '' mm/s2\<newline>Positive Limit: '' @ fmt pl @ '' mm\<newline>Negative Limit: '' @ fmt nl @ '' mm'')
   }"

definition le_message :: "LightEngineStatus \<Rightarrow> string option" where
  "le_message s = do {
     c \<leftarrow> current s; l \<leftarrow> ledDefaultStatus s; t \<leftarrow> temperature s;
     Some (''Status: '' @ nat_digits (unat (status s)) @ ''\<newline>Current: '' @ nat_digits (unat c)
           @ ''\<newline>System Status: '' @ nat_digits (unat (sysStatus s))
           @ ''\<newline>LED Default Status: '' @ (if l then ''On'' else ''Off'')
           @ ''\<newline>Temperature: '' @ int_to_string (sint t) @ '' Celsius'')
   }"

definition on_checkStageButton_clicked ::
  "(string \<Rightarrow> bool) \<Rightarrow> (int \<Rightarrow> string) \<Rightarrow> rx_obs list list \<Rightarrow> window_state \<Rightarrow> window_state option" where
  "on_checkStageButton_clicked port_ok fmt oss w =
     (case checkStage (port_ok (globalComPort w)) oss (w_link w) of
        Some (StageChecked s, st') \<Rightarrow> map_option (\<lambda>m. w\<lparr>engineLabel := m, w_link := st'\<rparr>) (stage_message fmt s)
      | _ \<Rightarrow> None)"

definition on_checkLightEngineButton_clicked :: "le_status_obs \<Rightarrow> window_state \<Rightarrow> window_state option" where
  "on_checkLightEngineButton_clicked ob w =
     (case getLightEngineStatus ob of
        (cs, s) \<Rightarrow> map_option (\<lambda>m. w\<lparr>lighteEngineLabel := m, w_le := w_le w @ cs\<rparr>) (le_message s))"

definition SM12on_message :: string where
  "SM12on_message =
     ''Light Engine is initializing. You cannot execute any further actions until the light engine has booted up.\<newline> ''
     @ ''If the light engine has not been turned on in a while it might take some time. ''
     @ ''Should the process take longer than five minutes it might be a good idea to unplug the system and retry the process. \<newline>''
     @ ''If this does not work after multiple tries consider running the process for an extended period of time. \<newline>The light engine has shown to be sensitive to temperature. If the temperature is too low it might not turn on.''"

text \<open>\<open>TurnLightEngineOn\<close> ends the program with \<open>exit(1)\<close> on its timeout.\<close>

definition on_SM12onButton_clicked :: "le_obs list \<Rightarrow> le_status_obs \<Rightarrow> window_state \<Rightarrow> window_state option" where
  "on_SM12onButton_clicked wobs ob w =
     (let w1 = handleLogMessage SM12on_message w in
      case TurnLightEngineOn wobs of
        Some (tr, True) \<Rightarrow>
          (case getLightEngineStatus ob of
             (cs, s) \<Rightarrow> map_option (\<lambda>m. w1\<lparr>lighteEngineLabel := m, w_le := w_le w @ tr @ cs\<rparr>) (le_message s))
      | _ \<Rightarrow> None)"

text \<open>The Off button sets the label three times in one slot; the last text, built from
  \<open>getLightEngineStatusDummy\<close>, is the one shown.\<close>

definition on_SM12offButton_clicked :: "window_state \<Rightarrow> window_state option" where
  "on_SM12offButton_clicked w =
     map_option (\<lambda>m. w\<lparr>lighteEngineLabel := m, w_le := w_le w @ TurnLightEngineOff\<rparr>)
       (le_message getLightEngineStatusDummy)"

subsection \<open>The modal settings dialog\<close>

text \<open>\<open>dialog.exec()\<close>: the dialog's own event loop over the buttons clicked until it closes.\<close>

fun dialog_run :: "dialog_event list \<Rightarrow> dialog_state \<Rightarrow> dialog_state option" where
  "dialog_run [] d = Some d"
| "dialog_run (ev # evs) d = (case dialog_step ev d of None \<Rightarrow> None | Some d' \<Rightarrow> dialog_run evs d')"

definition on_openAdvancedSettings_clicked ::
  "(string \<Rightarrow> bool) \<Rightarrow> dialog_ui \<Rightarrow> dialog_event list \<Rightarrow> window_state \<Rightarrow> window_state option" where
  "on_openAdvancedSettings_clicked port_ok ui0 evs w =
     (case AdvancedSettingsDialog ui0 (port_ok (globalComPort w)) (w_link w) of
        None \<Rightarrow> None
      | Some d \<Rightarrow> map_option (\<lambda>d'. w\<lparr>w_link := d_link d', w_le := w_le w @ d_le d'\<rparr>) (dialog_run evs d))"

subsection \<open>Events\<close>

text \<open>What the user does in the window. Choosing the combo-box item that is already current
  emits no \<open>currentIndexChanged\<close>; the confirm button can be clicked only while it is shown.
  The file pickers' events carry what the dialog returned (and the file's content).\<close>

datatype window_event =
    ComPortSelected nat | ComPortTyped string | ConfirmComPort | RadioClicked bool | RunUpClicked
  | CheckStage "rx_obs list list" | CheckLightEngine le_status_obs | SM12on "le_obs list" le_status_obs
  | SM12off | LogMessage string | OpenAdvancedSettings dialog_ui "dialog_event list"
  | SelectFolder string | SelectDynamicFile string string

fun window_step ::
  "(string \<Rightarrow> bool) \<Rightarrow> (int \<Rightarrow> string) \<Rightarrow> window_event \<Rightarrow> window_state \<Rightarrow> window_state option" where
  "window_step port_ok fmt (ComPortSelected i) w =
     Some (if i < length (comPortItems w) \<and> i \<noteq> comPortIndex w
           then onComPortComboBoxChanged (w\<lparr>comPortIndex := i\<rparr>) else w)"
| "window_step port_ok fmt (ComPortTyped s) w = Some (w\<lparr>ComPortDirectInput := s\<rparr>)"
| "window_step port_ok fmt ConfirmComPort w =
     Some (if comPortPushButtonVisible w then onConfirmComPortButtonClicked w else w)"
| "window_step port_ok fmt (RadioClicked clip) w =
     Some (onPrintingMethodChanged (w\<lparr>w_form := (w_form w)\<lparr>ui_radioButtonCLIP := clip\<rparr>\<rparr>))"
| "window_step port_ok fmt RunUpClicked w = Some (on_RunUpSettings_clicked w)"
| "window_step port_ok fmt (CheckStage oss) w = on_checkStageButton_clicked port_ok fmt oss w"
| "window_step port_ok fmt (CheckLightEngine ob) w = on_checkLightEngineButton_clicked ob w"
| "window_step port_ok fmt (SM12on wobs ob) w = on_SM12onButton_clicked wobs ob w"
| "window_step port_ok fmt SM12off w = on_SM12offButton_clicked w"
| "window_step port_ok fmt (LogMessage m) w = Some (handleLogMessage m w)"
| "window_step port_ok fmt (OpenAdvancedSettings ui0 evs) w = on_openAdvancedSettings_clicked port_ok ui0 evs w"
| "window_step port_ok fmt (SelectFolder p) w = Some (on_selectFolderButton_clicked p w)"
| "window_step port_ok fmt (SelectDynamicFile p content) w = on_selectDynamicFolderButton_clicked p content w"

inductive window_reach ::
  "(string \<Rightarrow> bool) \<Rightarrow> (int \<Rightarrow> string) \<Rightarrow> main_ui \<Rightarrow> link_state \<Rightarrow> window_state \<Rightarrow> bool" where
  window_start: "window_reach port_ok fmt form st (demoqt_init form st)"
| window_next: "window_reach port_ok fmt form st w \<Longrightarrow> window_step port_ok fmt ev w = Some w'
                \<Longrightarrow> window_reach port_ok fmt form st w'"

subsection \<open>The application\<close>

text \<open>The whole window: the panel events above and the print buttons of
  \<^theory_text>\<open>Worker\<close>, which read the form fields of the same window, over the pair of the
  window's state and its hold on the worker.\<close>

datatype app_event = Panel window_event | PrintInitialize string | PrintStart | PrintAbort | PrintFinished

fun app_step ::
  "(string \<Rightarrow> bool) \<Rightarrow> (int \<Rightarrow> string) \<Rightarrow> app_event \<Rightarrow> window_state \<times> gui_state \<Rightarrow> (window_state \<times> gui_state) option" where
  "app_step port_ok fmt (Panel e) (w, g) = map_option (\<lambda>w'. (w', g)) (window_step port_ok fmt e w)"
| "app_step port_ok fmt (PrintInitialize csv) (w, g) =
     map_option (\<lambda>g'. (w, g')) (gui_step (InitializeButton (w_form w) csv) g)"
| "app_step port_ok fmt PrintStart (w, g) = map_option (\<lambda>g'. (w, g')) (gui_step (StartPrint (w_form w)) g)"
| "app_step port_ok fmt PrintAbort (w, g) = map_option (\<lambda>g'. (w, g')) (gui_step AbortButton g)"
| "app_step port_ok fmt PrintFinished (w, g) = map_option (\<lambda>g'. (w, g')) (gui_step WorkerFinished g)"

text \<open>\<open>a.exec()\<close>: the events the user and the worker produce until the application ends.\<close>

fun app_run ::
  "(string \<Rightarrow> bool) \<Rightarrow> (int \<Rightarrow> string) \<Rightarrow> app_event list \<Rightarrow> window_state \<times> gui_state \<Rightarrow> (window_state \<times> gui_state) option" where
  "app_run port_ok fmt [] s = Some s"
| "app_run port_ok fmt (e # es) s = (case app_step port_ok fmt e s of None \<Rightarrow> None | Some s' \<Rightarrow> app_run port_ok fmt es s')"

text \<open>\<open>main\<close> (\<open>src/demoqt/main.cpp\<close>): construct the window, show it, run the event loop.\<close>

definition demoqt_main ::
  "(string \<Rightarrow> bool) \<Rightarrow> (int \<Rightarrow> string) \<Rightarrow> main_ui \<Rightarrow> link_state \<Rightarrow> app_event list \<Rightarrow> (window_state \<times> gui_state) option" where
  "demoqt_main port_ok fmt form st evs = app_run port_ok fmt evs (demoqt_init form st, gui_init)"

text \<open>The COM-port widgets stay consistent: the same three items, a valid index, and the
  direct-input box with its button shown exactly while \<open>Direct Input\<close> is selected.\<close>

definition com_inv :: "window_state \<Rightarrow> bool" where
  "com_inv w \<longleftrightarrow> comPortItems w = [''COM3'', ''COM4'', ''Direct Input''] \<and> comPortIndex w < 3
     \<and> ComPortDirectInputVisible w = (currentText w = ''Direct Input'')
     \<and> comPortPushButtonVisible w = ComPortDirectInputVisible w"

subsection \<open>Lemmas\<close>

lemma dialog_run_reach:
  "dialog_reach d0 d \<Longrightarrow> dialog_run evs d = Some d' \<Longrightarrow> dialog_reach d0 d'"
  by (induction evs arbitrary: d) (auto intro: dialog_next split: option.splits)

lemma com_inv_init: "com_inv (demoqt_init form st)"
  by (simp add: com_inv_def demoqt_init_def currentText_def)

lemma com_inv_ComboBoxChanged:
  "com_inv w \<Longrightarrow> i < 3 \<Longrightarrow> com_inv (onComPortComboBoxChanged (w\<lparr>comPortIndex := i\<rparr>))"
  by (simp add: com_inv_def onComPortComboBoxChanged_def currentText_def)

lemma window_step_com_fields:
  assumes "window_step port_ok fmt ev w = Some w'"
    and "\<And>i. ev \<noteq> ComPortSelected i"
  shows "comPortItems w' = comPortItems w \<and> comPortIndex w' = comPortIndex w
         \<and> ComPortDirectInputVisible w' = ComPortDirectInputVisible w
         \<and> comPortPushButtonVisible w' = comPortPushButtonVisible w"
  using assms
  by (cases ev)
     (auto simp: onConfirmComPortButtonClicked_def onPrintingMethodChanged_def on_RunUpSettings_clicked_def
        on_checkStageButton_clicked_def on_checkLightEngineButton_clicked_def on_SM12onButton_clicked_def
        on_SM12offButton_clicked_def handleLogMessage_def on_openAdvancedSettings_clicked_def Let_def
        on_selectFolderButton_clicked_def on_selectDynamicFolderButton_clicked_def
        split: option.splits stage_check.splits prod.splits bool.splits if_splits)

lemma window_step_com_inv:
  assumes "com_inv w" "window_step port_ok fmt ev w = Some w'"
  shows "com_inv w'"
proof (cases "\<exists>i. ev = ComPortSelected i")
  case True
  then obtain i where ev: "ev = ComPortSelected i" by blast
  from assms(1) have "length (comPortItems w) = 3" by (simp add: com_inv_def)
  with assms(2) ev have "w' = (if i < 3 \<and> i \<noteq> comPortIndex w then onComPortComboBoxChanged (w\<lparr>comPortIndex := i\<rparr>) else w)"
    by simp
  with assms(1) show ?thesis by (simp add: com_inv_ComboBoxChanged)
next
  case False
  with window_step_com_fields [OF assms(2)] assms(1) show ?thesis
    by (simp add: com_inv_def currentText_def)
qed

lemma window_reach_com_inv: "window_reach port_ok fmt form st w \<Longrightarrow> com_inv w"
  by (induction rule: window_reach.induct) (auto intro: com_inv_init window_step_com_inv)

lemma window_step_globalComPort:
  assumes "window_step port_ok fmt ev w = Some w'" "globalComPort w' \<noteq> globalComPort w"
  shows "(\<exists>i. ev = ComPortSelected i) \<or> ev = ConfirmComPort"
  using assms
  by (cases ev)
     (auto simp: onPrintingMethodChanged_def on_RunUpSettings_clicked_def
        on_checkStageButton_clicked_def on_checkLightEngineButton_clicked_def on_SM12onButton_clicked_def
        on_SM12offButton_clicked_def handleLogMessage_def on_openAdvancedSettings_clicked_def Let_def
        on_selectFolderButton_clicked_def on_selectDynamicFolderButton_clicked_def
        split: option.splits stage_check.splits prod.splits bool.splits if_splits)

lemma initial_port_unset:
  "currentText (demoqt_init form st) = ''COM3'' \<and> globalComPort (demoqt_init form st) = []
   \<and> window_step port_ok fmt (ComPortSelected 0) (demoqt_init form st) = Some (demoqt_init form st)"
  by (simp add: currentText_def demoqt_init_def)

lemma initial_checkStage_exits:
  "\<not> port_ok [] \<Longrightarrow> on_checkStageButton_clicked port_ok fmt oss (demoqt_init form st) = None"
  by (simp add: on_checkStageButton_clicked_def checkStage_def initializeController_def demoqt_init_def)

lemma SM12off_dummy_label:
  "on_SM12offButton_clicked w =
     Some (w\<lparr>lighteEngineLabel := ''Status: 1\<newline>Current: 5\<newline>System Status: 2\<newline>LED Default Status: On\<newline>Temperature: 25 Celsius'',
             w_le := w_le w @ [PowerOnOff 0]\<rparr>)"
proof -
  have "nat_digits 1 = ''1''" "nat_digits 5 = ''5''" "nat_digits 2 = ''2''" "int_to_string 25 = ''25''"
    by code_simp+
  then show ?thesis
    by (simp add: on_SM12offButton_clicked_def le_message_def getLightEngineStatusDummy_def TurnLightEngineOff_def)
qed

lemma stage_message_None:
  "stage_message fmt s = None \<longleftrightarrow>
     None \<in> set [position s, velocity s, acceleration s, positiveLimit s, negativeLimit s]"
  by (auto simp: stage_message_def bind_eq_None_conv)

lemma checkStage_timeout_undefined:
  "port_ok (globalComPort w) \<Longrightarrow>
   on_checkStageButton_clicked port_ok fmt [answer_obs ''1TP12.345678'', silent_obs, answer_obs ''1AC100.0'',
     answer_obs ''1SR25.0'', answer_obs ''1SL-5.0''] w = None"
  by (simp add: on_checkStageButton_clicked_def checkStage_velocity_timeout stage_message_None)

lemma le_message_None:
  "le_message (snd (getLightEngineStatus ob)) = None \<longleftrightarrow>
     ob_current ob = None \<or> ob_led ob = None \<or> ob_temperature ob = None"
  by (auto simp: le_message_def getLightEngineStatus_def bind_eq_None_conv)

lemma openAdvancedSettings_effect:
  assumes "on_openAdvancedSettings_clicked port_ok ui0 evs w = Some w'"
  shows "prefix (tx_log (w_link w)) (tx_log (w_link w'))
         \<and> (\<exists>cs. w_le w' = w_le w @ cs \<and> list_all dialog_le_ok cs)"
proof -
  from assms obtain d d' where d: "AdvancedSettingsDialog ui0 (port_ok (globalComPort w)) (w_link w) = Some d"
    and r: "dialog_run evs d = Some d'" and w': "w' = w\<lparr>w_link := d_link d', w_le := w_le w @ d_le d'\<rparr>"
    by (auto simp: on_openAdvancedSettings_clicked_def split: option.splits)
  from d have d0: "d_link d = w_link w" "d_le d = []"
    by (auto simp: AdvancedSettingsDialog_def split: if_splits)
  from dialog_reach_inv [OF dialog_run_reach [OF dialog_start r]]
  show ?thesis using d0 w' by (auto simp: dialog_inv_def)
qed

lemma selectFolder_cancel_clears:
  "ui_selectFolder (w_form (on_selectFolderButton_clicked [] w)) = []"
  by (simp add: on_selectFolderButton_clicked_def)

lemma selectDynamicFolder_lines:
  assumes "readSettingsOrdered content = Some tbl" "filePath \<noteq> []"
  shows "\<exists>w'. on_selectDynamicFolderButton_clicked filePath content w = Some w'
           \<and> outputTerminal w' = outputTerminal w @ map setting_line tbl
           \<and> ui_selectDynamicFolder (w_form w') = filePath"
  using assms by (simp add: on_selectDynamicFolderButton_clicked_def)

lemma gui_inv_init: "gui_inv gui_init"
  by (simp add: gui_inv_def gui_init_def worker_init_def table_ok_def)

lemma app_step_inv:
  assumes "app_step port_ok fmt e (w, g) = Some (w', g')" "com_inv w" "gui_inv g"
  shows "com_inv w' \<and> gui_inv g'"
  using assms by (cases e) (auto intro: window_step_com_inv gui_step_inv simp del: gui_step.simps)

lemma app_run_inv:
  "app_run port_ok fmt es (w, g) = Some (w', g') \<Longrightarrow> com_inv w \<Longrightarrow> gui_inv g \<Longrightarrow> com_inv w' \<and> gui_inv g'"
proof (induction es arbitrary: w g)
  case Nil
  then show ?case by simp
next
  case (Cons e es)
  from Cons.prems(1) obtain w1 g1 where s: "app_step port_ok fmt e (w, g) = Some (w1, g1)"
    and r: "app_run port_ok fmt es (w1, g1) = Some (w', g')"
    by (auto split: option.splits)
  from app_step_inv [OF s Cons.prems(2,3)] show ?case using Cons.IH [OF r] by blast
qed

text \<open>
  C5: whatever the user clicks and whenever the worker finishes, every state the
  application started by \<open>main\<close> reaches keeps the COM-port widgets consistent (the three
  items, a valid index, the direct-input box and its confirm button shown exactly while
  \<open>Direct Input\<close> is selected) and keeps the worker's invariant (its settings table well
  formed and empty unless dynamic, the ready flag only with a started thread).
\<close>

theorem demoqt_main_inv:
  "demoqt_main port_ok fmt form st evs = Some (w, g) \<Longrightarrow> com_inv w \<and> gui_inv g"
  unfolding demoqt_main_def by (erule app_run_inv) (rule com_inv_init, rule gui_inv_init)

theorem demoqt_main_inv_witness:
  "\<exists>w g. demoqt_main (\<lambda>_. True) (\<lambda>_. []) demo_ui link0
            [Panel (ComPortSelected 2), Panel (ComPortTyped ''COM7''), Panel ConfirmComPort, PrintStart]
          = Some (w, g) \<and> com_inv w \<and> gui_inv g"
proof -
  have "\<exists>w g. demoqt_main (\<lambda>_. True) (\<lambda>_. []) demo_ui link0
          [Panel (ComPortSelected 2), Panel (ComPortTyped ''COM7''), Panel ConfirmComPort, PrintStart] = Some (w, g)"
    by (simp add: demoqt_main_def demoqt_init_def currentText_def onComPortComboBoxChanged_def
        onConfirmComPortButtonClicked_def on_startPrintButton_clicked_def gui_init_def)
  then show ?thesis using demoqt_main_inv by blast
qed

end
