(* ===== verification/Dummy_Runs.thy ===== *)
theory Dummy_Runs
  imports Prelude
begin

text \<open>
  The hardware-free test runs of \<open>src/src/individualCommands.cpp\<close>:
  \<open>InitializeSystemDummy\<close> and \<open>RunFullDummy\<close>. Both list a directory (a
  \<open>std::filesystem::filesystem_error\<close> makes them return) and sort the paths with
  \<open>customSort\<close>; the listing observation is the list after that sort (the comparator is
  studied in \<^theory_text>\<open>Image_Order\<close>). What they do to the SFML window is a trace of
  \<open>frame_event\<close>s. One iteration of \<open>RunFullDummy\<close>'s loop observes whether a close event
  was polled and whether \<open>loadFromFile\<close> succeeded; the loop has no bound of its own, so it is
  a \<open>partial_function (option)\<close> over the iteration's observations, \<open>None\<close> when it never
  ends.
\<close>

datatype frame_event = WinClear | WinDraw string | WinDisplay | WinClose

record dummy_obs =
  closed_event :: bool
  load_ok :: bool

text \<open>\<open>InitializeSystemDummy\<close>: \<open>imagePaths[currentImage]\<close> with \<open>currentImage = 0\<close> is read
  whatever the directory holds (\<open>None\<close>: out of range on an empty directory); the first
  texture is drawn, then the window is cleared and displayed.\<close>

definition InitializeSystemDummy :: "string list option \<Rightarrow> frame_event list option" where
  "InitializeSystemDummy listing =
     (case listing of
        None \<Rightarrow> Some []
      | Some imagePaths \<Rightarrow>
          if imagePaths = [] then None
          else Some [WinClear, WinDraw (imagePaths ! 0), WinClear, WinDisplay])"

text \<open>\<open>while (window.isOpen() && currentImageIndex < imagePaths.size())\<close>: poll the events
  (a close event closes the window), then load the current image; on success clear, draw,
  display and advance, on failure log and retry the same image.\<close>

partial_function (option) RunFullDummy_loop ::
  "(nat \<Rightarrow> dummy_obs) \<Rightarrow> nat \<Rightarrow> string list \<Rightarrow> bool \<Rightarrow> nat \<Rightarrow> frame_event list \<Rightarrow> (frame_event list \<times> bool) option" where
  "RunFullDummy_loop env k imagePaths isOpen currentImageIndex tr =
     (if isOpen \<and> currentImageIndex < length imagePaths then
        (let ob = env k;
             tr1 = (if closed_event ob then tr @ [WinClose] else tr)
         in if load_ok ob
            then RunFullDummy_loop env (Suc k) imagePaths (\<not> closed_event ob) (Suc currentImageIndex)
                   (tr1 @ [WinClear, WinDraw (imagePaths ! currentImageIndex), WinDisplay])
            else RunFullDummy_loop env (Suc k) imagePaths (\<not> closed_event ob) currentImageIndex tr1)
      else Some (tr, isOpen))"

text \<open>The listing holds each entry with \<open>is_regular_file()\<close>; after the loop the window is
  closed.\<close>

definition RunFullDummy :: "(string \<times> bool) list option \<Rightarrow> (nat \<Rightarrow> dummy_obs) \<Rightarrow> frame_event list option" where
  "RunFullDummy listing env =
     (case listing of
        None \<Rightarrow> Some []
      | Some entries \<Rightarrow>
          map_option (\<lambda>(tr, _). tr @ [WinClose]) (RunFullDummy_loop env 0 (map fst (filter snd entries)) True 0 []))"

definition image_frames :: "string list \<Rightarrow> frame_event list" where
  "image_frames ps = concat (map (\<lambda>p. [WinClear, WinDraw p, WinDisplay]) ps)"

subsection \<open>Lemmas\<close>

lemma InitializeSystemDummy_empty: "InitializeSystemDummy (Some []) = None"
  by (simp add: InitializeSystemDummy_def)

lemma InitializeSystemDummy_blank:
  "InitializeSystemDummy (Some ps) = Some tr \<Longrightarrow> \<exists>pre. tr = pre @ [WinClear, WinDisplay]"
  by (auto simp: InitializeSystemDummy_def split: if_splits)

lemma RunFullDummy_loop_retries:
  assumes "\<forall>j\<ge>k. \<not> closed_event (env j) \<and> \<not> load_ok (env j)" "idx < length ps"
  shows "RunFullDummy_loop env k ps True idx tr = None"
proof (rule ccontr)
  assume "RunFullDummy_loop env k ps True idx tr \<noteq> None"
  then obtain x where "RunFullDummy_loop env k ps True idx tr = Some x" by blast
  then have "\<not> (True \<and> (\<forall>j\<ge>k. \<not> closed_event (env j) \<and> \<not> load_ok (env j)) \<and> idx < length ps)"
  proof (induction rule: RunFullDummy_loop.raw_induct [rotated, consumes 1])
    case (1 f env k ps isOpen idx tr x)
    show ?case
    proof
      assume a: "isOpen \<and> (\<forall>j\<ge>k. \<not> closed_event (env j) \<and> \<not> load_ok (env j)) \<and> idx < length ps"
      with 1(2) have "f env (Suc k) ps True idx tr = Some x" by (simp add: Let_def)
      then have "\<not> (True \<and> (\<forall>j\<ge>Suc k. \<not> closed_event (env j) \<and> \<not> load_ok (env j)) \<and> idx < length ps)"
        by (rule 1(1))
      with a show False by auto
    qed
  qed
  with assms show False by blast
qed

lemma RunFullDummy_loop_complete:
  assumes "\<forall>j<length ps - idx. \<not> closed_event (env (k + j)) \<and> load_ok (env (k + j))"
  shows "RunFullDummy_loop env k ps True idx tr = Some (tr @ image_frames (drop idx ps), True)"
  using assms
proof (induction "length ps - idx" arbitrary: k idx tr)
  case 0
  then show ?case by (simp add: RunFullDummy_loop.simps image_frames_def)
next
  case (Suc n)
  then have lt: "idx < length ps" and ob: "\<not> closed_event (env k)" "load_ok (env k)"
    using spec [OF Suc.prems, of 0] by auto
  have "\<forall>j<length ps - Suc idx. \<not> closed_event (env (Suc k + j)) \<and> load_ok (env (Suc k + j))"
    using Suc.prems Suc.hyps(2) by (metis add_Suc_shift diff_Suc_eq_diff_pred less_diff_conv lessI less_trans_Suc Suc_diff_Suc lt)
  from Suc.hyps(1) [OF _ this] Suc.hyps(2) have
    "RunFullDummy_loop env (Suc k) ps True (Suc idx) (tr @ [WinClear, WinDraw (ps ! idx), WinDisplay]) =
       Some (tr @ [WinClear, WinDraw (ps ! idx), WinDisplay] @ image_frames (drop (Suc idx) ps), True)"
    by simp
  moreover have "drop idx ps = ps ! idx # drop (Suc idx) ps" using lt by (simp add: Cons_nth_drop_Suc)
  ultimately show ?case
    using lt ob by (simp add: RunFullDummy_loop.simps [of env k] Let_def image_frames_def)
qed

lemma RunFullDummy_closed:
  assumes "closed_event (env k)" "idx < length ps"
  shows "RunFullDummy_loop env k ps True idx tr =
           Some (tr @ WinClose # (if load_ok (env k) then [WinClear, WinDraw (ps ! idx), WinDisplay] else []), False)"
  using assms by (simp add: RunFullDummy_loop.simps [of env k] RunFullDummy_loop.simps [of env "Suc k"] Let_def)

lemma RunFullDummy_complete:
  assumes "\<forall>j<length (filter snd entries). \<not> closed_event (env j) \<and> load_ok (env j)"
  shows "RunFullDummy (Some entries) env = Some (image_frames (map fst (filter snd entries)) @ [WinClose])"
  using RunFullDummy_loop_complete [of "map fst (filter snd entries)" 0 env 0 "[]"] assms
  by (simp add: RunFullDummy_def)

lemma RunFullDummy_stuck:
  assumes "\<forall>j. \<not> closed_event (env j) \<and> \<not> load_ok (env j)" "filter snd entries \<noteq> []"
  shows "RunFullDummy (Some entries) env = None"
  using RunFullDummy_loop_retries [of 0 env 0 "map fst (filter snd entries)" "[]"] assms
  by (simp add: RunFullDummy_def)

end
