(* ===== verification/Serial_Port.thy ===== *)
theory Serial_Port
  imports Motion
begin

text \<open>
  The port side of \<open>SMC100C\<close> (\<open>src/src/SMC100C.cpp\<close>): \<open>SMC100CInit\<close>, which names the
  port, sets 57600 baud and opens it, \<open>SMC100CClose\<close>, \<open>Available\<close>, and \<open>GetCustom\<close>,
  which writes a caller's command (\<open>cmd\<close>, \<open>Command\<close> in the source) verbatim and
  reads the reply. What \<open>serial::Serial::open\<close>
  does on a port of a given name is the observation \<open>open_result\<close>: \<open>None\<close> when it throws
  \<open>serial::IOException\<close>, otherwise whether the port reports open.
\<close>

record port_state =
  port :: string
  baudrate :: nat
  isOpen :: bool

definition SMC100CInit :: "(string \<Rightarrow> bool option) \<Rightarrow> string \<Rightarrow> port_state \<Rightarrow> bool \<times> port_state" where
  "SMC100CInit open_result COMPORT ps =
     (let ps1 = ps\<lparr>port := COMPORT, baudrate := 57600\<rparr> in
      case open_result COMPORT of
        None \<Rightarrow> (False, ps1)
      | Some opened \<Rightarrow> (opened, ps1\<lparr>isOpen := opened\<rparr>))"

definition SMC100CClose :: "port_state \<Rightarrow> port_state" where
  "SMC100CClose ps = (if isOpen ps then ps\<lparr>isOpen := False\<rparr> else ps)"

text \<open>\<open>my_serial.available()\<close>: the bytes waiting in the receive buffer.\<close>

definition Available :: "link_state \<Rightarrow> int" where
  "Available st = int (length (rx_buf st))"

definition GetCustom :: "string \<Rightarrow> rx_obs list \<Rightarrow> link_state \<Rightarrow> (string \<times> link_state) option" where
  "GetCustom cmd os st =
     (let st1 = st\<lparr>rx_buf := [], tx_log := tx_log st @ cmd\<rparr> in
      case SerialRead (rx_buf st1) os of
        None \<Rightarrow> None
      | Some (reply, rx') \<Rightarrow> Some (reply, st1\<lparr>rx_buf := rx'\<rparr>))"

subsection \<open>Lemmas\<close>

lemma SMC100CInit_result:
  "SMC100CInit open_result COMPORT ps = (ok, ps') \<Longrightarrow>
     port ps' = COMPORT \<and> baudrate ps' = 57600 \<and> (ok \<longleftrightarrow> open_result COMPORT = Some True)
     \<and> (ok \<longrightarrow> isOpen ps')"
  by (auto simp: SMC100CInit_def Let_def split: option.splits)

lemma SMC100CClose_closed: "\<not> isOpen (SMC100CClose ps)"
  by (simp add: SMC100CClose_def)

lemma SMC100CClose_idem: "SMC100CClose (SMC100CClose ps) = SMC100CClose ps"
  by (simp add: SMC100CClose_def)

text \<open>A custom command that is a complete protocol line is exactly the library's query.\<close>

lemma GetCustom_wire_line: "GetCustom (wire_line e) os st = query_reply e os st"
  by (simp add: GetCustom_def query_reply_def send_entry_wire Let_def)

lemma GetCustom_query: "GetCustom (wire_line (query_entry q)) os st = run_query q os st"
  by (simp add: GetCustom_wire_line run_query_def)

text \<open>\<open>GetCustom\<close> adds no terminator: a command without its CR LF reaches the controller
  as an unterminated line.\<close>

lemma GetCustom_unterminated:
  "GetCustom cmd os st = Some (r, st') \<Longrightarrow> tx_log st' = tx_log st @ cmd"
  by (auto simp: GetCustom_def Let_def split: option.splits)

end
